theory Spec2Isabelle
  imports Complex_Main "HOL-Library.Log_Nat"
begin

section \<open>Python values used by the expense tracker\<close>

text \<open>
  A Python \<open>str\<close> is a sequence of code points. The model uses \<^typ>\<open>string\<close>, reading each
  \<^typ>\<open>char\<close> as the code point of the same number (U+0000 to U+00FF), so \<open>len\<close> is
  \<^const>\<open>length\<close>. On this range \<open>str.isspace\<close>, which decides both \<open>str.strip()\<close> and the
  regular-expression class \<open>\s\<close>, holds for the ten ASCII separators and for U+0085 and
  U+00A0; the class \<open>\d\<close> holds for the ASCII digits only.
\<close>

definition isspace :: "char \<Rightarrow> bool" where
  "isspace c = (of_char c \<in> {9, 10, 11, 12, 13, 28, 29, 30, 31, 32, 133, 160 :: nat})"

definition isdigit :: "char \<Rightarrow> bool" where
  "isdigit c = (48 \<le> (of_char c :: nat) \<and> (of_char c :: nat) \<le> 57)"

definition newline :: char where
  "newline = CHR 0x0A"

definition strip :: "string \<Rightarrow> string" where
  "strip s = rev (dropWhile isspace (rev (dropWhile isspace s)))"

text \<open>
  A Python \<open>float\<close> is a binary64 value. A finite one is represented by the rational number
  it denotes (the sign of zero is not represented).
\<close>

datatype pyfloat = Flt rat | PosInf | NegInf | NaN

definition pow2 :: "int \<Rightarrow> rat" where
  "pow2 e = (if 0 \<le> e then 2 ^ nat e else 1 / 2 ^ nat (- e))"

definition round_half_even :: "rat \<Rightarrow> int" where
  "round_half_even x =
     (let f = \<lfloor>x\<rfloor>; d = x - of_int f
      in if d < 1 / 2 then f else if 1 / 2 < d then f + 1 else if even f then f else f + 1)"

definition binade :: "int \<Rightarrow> int \<Rightarrow> int" where
  \<comment> \<open>\<open>\<lfloor>log\<^sub>2 (n / d)\<rfloor>\<close> for positive \<open>n\<close> and \<open>d\<close>\<close>
  "binade n d =
     (let e = bitlen n - bitlen d
      in if pow2 e * of_int d \<le> (of_int n :: rat) then e else e - 1)"

definition round_to_double :: "int \<Rightarrow> int \<Rightarrow> pyfloat" where
  \<comment> \<open>the binary64 value nearest to \<open>n / d\<close> (\<open>0 \<le> n\<close>, \<open>0 < d\<close>), ties to even: 53 significant
      bits, subnormal below \<open>2\<^sup>-\<^sup>1\<^sup>0\<^sup>2\<^sup>2\<close> with spacing \<open>2\<^sup>-\<^sup>1\<^sup>0\<^sup>7\<^sup>4\<close>, infinite from \<open>2\<^sup>1\<^sup>0\<^sup>2\<^sup>4\<close>\<close>
  "round_to_double n d =
     (let x = (of_int n :: rat) / of_int d
      in if x < pow2 (- 1022)
         then Flt (of_int (round_half_even (x * 2 ^ 1074)) / 2 ^ 1074)
         else let q = pow2 (binade n d - 52);
                  y = of_int (round_half_even (x / q)) * q
              in if 2 ^ 1024 \<le> y then PosInf else Flt y)"

text \<open>
  \<open>float(s)\<close> on the strings that can reach it in \<open>parse_expense_message\<close>: a run of digits,
  optionally followed by a dot and another run of digits. Python converts such a numeral
  to the nearest binary64 value. On every other string the model answers \<open>None\<close>, the
  \<open>ValueError\<close> of the source's inner \<open>try\<close> (Python accepts further forms, such as signs
  and exponents, that no string captured by the pattern has).
\<close>

definition digit_value :: "char \<Rightarrow> int" where
  "digit_value c = of_char c - 48"

definition digits_value :: "string \<Rightarrow> int" where
  "digits_value ds = foldl (\<lambda>a c. 10 * a + digit_value c) 0 ds"

definition float_of_str :: "string \<Rightarrow> pyfloat option" where
  "float_of_str s =
     (let ip = takeWhile isdigit s; r = dropWhile isdigit s
      in if ip = [] then None
         else if r = [] then Some (round_to_double (digits_value ip) 1)
         else if hd r = CHR ''.'' \<and> tl r \<noteq> [] \<and> list_all isdigit (tl r)
         then Some (round_to_double (digits_value (ip @ tl r)) (10 ^ length (tl r)))
         else None)"

text \<open>Comparison of a float with a Python \<open>int\<close> (\<open>amount <= 0\<close>, \<open>amount > 1000000\<close>).\<close>

fun float_le_int :: "pyfloat \<Rightarrow> int \<Rightarrow> bool" where
  "float_le_int (Flt x) n = (x \<le> of_int n)"
| "float_le_int PosInf n = False"
| "float_le_int NegInf n = True"
| "float_le_int NaN n = False"

fun float_gt_int :: "pyfloat \<Rightarrow> int \<Rightarrow> bool" where
  "float_gt_int (Flt x) n = (of_int n < x)"
| "float_gt_int PosInf n = True"
| "float_gt_int NegInf n = False"
| "float_gt_int NaN n = False"

section \<open>Regular expressions as Python's backtracking matcher runs them\<close>

text \<open>
  The fragment of \<open>re\<close> that the pattern of \<open>parse_expense_message\<close> uses: a character class,
  a greedy \<open>+\<close> over a character class, concatenation, a greedy \<open>?\<close>, a numbered capturing
  group and \<open>$\<close>. \<^term>\<open>rx_match r (s, c)\<close> lists, in the order in which the backtracking
  matcher tries them, the ways in which \<open>r\<close> matches a prefix of \<open>s\<close>: each is the input left
  over together with the groups captured so far (latest first).
\<close>

datatype rx =
    Cls "char \<Rightarrow> bool"
  | Rep1 "char \<Rightarrow> bool"
  | Seq rx rx
  | Opt rx
  | Grp nat rx
  | Eos

type_synonym captures = "(nat \<times> string) list"

fun rx_match :: "rx \<Rightarrow> string \<times> captures \<Rightarrow> (string \<times> captures) list" where
  "rx_match (Cls p) (s, c) =
     (case s of [] \<Rightarrow> [] | x # xs \<Rightarrow> if p x then [(xs, c)] else [])"
| "rx_match (Rep1 p) (s, c) =
     map (\<lambda>n. (drop n s, c)) (rev [1..<Suc (length (takeWhile p s))])"
| "rx_match (Seq a b) st = concat (map (rx_match b) (rx_match a st))"
| "rx_match (Opt a) st = rx_match a st @ [st]"
| "rx_match (Grp n a) (s, c) =
     map (\<lambda>(s', c'). (s', (n, take (length s - length s') s) # c')) (rx_match a (s, c))"
| "rx_match Eos (s, c) = (if s = [] \<or> s = [newline] then [(s, c)] else [])"

definition re_match :: "rx \<Rightarrow> string \<Rightarrow> captures option" where
  \<comment> \<open>\<open>re.match\<close>: anchored at the start, the first way found wins\<close>
  "re_match r s = (case rx_match r (s, []) of [] \<Rightarrow> None | (_, c) # _ \<Rightarrow> Some c)"

definition match_group :: "captures \<Rightarrow> nat \<Rightarrow> string option" where
  \<comment> \<open>\<open>match.group(n)\<close>; \<open>None\<close> for a group that took no part in the match\<close>
  "match_group c n = map_of c n"

section \<open>The message parser (src/bot/utils.py)\<close>

definition sepcls :: "char \<Rightarrow> bool" where
  \<comment> \<open>the class \<^verbatim>\<open>[.,]\<close>\<close>
  "sepcls c = (c = CHR ''.'' \<or> c = CHR '','')"

definition dotcls :: "char \<Rightarrow> bool" where
  \<comment> \<open>the class \<^verbatim>\<open>.\<close> without \<open>re.DOTALL\<close>: any character but the newline\<close>
  "dotcls c = (c \<noteq> newline)"

definition pattern :: rx where
  \<comment> \<open>\<^verbatim>\<open>^(\d+(?:[.,]\d+)?)\s+(.+)$\<close>\<close>
  "pattern =
     Seq (Grp 1 (Seq (Rep1 isdigit) (Opt (Seq (Cls sepcls) (Rep1 isdigit)))))
         (Seq (Rep1 isspace) (Seq (Grp 2 (Rep1 dotcls)) Eos))"

definition replace_comma :: "string \<Rightarrow> string" where
  \<comment> \<open>\<open>amount_str.replace(',', '.')\<close>\<close>
  "replace_comma s = map (\<lambda>c. if c = CHR '','' then CHR ''.'' else c) s"

text \<open>
  The seven messages of the parser, and the one of its outer \<open>except\<close>. Each starts in the
  source with a cross-mark symbol and a space, left out here because the symbol lies
  outside the modelled range of code points.
\<close>

definition MSG_EMPTY :: string where
  "MSG_EMPTY = ''Message is empty.''"

definition MSG_FORMAT :: string where
  "MSG_FORMAT = ''Invalid format. Please use: `amount category` (e.g., `6.60 food`)''"

definition MSG_AMOUNT :: string where
  "MSG_AMOUNT = ''Invalid amount. Please enter a valid number.''"

definition MSG_NOT_POSITIVE :: string where
  "MSG_NOT_POSITIVE = ''Amount must be greater than 0.''"

definition MSG_TOO_HIGH :: string where
  "MSG_TOO_HIGH = ''Amount seems too high. Please check and try again.''"

definition MSG_NO_DESCRIPTION :: string where
  "MSG_NO_DESCRIPTION = ''Please provide a description for your expense.''"

definition MSG_TOO_LONG :: string where
  "MSG_TOO_LONG = ''Description is too long. Please keep it under 100 characters.''"

definition MSG_EXCEPTION :: string where
  "MSG_EXCEPTION = ''Error parsing message: ''"

type_synonym parse_result = "pyfloat option \<times> string option \<times> string"

definition parse_expense_message :: "string \<Rightarrow> parse_result" where
  "parse_expense_message message0 =
     (let message = strip message0
      in if message = [] then (None, None, MSG_EMPTY)
         else case re_match pattern message of
           None \<Rightarrow> (None, None, MSG_FORMAT)
         | Some groups \<Rightarrow>
             (case (match_group groups 1, match_group groups 2) of
                (Some amount_str, Some category) \<Rightarrow>
                  (case float_of_str (replace_comma amount_str) of
                     None \<Rightarrow> (None, None, MSG_AMOUNT)
                   | Some amount \<Rightarrow>
                       if float_le_int amount 0 then (None, None, MSG_NOT_POSITIVE)
                       else if float_gt_int amount 1000000 then (None, None, MSG_TOO_HIGH)
                       else let category = strip category
                            in if category = [] then (None, None, MSG_NO_DESCRIPTION)
                               else if length category > 100 then (None, None, MSG_TOO_LONG)
                               else (Some amount, Some category, ''''))
              | _ \<Rightarrow> (None, None, MSG_EXCEPTION)))"

section \<open>What the parser's checks mean, stated on the message itself\<close>

text \<open>
  The parts of a stripped message that the pattern separates: the text before the first
  whitespace character, and what follows the whitespace after it. A numeral has the form
  \<^verbatim>\<open>\d+([.,]\d+)?\<close>; its value is a ratio of integers, the separator read as a decimal
  point.
\<close>

definition decimal_numeral :: "string \<Rightarrow> bool" where
  "decimal_numeral n =
     (let ip = takeWhile isdigit n; r = dropWhile isdigit n
      in ip \<noteq> [] \<and>
         (r = [] \<or> ((hd r = CHR ''.'' \<or> hd r = CHR '','') \<and> tl r \<noteq> [] \<and> list_all isdigit (tl r))))"

definition numeric_part :: "string \<Rightarrow> string" where
  "numeric_part m = takeWhile (\<lambda>c. \<not> isspace c) m"

definition trailing_text :: "string \<Rightarrow> string" where
  "trailing_text m = dropWhile isspace (dropWhile (\<lambda>c. \<not> isspace c) m)"

definition matches_format :: "string \<Rightarrow> bool" where
  "matches_format m =
     (decimal_numeral (numeric_part m) \<and> trailing_text m \<noteq> [] \<and> newline \<notin> set (trailing_text m))"

definition decimal_numerator :: "string \<Rightarrow> int" where
  "decimal_numerator n = digits_value (filter isdigit n)"

definition decimal_denominator :: "string \<Rightarrow> int" where
  "decimal_denominator n = 10 ^ length (filter isdigit (dropWhile isdigit n))"

definition decimal_value :: "string \<Rightarrow> rat" where
  "decimal_value n = of_int (decimal_numerator n) / of_int (decimal_denominator n)"

definition numpat :: rx where
  \<comment> \<open>the first group of \<^const>\<open>pattern\<close>\<close>
  "numpat = Seq (Rep1 isdigit) (Opt (Seq (Cls sepcls) (Rep1 isdigit)))"

text \<open>
  The validation order of the parser as the specification lists it, each check stated on
  the parts of the stripped message.
\<close>

definition parse_checked :: "string \<Rightarrow> parse_result" where
  "parse_checked msg =
     (let m = strip msg
      in if m = [] then (None, None, MSG_EMPTY)
         else if \<not> matches_format m then (None, None, MSG_FORMAT)
         else case float_of_str (replace_comma (numeric_part m)) of
                None \<Rightarrow> (None, None, MSG_AMOUNT)
              | Some amount \<Rightarrow>
                  if float_le_int amount 0 then (None, None, MSG_NOT_POSITIVE)
                  else if float_gt_int amount 1000000 then (None, None, MSG_TOO_HIGH)
                  else if trailing_text m = [] then (None, None, MSG_NO_DESCRIPTION)
                  else if length (trailing_text m) > 100 then (None, None, MSG_TOO_LONG)
                  else (Some amount, Some (trailing_text m), ''''))"

text \<open>
  The failures of the parser under the names the specification gives them, each with the
  message the source returns for it, and the first check that fails on a message, in the
  order of the specification.
\<close>

datatype parse_failure =
    EmptyInput | FormatError | AmountError | NonPositiveAmount | AmountTooLarge
  | MissingCategory | CategoryTooLong

fun failure_message :: "parse_failure \<Rightarrow> string" where
  "failure_message EmptyInput = MSG_EMPTY"
| "failure_message FormatError = MSG_FORMAT"
| "failure_message AmountError = MSG_AMOUNT"
| "failure_message NonPositiveAmount = MSG_NOT_POSITIVE"
| "failure_message AmountTooLarge = MSG_TOO_HIGH"
| "failure_message MissingCategory = MSG_NO_DESCRIPTION"
| "failure_message CategoryTooLong = MSG_TOO_LONG"

definition first_failing_check :: "string \<Rightarrow> parse_failure option" where
  \<comment> \<open>the order of the specification, the amount being the numeric part of the message,
      comma read as a decimal point\<close>
  "first_failing_check msg =
     (let m = strip msg;
          amount = decimal_value (numeric_part m);
          category = strip (trailing_text m)
      in if m = [] then Some EmptyInput
         else if \<not> matches_format m then Some FormatError
         else if \<not> decimal_numeral (numeric_part m) then Some AmountError
         else if amount \<le> 0 then Some NonPositiveAmount
         else if amount > 1000000 then Some AmountTooLarge
         else if category = [] then Some MissingCategory
         else if length category > 100 then Some CategoryTooLong
         else None)"

definition first_failing_float_check :: "string \<Rightarrow> parse_failure option" where
  \<comment> \<open>the same order, the amount being the binary64 value that \<open>float\<close> reads from the numeric
      part\<close>
  "first_failing_float_check msg =
     (let m = strip msg;
          category = strip (trailing_text m)
      in if m = [] then Some EmptyInput
         else if \<not> matches_format m then Some FormatError
         else case float_of_str (replace_comma (numeric_part m)) of
                None \<Rightarrow> Some AmountError
              | Some amount \<Rightarrow>
                  if float_le_int amount 0 then Some NonPositiveAmount
                  else if float_gt_int amount 1000000 then Some AmountTooLarge
                  else if category = [] then Some MissingCategory
                  else if length category > 100 then Some CategoryTooLong
                  else None)"

text \<open>
  A message whose numeral is positive and whose double is zero: \<open>10\<^sup>-\<^sup>3\<^sup>2\<^sup>4\<close>, written with 324
  digits after the point, followed by a one-letter description.
\<close>

definition tiny_numeral :: string where
  "tiny_numeral = ''0.'' @ replicate 323 (CHR ''0'') @ ''1''"

definition tiny_message :: string where
  "tiny_message = tiny_numeral @ '' x''"

text \<open>
  A message whose numeral is above the ceiling and whose double is the ceiling:
  \<open>1000000 + 10\<^sup>-\<^sup>1\<^sup>1\<close>.
\<close>

definition ceiling_numeral :: string where
  "ceiling_numeral = ''1000000.00000000001''"

definition ceiling_message :: string where
  "ceiling_message = ceiling_numeral @ '' rent''"

section \<open>JSON values, exceptions and the outside world\<close>

text \<open>
  What \<open>json.loads\<close> and \<open>response.json()\<close> return: a dict is an association list, looked up
  with \<^const>\<open>map_of\<close>. An exception is its class and the text \<open>str(e)\<close>.
\<close>

datatype json =
    JNull | JBool bool | JInt int | JReal pyfloat | JStr string
  | JArr "json list" | JObj "(string \<times> json) list"

datatype exn_class =
    RequestException | JSONDecodeError | ValueError | TypeError | AttributeError
  | KeyError | OverflowError | OtherException

datatype pyexn = Exn exn_class string

fun exn_text :: "pyexn \<Rightarrow> string" where
  "exn_text (Exn c s) = s"

fun is_request_exception :: "pyexn \<Rightarrow> bool" where
  "is_request_exception (Exn c s) = (c = RequestException)"

type_synonym dict = "(string \<times> json) list"

definition dict_get :: "dict \<Rightarrow> string \<Rightarrow> json \<Rightarrow> json" where
  \<comment> \<open>\<open>d.get(key, default)\<close>\<close>
  "dict_get d k dflt = (case map_of d k of Some v \<Rightarrow> v | None \<Rightarrow> dflt)"

definition dict_merge :: "dict \<Rightarrow> dict \<Rightarrow> dict" where
  \<comment> \<open>\<open>{**a, **b}\<close>: the keys of \<open>a\<close> in place, with the values of \<open>b\<close> where it has the key,
      then the other keys of \<open>b\<close>\<close>
  "dict_merge a b =
     map (\<lambda>(k, v). (k, dict_get b k v)) a @ filter (\<lambda>(k, v). map_of a k = None) b"

fun truthy :: "json \<Rightarrow> bool" where
  "truthy JNull = False"
| "truthy (JBool b) = b"
| "truthy (JInt n) = (n \<noteq> 0)"
| "truthy (JReal f) = (f \<noteq> Flt 0)"
| "truthy (JStr s) = (s \<noteq> [])"
| "truthy (JArr xs) = (xs \<noteq> [])"
| "truthy (JObj d) = (d \<noteq> [])"

record http_response =
  status_code :: int
  json_body :: "pyexn + json"

text \<open>
  The collaborators outside the repository, as they answer: the webhook behind
  \<open>requests.post\<close> and the language model behind \<open>ollama.Client.chat\<close>, both free to depend
  on a state \<open>'s\<close> of the outside world and to change it, and the library functions whose
  result the code only passes on. A prompt is kept as the values that the source puts into
  its template; the fixed text of the template is left out.
\<close>

datatype prompt =
    CategorizationPrompt "string list"
  | PatternPrompt string string string string
  | InsightsPrompt string string string "string list"

record 's env =
  post :: "json \<Rightarrow> 's \<Rightarrow> (pyexn + http_response) \<times> 's"
  chat :: "prompt \<Rightarrow> 's \<Rightarrow> (pyexn + string) \<times> 's"
  loads :: "string \<Rightarrow> pyexn + json"
  repr :: "json \<Rightarrow> string"
  format_float :: "pyfloat \<Rightarrow> string"
  float_of_string :: "string \<Rightarrow> pyexn + pyfloat"
  int_of_string :: "string \<Rightarrow> pyexn + int"
  sum_floats :: "pyfloat list \<Rightarrow> json"
  DataFrame :: "json \<Rightarrow> pyexn + (string \<times> json list) list"
  now :: string

definition py_str :: "'s env \<Rightarrow> json \<Rightarrow> string" where
  \<comment> \<open>\<open>str(v)\<close>, as an f-string formats a value: a string is itself, any other value is printed
      by the interpreter\<close>
  "py_str env v = (case v of JStr s \<Rightarrow> s | _ \<Rightarrow> repr env v)"

definition float_of_int :: "int \<Rightarrow> pyexn + pyfloat" where
  \<comment> \<open>\<open>float(n)\<close> of a Python \<open>int\<close>: the nearest binary64 value, \<open>OverflowError\<close> beyond the range\<close>
  "float_of_int n =
     (if n = 0 then Inr (Flt 0)
      else case round_to_double \<bar>n\<bar> 1 of
             Flt x \<Rightarrow> Inr (Flt (if n < 0 then - x else x))
           | _ \<Rightarrow> Inl (Exn OverflowError ''int too large to convert to float''))"

definition format_2f :: "'s env \<Rightarrow> json \<Rightarrow> pyexn + string" where
  \<comment> \<open>\<open>f"{v:.2f}"\<close>: a float is formatted, an \<open>int\<close> or a \<open>bool\<close> is converted to a float first,
      a string has no format code \<open>f\<close>, the other values accept no format string\<close>
  "format_2f env v =
     (case v of
        JReal f \<Rightarrow> Inr (format_float env f)
      | JInt n \<Rightarrow> (case float_of_int n of Inl e \<Rightarrow> Inl e | Inr f \<Rightarrow> Inr (format_float env f))
      | JBool b \<Rightarrow> Inr (format_float env (Flt (if b then 1 else 0)))
      | JStr s \<Rightarrow> Inl (Exn ValueError ''Unknown format code f for object of type str'')
      | _ \<Rightarrow> Inl (Exn TypeError ''unsupported format string''))"

section \<open>The ledger client (src/sheets/client.py)\<close>

definition log_expense_try :: "'s env \<Rightarrow> pyfloat \<Rightarrow> string \<Rightarrow> 's \<Rightarrow> (pyexn + dict) \<times> 's" where
  \<comment> \<open>the body of the \<open>try\<close> of \<open>SimpleSheetsClient.log_expense\<close>\<close>
  "log_expense_try env amount category st =
     (let payload = JObj [(''amount'', JReal amount), (''category'', JStr category)]
      in case post env payload st of
           (Inl e, st') \<Rightarrow> (Inl e, st')
         | (Inr response, st') \<Rightarrow>
             if status_code response = 200 then
               (case json_body response of
                  Inl e \<Rightarrow> (Inl e, st')
                | Inr (JObj result) \<Rightarrow>
                    if truthy (dict_get result ''success'' JNull) then
                      (Inr [(''success'', JBool True),
                            (''message'', dict_get result ''message'' (JStr ''Expense logged successfully'')),
                            (''running_total'', dict_get result ''runningTotal'' (JInt 0))], st')
                    else
                      (Inr [(''success'', JBool False),
                            (''message'', JStr (''Apps Script error: '' @
                               py_str env (dict_get result ''error'' (JStr ''Unknown error'')))),
                            (''running_total'', JInt 0)], st')
                | Inr _ \<Rightarrow> (Inl (Exn AttributeError ''object has no attribute get''), st'))
             else
               (Inr [(''success'', JBool False),
                     (''message'', JStr (''HTTP error '' @ repr env (JInt (status_code response)))),
                     (''running_total'', JInt 0)], st'))"

definition log_expense :: "'s env \<Rightarrow> pyfloat \<Rightarrow> string \<Rightarrow> 's \<Rightarrow> (pyexn + dict) \<times> 's" where
  \<comment> \<open>with its two \<open>except\<close> clauses\<close>
  "log_expense env amount category st =
     (case log_expense_try env amount category st of
        (Inl e, st') \<Rightarrow>
          if is_request_exception e then
            (Inr [(''success'', JBool False),
                  (''message'', JStr (''Request failed: '' @ exn_text e)),
                  (''running_total'', JInt 0)], st')
          else
            (Inr [(''success'', JBool False),
                  (''message'', JStr (''Unexpected error: '' @ exn_text e)),
                  (''running_total'', JInt 0)], st')
      | (Inr r, st') \<Rightarrow> (Inr r, st'))"

definition call_apps_script_function_try ::
    "'s env \<Rightarrow> string \<Rightarrow> dict \<Rightarrow> 's \<Rightarrow> (pyexn + dict) \<times> 's" where
  "call_apps_script_function_try env function_name params st =
     (let payload = JObj (dict_merge [(''action'', JStr function_name)] params)
      in case post env payload st of
           (Inl e, st') \<Rightarrow> (Inl e, st')
         | (Inr response, st') \<Rightarrow>
             if status_code response = 200 then
               (case json_body response of
                  Inl e \<Rightarrow> (Inl e, st')
                | Inr (JObj result) \<Rightarrow>
                    if truthy (dict_get result ''success'' JNull) then (Inr result, st')
                    else (Inr result, st')
                | Inr _ \<Rightarrow> (Inl (Exn AttributeError ''object has no attribute get''), st'))
             else
               (Inr [(''success'', JBool False),
                     (''message'', JStr (''HTTP error '' @ repr env (JInt (status_code response))))],
                st'))"

definition call_apps_script_function ::
    "'s env \<Rightarrow> string \<Rightarrow> dict \<Rightarrow> 's \<Rightarrow> (pyexn + dict) \<times> 's" where
  "call_apps_script_function env function_name params st =
     (case call_apps_script_function_try env function_name params st of
        (Inl e, st') \<Rightarrow>
          if is_request_exception e then
            (Inr [(''success'', JBool False),
                  (''message'', JStr (''Request failed: '' @ exn_text e))], st')
          else
            (Inr [(''success'', JBool False),
                  (''message'', JStr (''Unexpected error: '' @ exn_text e))], st')
      | (Inr r, st') \<Rightarrow> (Inr r, st'))"

section \<open>The ledger facade (src/sheets/operations.py)\<close>




definition py_len :: "json \<Rightarrow> pyexn + int" where
  "py_len v =
     (case v of
        JStr s \<Rightarrow> Inr (int (length s))
      | JArr xs \<Rightarrow> Inr (int (length xs))
      | JObj d \<Rightarrow> Inr (int (length d))
      | _ \<Rightarrow> Inl (Exn TypeError ''object has no len()''))"

definition get_expense_data_for_analysis_try ::
    "'s env \<Rightarrow> string \<Rightarrow> 's \<Rightarrow> (pyexn + bool \<times> json \<times> json) \<times> 's" where
  "get_expense_data_for_analysis_try env period st =
     (case call_apps_script_function env ''getExpenseDataForAnalysis'' [(''period'', JStr period)] st of
        (Inl e, st') \<Rightarrow> (Inl e, st')
      | (Inr result, st') \<Rightarrow>
          if truthy (dict_get result ''success'' JNull) then
            (let expense_data = dict_get result ''data'' (JArr [])
             in case py_len expense_data of
                  Inl e \<Rightarrow> (Inl e, st')
                | Inr n \<Rightarrow>
                    (Inr (True,
                          dict_get result ''message''
                            (JStr (''Retrieved '' @ repr env (JInt n) @ '' expenses for '' @ period @ '' period'')),
                          expense_data), st'))
          else
            (Inr (False, dict_get result ''message'' (JStr ''Failed to get expense data''), JArr []), st'))"

definition get_expense_data_for_analysis ::
    "'s env \<Rightarrow> string \<Rightarrow> 's \<Rightarrow> (pyexn + bool \<times> json \<times> json) \<times> 's" where
  "get_expense_data_for_analysis env period st =
     (case get_expense_data_for_analysis_try env period st of
        (Inl e, st') \<Rightarrow>
          (Inr (False, JStr (''Error getting expense data for analysis: '' @ exn_text e), JArr []), st')
      | (Inr r, st') \<Rightarrow> (Inr r, st'))"

text \<open>
  The mock backend of the round-trip property: its state is the running total, it answers
  every logged amount with status 200, \<open>success\<close> and the new total \<open>previous + amount\<close>, the
  sum being the backend's own (\<open>add\<close>).
\<close>

definition mock_post ::
    "(pyfloat \<Rightarrow> pyfloat \<Rightarrow> pyfloat) \<Rightarrow> json \<Rightarrow> pyfloat \<Rightarrow> (pyexn + http_response) \<times> pyfloat" where
  "mock_post add payload previous =
     (case payload of
        JObj [(a, JReal amount), (c, category)] \<Rightarrow>
          (Inr \<lparr>status_code = 200,
                json_body = Inr (JObj [(''success'', JBool True),
                                       (''runningTotal'', JReal (add previous amount))])\<rparr>,
           add previous amount)
      | _ \<Rightarrow> (Inr \<lparr>status_code = 400, json_body = Inl (Exn RequestException ''no body'')\<rparr>, previous))"

definition mock_env :: "(pyfloat \<Rightarrow> pyfloat \<Rightarrow> pyfloat) \<Rightarrow> pyfloat env" where
  "mock_env add =
     \<lparr>post = mock_post add,
      chat = (\<lambda>p st. (Inl (Exn OtherException ''no model''), st)),
      loads = (\<lambda>s. Inl (Exn JSONDecodeError s)),
      repr = (\<lambda>v. ''?''),
      format_float = (\<lambda>f. ''?''),
      float_of_string = (\<lambda>s. Inl (Exn ValueError s)),
      int_of_string = (\<lambda>s. Inl (Exn ValueError s)),
      sum_floats = (\<lambda>xs. JInt 0),
      DataFrame = (\<lambda>v. Inl (Exn ValueError ''no frame'')),
      now = ''''\<rparr>"

fun log_all :: "'s env \<Rightarrow> (pyfloat \<times> string) list \<Rightarrow> 's \<Rightarrow> json list \<times> 's" where
  \<comment> \<open>logging a sequence of expenses, collecting the running total of each result\<close>
  "log_all env [] st = ([], st)"
| "log_all env ((amount, category) # rest) st =
     (case log_expense env amount category st of
        (Inr r, st') \<Rightarrow>
          (case log_all env rest st' of (ts, st'') \<Rightarrow> (dict_get r ''running_total'' JNull # ts, st''))
      | (Inl e, st') \<Rightarrow> ([], st'))"

fun running_totals :: "(pyfloat \<Rightarrow> pyfloat \<Rightarrow> pyfloat) \<Rightarrow> pyfloat \<Rightarrow> pyfloat list \<Rightarrow> pyfloat list" where
  \<comment> \<open>the totals \<open>previous + a\<^sub>1\<close>, \<open>previous + a\<^sub>1 + a\<^sub>2\<close>, ...\<close>
  "running_totals add previous [] = []"
| "running_totals add previous (a # rest) =
     add previous a # running_totals add (add previous a) rest"

definition exact_add :: "pyfloat \<Rightarrow> pyfloat \<Rightarrow> pyfloat" where
  \<comment> \<open>a backend that adds without rounding\<close>
  "exact_add x y = (case (x, y) of (Flt p, Flt q) \<Rightarrow> Flt (p + q) | _ \<Rightarrow> NaN)"

text \<open>
  Two worlds for \<open>call_apps_script_function\<close>: in the first the webhook answers 200 with an
  application-level failure whose text is \<open>HTTP error 500\<close>, in the second it answers with
  status 500.
\<close>

definition app_failure_env :: "unit env" where
  "app_failure_env =
     \<lparr>post = (\<lambda>payload st.
               (Inr \<lparr>status_code = 200,
                     json_body = Inr (JObj [(''success'', JBool False),
                                            (''message'', JStr ''HTTP error 500'')])\<rparr>, st)),
      chat = (\<lambda>p st. (Inl (Exn OtherException ''no model''), st)),
      loads = (\<lambda>s. Inl (Exn JSONDecodeError s)),
      repr = (\<lambda>v. if v = JInt 500 then ''500'' else ''?''),
      format_float = (\<lambda>f. ''?''),
      float_of_string = (\<lambda>s. Inl (Exn ValueError s)),
      int_of_string = (\<lambda>s. Inl (Exn ValueError s)),
      sum_floats = (\<lambda>xs. JInt 0),
      DataFrame = (\<lambda>v. Inl (Exn ValueError ''no frame'')),
      now = ''''\<rparr>"

definition http_failure_env :: "unit env" where
  "http_failure_env =
     app_failure_env
       \<lparr>post := (\<lambda>payload st.
                 (Inr \<lparr>status_code = 500, json_body = Inl (Exn RequestException ''no body'')\<rparr>, st))\<rparr>"

definition network_failure_env :: "unit env" where
  \<comment> \<open>the request times out\<close>
  "network_failure_env =
     app_failure_env\<lparr>post := (\<lambda>payload st. (Inl (Exn RequestException ''timed out''), st))\<rparr>"

definition script_error_env :: "unit env" where
  \<comment> \<open>the backend answers 200 with \<open>{success: false, error: "Sheet not found"}\<close>\<close>
  "script_error_env =
     app_failure_env
       \<lparr>post := (\<lambda>payload st.
                 (Inr \<lparr>status_code = 200,
                       json_body = Inr (JObj [(''success'', JBool False),
                                              (''error'', JStr ''Sheet not found'')])\<rparr>, st))\<rparr>"

section \<open>Python values in the analyzer\<close>

text \<open>
  The conversions and string operations that the analyzer applies to the values decoded
  from the model's JSON. \<open>float(v)\<close> and \<open>int(v)\<close> convert numbers and booleans themselves and
  leave a string to the interpreter (\<open>float_of_string\<close>, \<open>int_of_string\<close>); \<open>None\<close>, a list and a
  dictionary raise \<open>TypeError\<close>.
\<close>

definition py_float :: "'s env \<Rightarrow> json \<Rightarrow> pyexn + pyfloat" where
  "py_float env v =
     (case v of
        JReal f \<Rightarrow> Inr f
      | JInt n \<Rightarrow> float_of_int n
      | JBool b \<Rightarrow> Inr (Flt (if b then 1 else 0))
      | JStr s \<Rightarrow> float_of_string env s
      | _ \<Rightarrow> Inl (Exn TypeError ''float() argument must be a string or a real number''))"

definition py_int :: "'s env \<Rightarrow> json \<Rightarrow> pyexn + int" where
  "py_int env v =
     (case v of
        JInt n \<Rightarrow> Inr n
      | JBool b \<Rightarrow> Inr (if b then 1 else 0)
      | JReal (Flt x) \<Rightarrow> Inr (if 0 \<le> x then \<lfloor>x\<rfloor> else \<lceil>x\<rceil>)
      | JReal NaN \<Rightarrow> Inl (Exn ValueError ''cannot convert float NaN to integer'')
      | JReal _ \<Rightarrow> Inl (Exn OverflowError ''cannot convert float infinity to integer'')
      | JStr s \<Rightarrow> int_of_string env s
      | _ \<Rightarrow> Inl (Exn TypeError ''int() argument must be a string or a real number''))"

definition py_iter :: "json \<Rightarrow> pyexn + json list" where
  \<comment> \<open>the items that a \<open>for\<close> loop visits: the elements of a list, the characters of a string,
      the keys of a dictionary\<close>
  "py_iter v =
     (case v of
        JArr xs \<Rightarrow> Inr xs
      | JStr s \<Rightarrow> Inr (map (\<lambda>c. JStr [c]) s)
      | JObj d \<Rightarrow> Inr (map (\<lambda>(k, x). JStr k) d)
      | _ \<Rightarrow> Inl (Exn TypeError ''object is not iterable''))"

fun str_join :: "string \<Rightarrow> string list \<Rightarrow> string" where
  "str_join sep [] = []"
| "str_join sep [x] = x"
| "str_join sep (x # y # ys) = x @ sep @ str_join sep (y # ys)"

fun str_items :: "json list \<Rightarrow> string list option" where
  \<comment> \<open>the items when all of them are strings\<close>
  "str_items [] = Some []"
| "str_items (JStr s # xs) = (case str_items xs of Some ys \<Rightarrow> Some (s # ys) | None \<Rightarrow> None)"
| "str_items (x # xs) = None"

definition py_join :: "string \<Rightarrow> json \<Rightarrow> pyexn + string" where
  \<comment> \<open>\<open>sep.join(v)\<close>\<close>
  "py_join sep v =
     (case py_iter v of
        Inl e \<Rightarrow> Inl (Exn TypeError ''can only join an iterable'')
      | Inr xs \<Rightarrow>
          (case str_items xs of
             Some ys \<Rightarrow> Inr (str_join sep ys)
           | None \<Rightarrow> Inl (Exn TypeError ''sequence item: expected str instance'')))"

definition str_find :: "char \<Rightarrow> string \<Rightarrow> int" where
  \<comment> \<open>\<open>s.find(c)\<close>: the first index of \<open>c\<close>, -1 when there is none\<close>
  "str_find c s = (if c \<in> set s then int (length (takeWhile (\<lambda>x. x \<noteq> c) s)) else - 1)"

definition str_rfind :: "char \<Rightarrow> string \<Rightarrow> int" where
  \<comment> \<open>\<open>s.rfind(c)\<close>: the last index of \<open>c\<close>, -1 when there is none\<close>
  "str_rfind c s =
     (if c \<in> set s then int (length s) - 1 - int (length (takeWhile (\<lambda>x. x \<noteq> c) (rev s))) else - 1)"

definition slice :: "string \<Rightarrow> int \<Rightarrow> int \<Rightarrow> string" where
  \<comment> \<open>\<open>s[a:b]\<close> for indices that are not negative, as they are where the analyzer slices\<close>
  "slice s a b = drop (nat a) (take (nat b) s)"

section \<open>The staged analyzer (src/bot/ai_analysis.py)\<close>

text \<open>
  The fields of a category and of a result hold what the source stores in them: the name,
  the descriptions, the patterns, the insights and the recommendations are whatever value
  the decoded JSON had under the key, the total of a category is the result of \<open>float\<close>, its
  count the result of \<open>int\<close>, and the total of the result is the value of \<open>sum\<close> (the integer 0
  for no category). The methods keep their names without the leading underscore.
\<close>

record ExpenseCategory =
  name :: json
  total_amount :: pyfloat
  count :: int
  descriptions :: json
  patterns :: json

record AnalysisResult =
  period :: string
  total_expenses :: json
  total_transactions :: int
  categories :: "ExpenseCategory list"
  insights :: json
  recommendations :: json
  analysis_date :: string

type_synonym dataframe = "(string \<times> json list) list"

text \<open>
  A data frame is kept as its columns, each with the values of its rows; all columns of a
  frame have the length of its index, so the frame is empty when it has no column or its
  first column has no row.
\<close>

definition df_empty :: "dataframe \<Rightarrow> bool" where
  "df_empty df = (case df of [] \<Rightarrow> True | (c, vs) # rest \<Rightarrow> vs = [])"

definition df_column :: "dataframe \<Rightarrow> string \<Rightarrow> pyexn + json list" where
  \<comment> \<open>\<open>df[key].tolist()\<close>\<close>
  "df_column df k = (case map_of df k of Some vs \<Rightarrow> Inr vs | None \<Rightarrow> Inl (Exn KeyError k))"

definition create_sample_data :: "string \<Rightarrow> dataframe" where
  "create_sample_data per =
     (if per = ''monthly'' then
        [(''date'', map JStr [''2024-01-15'', ''2024-01-16'', ''2024-01-17'', ''2024-01-18'', ''2024-01-19'']),
         (''amount'', map JReal [Flt (25 / 2), Flt (35 / 4), Flt 15, Flt (45 / 2), round_to_double 999 100]),
         (''description'', map JStr [''matcha latte'', ''coffee'', ''matcha latte'', ''lunch'', ''matcha latte'']),
         (''category'', map JStr [''Food'', ''Food'', ''Food'', ''Food'', ''Food''])]
      else
        [(''date'', map JStr [''2024-01-15'', ''2024-02-20'', ''2024-03-10'', ''2024-04-05'', ''2024-05-12'']),
         (''amount'', map JReal [Flt (25 / 2), Flt 45, Flt (35 / 4), Flt 120, Flt 15]),
         (''description'', map JStr [''matcha latte'', ''gas'', ''coffee'', ''shopping'', ''matcha latte'']),
         (''category'', map JStr [''Food'', ''Transportation'', ''Food'', ''Shopping'', ''Food''])])"

definition extract_expense_data_try :: "'s env \<Rightarrow> string \<Rightarrow> 's \<Rightarrow> (pyexn + dataframe) \<times> 's" where
  "extract_expense_data_try env per st =
     (case get_expense_data_for_analysis env per st of
        (Inl e, st') \<Rightarrow> (Inl e, st')
      | (Inr (success, message, expense_data), st') \<Rightarrow>
          if \<not> success then
            (Inl (Exn ValueError (''Failed to get expense data: '' @ py_str env message)), st')
          else if \<not> truthy expense_data then (Inr (create_sample_data per), st')
          else
            (case DataFrame env expense_data of
               Inl e \<Rightarrow> (Inl e, st')
             | Inr df \<Rightarrow>
                 if map_of df ''amount'' = None \<or> map_of df ''description'' = None
                 then (Inr (create_sample_data per), st')
                 else (Inr df, st')))"

definition extract_expense_data :: "'s env \<Rightarrow> string \<Rightarrow> 's \<Rightarrow> (pyexn + dataframe) \<times> 's" where
  \<comment> \<open>the handler logs and raises again\<close>
  "extract_expense_data env per st =
     (case extract_expense_data_try env per st of
        (Inl e, st') \<Rightarrow> (Inl e, st')
      | (Inr df, st') \<Rightarrow> (Inr df, st'))"

fun prompt_lines :: "'s env \<Rightarrow> (json \<times> json) list \<Rightarrow> pyexn + string list" where
  \<comment> \<open>the list comprehension of \<open>_create_categorization_prompt\<close>\<close>
  "prompt_lines env [] = Inr []"
| "prompt_lines env ((amount, desc) # rest) =
     (case format_2f env amount of
        Inl e \<Rightarrow> Inl e
      | Inr a \<Rightarrow>
          (case prompt_lines env rest of
             Inl e \<Rightarrow> Inl e
           | Inr ls \<Rightarrow> Inr ((''$'' @ a @ '' - '' @ py_str env desc) # ls)))"

definition create_categorization_prompt :: "'s env \<Rightarrow> json list \<Rightarrow> json list \<Rightarrow> pyexn + prompt" where
  "create_categorization_prompt env descs amounts =
     (case prompt_lines env (zip amounts descs) of
        Inl e \<Rightarrow> Inl e
      | Inr ls \<Rightarrow> Inr (CategorizationPrompt ls))"

definition create_pattern_analysis_prompt :: "'s env \<Rightarrow> ExpenseCategory \<Rightarrow> pyexn + prompt" where
  "create_pattern_analysis_prompt env category =
     (case py_join '', '' (descriptions category) of
        Inl e \<Rightarrow> Inl e
      | Inr ds \<Rightarrow>
          Inr (PatternPrompt (py_str env (name category)) (format_float env (total_amount category))
                 (repr env (JInt (count category))) ds))"

definition create_insights_prompt ::
    "'s env \<Rightarrow> ExpenseCategory list \<Rightarrow> json \<Rightarrow> int \<Rightarrow> pyexn + prompt" where
  "create_insights_prompt env cats total_sum n =
     (case format_2f env total_sum of
        Inl e \<Rightarrow> Inl e
      | Inr t \<Rightarrow>
          Inr (InsightsPrompt t (repr env (JInt n)) (repr env (JInt (int (length cats))))
                 (map (\<lambda>cat. ''- '' @ py_str env (name cat) @ '': $'' @ format_float env (total_amount cat)
                              @ '' ('' @ repr env (JInt (count cat)) @ '' transactions)'') cats)))"

definition get_ai_response :: "'s env \<Rightarrow> prompt \<Rightarrow> 's \<Rightarrow> (pyexn + string) \<times> 's" where
  "get_ai_response env p st =
     (case chat env p st of
        (Inl e, st') \<Rightarrow> (Inl e, st')
      | (Inr content, st') \<Rightarrow> (Inr content, st'))"

definition category_of :: "'s env \<Rightarrow> json \<Rightarrow> pyexn + ExpenseCategory" where
  \<comment> \<open>the body of the loop of \<open>_parse_categorization_response\<close>: \<open>ExpenseCategory(...)\<close> with its
      arguments evaluated in their order\<close>
  "category_of env cat_data =
     (case cat_data of
        JObj d \<Rightarrow>
          (case py_float env (dict_get d ''total_amount'' (JInt 0)) of
             Inl e \<Rightarrow> Inl e
           | Inr t \<Rightarrow>
               (case py_int env (dict_get d ''count'' (JInt 0)) of
                  Inl e \<Rightarrow> Inl e
                | Inr c \<Rightarrow>
                    Inr \<lparr>name = dict_get d ''name'' (JStr ''Unknown''),
                         total_amount = t,
                         count = c,
                         descriptions = dict_get d ''descriptions'' (JArr []),
                         patterns = dict_get d ''patterns'' (JArr [])\<rparr>))
      | _ \<Rightarrow> Inl (Exn AttributeError ''object has no attribute get''))"

fun categories_loop :: "'s env \<Rightarrow> json list \<Rightarrow> pyexn + ExpenseCategory list" where
  "categories_loop env [] = Inr []"
| "categories_loop env (cat_data # rest) =
     (case category_of env cat_data of
        Inl e \<Rightarrow> Inl e
      | Inr category \<Rightarrow>
          (case categories_loop env rest of
             Inl e \<Rightarrow> Inl e
           | Inr cs \<Rightarrow> Inr (category # cs)))"

definition parse_categorization_response_try :: "'s env \<Rightarrow> string \<Rightarrow> pyexn + ExpenseCategory list" where
  "parse_categorization_response_try env response =
     (let json_start = str_find (CHR ''{'') response;
          json_end = str_rfind (CHR ''}'') response + 1
      in if json_start = - 1 \<or> json_end = 0 then Inl (Exn ValueError ''No JSON found in response'')
         else
           (case loads env (slice response json_start json_end) of
              Inl e \<Rightarrow> Inl e
            | Inr (JObj data) \<Rightarrow>
                (case py_iter (dict_get data ''categories'' (JArr [])) of
                   Inl e \<Rightarrow> Inl e
                 | Inr items \<Rightarrow> categories_loop env items)
            | Inr _ \<Rightarrow> Inl (Exn AttributeError ''object has no attribute get'')))"

definition parse_categorization_response :: "'s env \<Rightarrow> string \<Rightarrow> pyexn + ExpenseCategory list" where
  \<comment> \<open>the handler logs and raises again\<close>
  "parse_categorization_response env response =
     (case parse_categorization_response_try env response of
        Inl e \<Rightarrow> Inl e
      | Inr cs \<Rightarrow> Inr cs)"

definition extract_patterns_from_response_try :: "'s env \<Rightarrow> string \<Rightarrow> pyexn + json" where
  "extract_patterns_from_response_try env response =
     (let json_start = str_find (CHR ''{'') response;
          json_end = str_rfind (CHR ''}'') response + 1
      in if json_start = - 1 \<or> json_end = 0 then Inr (JArr [])
         else
           (case loads env (slice response json_start json_end) of
              Inl e \<Rightarrow> Inl e
            | Inr (JObj data) \<Rightarrow> Inr (dict_get data ''patterns'' (JArr []))
            | Inr _ \<Rightarrow> Inl (Exn AttributeError ''object has no attribute get'')))"

definition extract_patterns_from_response :: "'s env \<Rightarrow> string \<Rightarrow> json" where
  \<comment> \<open>the handler logs and returns the empty list\<close>
  "extract_patterns_from_response env response =
     (case extract_patterns_from_response_try env response of
        Inl e \<Rightarrow> JArr []
      | Inr ps \<Rightarrow> ps)"

definition parse_insights_response_try :: "'s env \<Rightarrow> string \<Rightarrow> pyexn + json \<times> json" where
  "parse_insights_response_try env response =
     (let json_start = str_find (CHR ''{'') response;
          json_end = str_rfind (CHR ''}'') response + 1
      in if json_start = - 1 \<or> json_end = 0 then Inr (JArr [], JArr [])
         else
           (case loads env (slice response json_start json_end) of
              Inl e \<Rightarrow> Inl e
            | Inr (JObj data) \<Rightarrow>
                Inr (dict_get data ''insights'' (JArr []), dict_get data ''recommendations'' (JArr []))
            | Inr _ \<Rightarrow> Inl (Exn AttributeError ''object has no attribute get'')))"

definition parse_insights_response :: "'s env \<Rightarrow> string \<Rightarrow> json \<times> json" where
  "parse_insights_response env response =
     (case parse_insights_response_try env response of
        Inl e \<Rightarrow> (JArr [], JArr [])
      | Inr r \<Rightarrow> r)"

definition categorize_expenses_flow_try ::
    "'s env \<Rightarrow> dataframe \<Rightarrow> 's \<Rightarrow> (pyexn + ExpenseCategory list) \<times> 's" where
  "categorize_expenses_flow_try env expenses_df st =
     (case df_column expenses_df ''description'' of
        Inl e \<Rightarrow> (Inl e, st)
      | Inr descs \<Rightarrow>
          (case df_column expenses_df ''amount'' of
             Inl e \<Rightarrow> (Inl e, st)
           | Inr amounts \<Rightarrow>
               (case create_categorization_prompt env descs amounts of
                  Inl e \<Rightarrow> (Inl e, st)
                | Inr p \<Rightarrow>
                    (case get_ai_response env p st of
                       (Inl e, st') \<Rightarrow> (Inl e, st')
                     | (Inr response, st') \<Rightarrow> (parse_categorization_response env response, st')))))"

definition categorize_expenses_flow ::
    "'s env \<Rightarrow> dataframe \<Rightarrow> 's \<Rightarrow> (pyexn + ExpenseCategory list) \<times> 's" where
  "categorize_expenses_flow env expenses_df st =
     (case categorize_expenses_flow_try env expenses_df st of
        (Inl e, st') \<Rightarrow> (Inl e, st')
      | (Inr cs, st') \<Rightarrow> (Inr cs, st'))"

fun analyze_patterns_loop ::
    "'s env \<Rightarrow> ExpenseCategory list \<Rightarrow> 's \<Rightarrow> (pyexn + ExpenseCategory list) \<times> 's" where
  \<comment> \<open>the loop of \<open>_analyze_patterns_flow\<close>; the categories are returned with the patterns
      that the loop has assigned\<close>
  "analyze_patterns_loop env [] st = (Inr [], st)"
| "analyze_patterns_loop env (category # rest) st =
     (if count category > 1 then
        (case create_pattern_analysis_prompt env category of
           Inl e \<Rightarrow> (Inl e, st)
         | Inr pattern_prompt \<Rightarrow>
             (case get_ai_response env pattern_prompt st of
                (Inl e, st') \<Rightarrow> (Inl e, st')
              | (Inr pattern_response, st') \<Rightarrow>
                  (case analyze_patterns_loop env rest st' of
                     (Inl e, st'') \<Rightarrow> (Inl e, st'')
                   | (Inr cs, st'') \<Rightarrow>
                       (Inr (category\<lparr>patterns := extract_patterns_from_response env pattern_response\<rparr> # cs),
                        st''))))
      else
        (case analyze_patterns_loop env rest st of
           (Inl e, st') \<Rightarrow> (Inl e, st')
         | (Inr cs, st') \<Rightarrow> (Inr (category # cs), st')))"

definition analyze_patterns_flow ::
    "'s env \<Rightarrow> ExpenseCategory list \<Rightarrow> 's \<Rightarrow> (pyexn + ExpenseCategory list) \<times> 's" where
  \<comment> \<open>the handler logs and raises again\<close>
  "analyze_patterns_flow env cats st =
     (case analyze_patterns_loop env cats st of
        (Inl e, st') \<Rightarrow> (Inl e, st')
      | (Inr cs, st') \<Rightarrow> (Inr cs, st'))"

definition generate_insights_flow_try ::
    "'s env \<Rightarrow> ExpenseCategory list \<Rightarrow> json \<Rightarrow> int \<Rightarrow> 's \<Rightarrow> (pyexn + json \<times> json) \<times> 's" where
  "generate_insights_flow_try env cats total_sum n st =
     (case create_insights_prompt env cats total_sum n of
        Inl e \<Rightarrow> (Inl e, st)
      | Inr insights_prompt \<Rightarrow>
          (case get_ai_response env insights_prompt st of
             (Inl e, st') \<Rightarrow> (Inl e, st')
           | (Inr insights_response, st') \<Rightarrow> (Inr (parse_insights_response env insights_response), st')))"

definition generate_insights_flow ::
    "'s env \<Rightarrow> ExpenseCategory list \<Rightarrow> json \<Rightarrow> int \<Rightarrow> 's \<Rightarrow> (pyexn + json \<times> json) \<times> 's" where
  "generate_insights_flow env cats total_sum n st =
     (case generate_insights_flow_try env cats total_sum n st of
        (Inl e, st') \<Rightarrow> (Inl e, st')
      | (Inr r, st') \<Rightarrow> (Inr r, st'))"

definition analyze_expenses_try :: "'s env \<Rightarrow> string \<Rightarrow> 's \<Rightarrow> (pyexn + AnalysisResult) \<times> 's" where
  "analyze_expenses_try env per st =
     (case extract_expense_data env per st of
        (Inl e, st1) \<Rightarrow> (Inl e, st1)
      | (Inr expenses_df, st1) \<Rightarrow>
          if df_empty expenses_df then
            (Inl (Exn ValueError (''No expense data found for '' @ per @ '' period'')), st1)
          else
            (case categorize_expenses_flow env expenses_df st1 of
               (Inl e, st2) \<Rightarrow> (Inl e, st2)
             | (Inr cats1, st2) \<Rightarrow>
                 (case analyze_patterns_flow env cats1 st2 of
                    (Inl e, st3) \<Rightarrow> (Inl e, st3)
                  | (Inr cats, st3) \<Rightarrow>
                      (let total_sum = sum_floats env (map total_amount cats);
                           total_count = sum_list (map count cats)
                       in case generate_insights_flow env cats total_sum total_count st3 of
                            (Inl e, st4) \<Rightarrow> (Inl e, st4)
                          | (Inr (ins, recs), st4) \<Rightarrow>
                              (Inr \<lparr>period = per,
                                    total_expenses = total_sum,
                                    total_transactions = total_count,
                                    categories = cats,
                                    insights = ins,
                                    recommendations = recs,
                                    analysis_date = now env\<rparr>, st4)))))"

definition analyze_expenses :: "'s env \<Rightarrow> string \<Rightarrow> 's \<Rightarrow> (pyexn + AnalysisResult) \<times> 's" where
  \<comment> \<open>the handler logs and raises again\<close>
  "analyze_expenses env per st =
     (case analyze_expenses_try env per st of
        (Inl e, st') \<Rightarrow> (Inl e, st')
      | (Inr result, st') \<Rightarrow> (Inr result, st'))"

text \<open>
  Counting the calls of the model: the world \<^term>\<open>counting env\<close> answers as \<open>env\<close> does and keeps,
  beside the state of \<open>env\<close>, the number of calls of \<open>chat\<close> made so far.
\<close>

definition counting :: "'s env \<Rightarrow> (nat \<times> 's) env" where
  "counting env =
     \<lparr>post = (\<lambda>payload (n, s). case post env payload s of (r, s') \<Rightarrow> (r, (n, s'))),
      chat = (\<lambda>p (n, s). case chat env p s of (r, s') \<Rightarrow> (r, (Suc n, s'))),
      loads = loads env,
      repr = repr env,
      format_float = format_float env,
      float_of_string = float_of_string env,
      int_of_string = int_of_string env,
      sum_floats = sum_floats env,
      DataFrame = DataFrame env,
      now = now env\<rparr>"

text \<open>
  The answers that the model gives in the loop of \<open>_analyze_patterns_flow\<close>, in the order of
  the categories: \<open>None\<close> for a category that the loop passes by. The list ends where the loop
  is left by an exception of the prompt or of the model.
\<close>

fun pattern_responses :: "'s env \<Rightarrow> ExpenseCategory list \<Rightarrow> 's \<Rightarrow> string option list" where
  "pattern_responses env [] st = []"
| "pattern_responses env (category # rest) st =
     (if count category > 1 then
        (case create_pattern_analysis_prompt env category of
           Inl e \<Rightarrow> []
         | Inr pattern_prompt \<Rightarrow>
             (case get_ai_response env pattern_prompt st of
                (Inl e, st') \<Rightarrow> []
              | (Inr pattern_response, st') \<Rightarrow>
                  Some pattern_response # pattern_responses env rest st'))
      else None # pattern_responses env rest st)"

definition with_patterns :: "'s env \<Rightarrow> ExpenseCategory \<Rightarrow> string option \<Rightarrow> ExpenseCategory" where
  \<comment> \<open>a category after the loop, given the answer of the model for it\<close>
  "with_patterns env category answer =
     (case answer of
        None \<Rightarrow> category
      | Some raw \<Rightarrow> category\<lparr>patterns := extract_patterns_from_response env raw\<rparr>)"

text \<open>
  Python's \<open>==\<close> on the values that a total can have, an \<open>int\<close> or a \<open>float\<close>: equal numbers, a
  NaN equal to nothing.
\<close>

definition float_eq :: "pyfloat \<Rightarrow> pyfloat \<Rightarrow> bool" where
  "float_eq x y = (x = y \<and> x \<noteq> NaN)"

definition total_eq :: "json \<Rightarrow> json \<Rightarrow> bool" where
  "total_eq a b =
     (case (a, b) of
        (JInt m, JInt n) \<Rightarrow> m = n
      | (JInt m, JReal y) \<Rightarrow> float_eq (Flt (of_int m)) y
      | (JReal x, JInt n) \<Rightarrow> float_eq x (Flt (of_int n))
      | (JReal x, JReal y) \<Rightarrow> float_eq x y
      | _ \<Rightarrow> False)"

definition comparable_number :: "json \<Rightarrow> bool" where
  \<comment> \<open>a number other than NaN\<close>
  "comparable_number v = (case v of JInt n \<Rightarrow> True | JReal x \<Rightarrow> x \<noteq> NaN | _ \<Rightarrow> False)"

section \<open>Model answers used as examples\<close>

definition quoted :: "string \<Rightarrow> string" where
  \<comment> \<open>a JSON string literal: the text between double quotes\<close>
  "quoted s = CHR 0x22 # s @ [CHR 0x22]"

definition example_body :: string where
  "example_body =
     quoted ''categories'' @ '':[{'' @ quoted ''name'' @ '':'' @ quoted ''Food'' @ '','' @
     quoted ''total_amount'' @ '':12.5,'' @ quoted ''count'' @ '':1,'' @
     quoted ''descriptions'' @ '':['' @ quoted ''coffee'' @ ''],'' @ quoted ''patterns'' @ '':[]}]''"

definition example_json :: string where
  "example_json = ''{'' @ example_body @ ''}''"

definition example_response :: string where
  \<comment> \<open>the stage-1 answer of the specification's example\<close>
  "example_response = ''noise'' @ example_json @ ''tail''"

definition example_value :: json where
  \<comment> \<open>what \<open>json.loads\<close> decodes \<^term>\<open>example_json\<close> to\<close>
  "example_value =
     JObj [(''categories'',
            JArr [JObj [(''name'', JStr ''Food''), (''total_amount'', JReal (Flt (25 / 2))),
                        (''count'', JInt 1), (''descriptions'', JArr [JStr ''coffee'']),
                        (''patterns'', JArr [])]])]"

definition example_env :: "unit env" where
  \<comment> \<open>a world whose JSON decoder knows the example and rejects every other text\<close>
  "example_env =
     app_failure_env
       \<lparr>loads := (\<lambda>s. if s = example_json then Inr example_value
                        else Inl (Exn JSONDecodeError ''Expecting value''))\<rparr>"

text \<open>
  A run of the whole analysis. The ledger has no expense for the period, so the analyzer
  takes its sample data. The model groups them into three categories, finds a pattern for
  \<open>Food\<close>, answers the pattern question for \<open>Coffee\<close> without JSON, and answers the insights
  question with braces that hold no JSON.
\<close>

definition demo_categories_body :: string where
  "demo_categories_body =
     quoted ''categories'' @ '':[{'' @
       quoted ''name'' @ '':'' @ quoted ''Food'' @ '','' @ quoted ''total_amount'' @ '':37.5,'' @
       quoted ''count'' @ '':3,'' @ quoted ''descriptions'' @ '':['' @ quoted ''matcha latte'' @ '','' @
       quoted ''lunch'' @ '']},{'' @
       quoted ''name'' @ '':'' @ quoted ''Coffee'' @ '','' @ quoted ''total_amount'' @ '':8.75,'' @
       quoted ''count'' @ '':2,'' @ quoted ''descriptions'' @ '':['' @ quoted ''coffee'' @ '']},{'' @
       quoted ''name'' @ '':'' @ quoted ''Other'' @ '','' @ quoted ''total_amount'' @ '':2.5,'' @
       quoted ''count'' @ '':1,'' @ quoted ''descriptions'' @ '':['' @ quoted ''gum'' @ ''],'' @
       quoted ''patterns'' @ '':['' @ quoted ''one-off'' @ '']}]''"

definition demo_categories_json :: string where
  "demo_categories_json = ''{'' @ demo_categories_body @ ''}''"

definition demo_categories_value :: json where
  "demo_categories_value =
     JObj [(''categories'',
            JArr [JObj [(''name'', JStr ''Food''), (''total_amount'', JReal (Flt (75 / 2))),
                        (''count'', JInt 3),
                        (''descriptions'', JArr [JStr ''matcha latte'', JStr ''lunch''])],
                  JObj [(''name'', JStr ''Coffee''), (''total_amount'', JReal (Flt (35 / 4))),
                        (''count'', JInt 2), (''descriptions'', JArr [JStr ''coffee''])],
                  JObj [(''name'', JStr ''Other''), (''total_amount'', JReal (Flt (5 / 2))),
                        (''count'', JInt 1), (''descriptions'', JArr [JStr ''gum'']),
                        (''patterns'', JArr [JStr ''one-off''])]])]"

definition demo_patterns_body :: string where
  "demo_patterns_body =
     quoted ''patterns'' @ '':['' @ quoted ''matcha latte 2 times'' @ '']''"

definition demo_patterns_json :: string where
  "demo_patterns_json = ''{'' @ demo_patterns_body @ ''}''"

definition demo_patterns_value :: json where
  "demo_patterns_value = JObj [(''patterns'', JArr [JStr ''matcha latte 2 times''])]"

definition demo_loads :: "string \<Rightarrow> pyexn + json" where
  \<comment> \<open>the JSON decoder on the texts of this run\<close>
  "demo_loads s =
     (if s = demo_categories_json then Inr demo_categories_value
      else if s = demo_patterns_json then Inr demo_patterns_value
      else Inl (Exn JSONDecodeError ''Expecting value''))"

definition demo_answer :: "prompt \<Rightarrow> string" where
  "demo_answer p =
     (case p of
        CategorizationPrompt ls \<Rightarrow> ''Here are the categories: '' @ demo_categories_json @ '' Done.''
      | PatternPrompt nm t c ds \<Rightarrow>
          if nm = ''Food'' then demo_patterns_json else ''I see no pattern here.''
      | InsightsPrompt t c k ls \<Rightarrow> ''{spend less}'')"

definition demo_sum :: "pyfloat list \<Rightarrow> json" where
  \<comment> \<open>\<open>sum\<close> over floats whose partial sums are binary64 values\<close>
  "demo_sum xs = (if xs = [] then JInt 0 else JReal (foldl exact_add (Flt 0) xs))"

definition demo_env :: "unit env" where
  "demo_env =
     app_failure_env
       \<lparr>post := (\<lambda>payload st.
                 (Inr \<lparr>status_code = 200,
                       json_body = Inr (JObj [(''success'', JBool True), (''data'', JArr [])])\<rparr>, st)),
        chat := (\<lambda>p st. (Inr (demo_answer p), st)),
        loads := demo_loads,
        sum_floats := demo_sum,
        now := ''2024-02-01 09:00:00''\<rparr>"

definition demo_food :: ExpenseCategory where
  "demo_food = \<lparr>name = JStr ''Food'', total_amount = Flt (75 / 2), count = 3,
                 descriptions = JArr [JStr ''matcha latte'', JStr ''lunch''], patterns = JArr []\<rparr>"

definition demo_coffee :: ExpenseCategory where
  "demo_coffee = \<lparr>name = JStr ''Coffee'', total_amount = Flt (35 / 4), count = 2,
                   descriptions = JArr [JStr ''coffee''], patterns = JArr []\<rparr>"

definition demo_other :: ExpenseCategory where
  "demo_other = \<lparr>name = JStr ''Other'', total_amount = Flt (5 / 2), count = 1,
                  descriptions = JArr [JStr ''gum''], patterns = JArr [JStr ''one-off'']\<rparr>"



definition demo_result :: AnalysisResult where
  \<comment> \<open>what the analysis returns in the world \<^const>\<open>demo_env\<close>\<close>
  "demo_result =
     \<lparr>period = ''monthly'',
      total_expenses = JReal (Flt (195 / 4)),
      total_transactions = 6,
      categories = [demo_food\<lparr>patterns := JArr [JStr ''matcha latte 2 times'']\<rparr>, demo_coffee, demo_other],
      insights = JArr [],
      recommendations = JArr [],
      analysis_date = ''2024-02-01 09:00:00''\<rparr>"

text \<open>
  A model that reports a total that is not a number: the JSON decoder of Python reads the
  literal \<open>NaN\<close> as the float NaN.
\<close>

definition nan_body :: string where
  "nan_body =
     quoted ''categories'' @ '':[{'' @ quoted ''name'' @ '':'' @ quoted ''Food'' @ '','' @
     quoted ''total_amount'' @ '':NaN,'' @ quoted ''count'' @ '':1}]''"

definition nan_json :: string where
  "nan_json = ''{'' @ nan_body @ ''}''"

definition nan_value :: json where
  "nan_value =
     JObj [(''categories'',
            JArr [JObj [(''name'', JStr ''Food''), (''total_amount'', JReal NaN), (''count'', JInt 1)]])]"

definition nan_env :: "unit env" where
  "nan_env =
     demo_env
       \<lparr>chat := (\<lambda>p st. (Inr nan_json, st)),
        loads := (\<lambda>s. if s = nan_json then Inr nan_value
                        else Inl (Exn JSONDecodeError ''Expecting value''))\<rparr>"

definition nan_result :: AnalysisResult where
  "nan_result =
     \<lparr>period = ''monthly'',
      total_expenses = JReal NaN,
      total_transactions = 1,
      categories = [\<lparr>name = JStr ''Food'', total_amount = NaN, count = 1,
                     descriptions = JArr [], patterns = JArr []\<rparr>],
      insights = JArr [],
      recommendations = JArr [],
      analysis_date = ''2024-02-01 09:00:00''\<rparr>"

section \<open>The matcher finds exactly the matches of the pattern\<close>

lemma in_Cls:
  "(s', c') \<in> set (rx_match (Cls p) (s, c)) \<longleftrightarrow> (\<exists>x. s = x # s' \<and> p x) \<and> c' = c"
  by (cases s) auto

lemma takeWhile_prefix_all:
  assumes "\<forall>x\<in>set pre. p x"
  shows "length pre \<le> length (takeWhile p (pre @ s'))"
  using assms by (simp add: takeWhile_append2)

lemma in_Rep1:
  "(s', c') \<in> set (rx_match (Rep1 p) (s, c)) \<longleftrightarrow>
     (\<exists>pre. pre \<noteq> [] \<and> (\<forall>x\<in>set pre. p x) \<and> s = pre @ s') \<and> c' = c"
proof
  assume "(s', c') \<in> set (rx_match (Rep1 p) (s, c))"
  then obtain n where n: "1 \<le> n" "n \<le> length (takeWhile p s)" and s': "s' = drop n s" and c: "c' = c"
    by auto
  have le: "length (takeWhile p s) \<le> length s" by (rule length_takeWhile_le)
  have "take n s = take n (takeWhile p s)"
    using n(2) by (metis append_eq_conv_conj append_take_drop_id takeWhile_dropWhile_id take_append min.absorb2 length_take take_all_iff order_refl diff_is_0_eq' take_0 append_Nil2)
  then have "\<forall>x\<in>set (take n s). p x"
    by (metis in_set_takeD set_takeWhileD)
  moreover have "take n s \<noteq> []" using n le by auto
  moreover have "s = take n s @ s'" using s' by simp
  ultimately show "(\<exists>pre. pre \<noteq> [] \<and> (\<forall>x\<in>set pre. p x) \<and> s = pre @ s') \<and> c' = c"
    using c by blast
next
  assume "(\<exists>pre. pre \<noteq> [] \<and> (\<forall>x\<in>set pre. p x) \<and> s = pre @ s') \<and> c' = c"
  then obtain pre where pre: "pre \<noteq> []" "\<forall>x\<in>set pre. p x" "s = pre @ s'" and c: "c' = c"
    by blast
  have "length pre \<le> length (takeWhile p s)"
    using pre(2,3) takeWhile_prefix_all by blast
  moreover have "1 \<le> length pre" using pre(1) by (cases pre) auto
  moreover have "s' = drop (length pre) s" using pre(3) by simp
  ultimately have "length pre \<in> set (rev [1..<Suc (length (takeWhile p s))])"
    and "(s', c') = (drop (length pre) s, c)"
    using c by auto
  then show "(s', c') \<in> set (rx_match (Rep1 p) (s, c))"
    unfolding rx_match.simps set_map by (rule image_eqI [rotated])
qed

lemma in_Seq:
  "st'' \<in> set (rx_match (Seq a b) st) \<longleftrightarrow> (\<exists>st'\<in>set (rx_match a st). st'' \<in> set (rx_match b st'))"
  by auto

lemma in_Opt:
  "st' \<in> set (rx_match (Opt a) st) \<longleftrightarrow> st' \<in> set (rx_match a st) \<or> st' = st"
  by auto

lemma in_Grp:
  "(s', c') \<in> set (rx_match (Grp n a) (s, c)) \<longleftrightarrow>
     (\<exists>c0. (s', c0) \<in> set (rx_match a (s, c)) \<and> c' = (n, take (length s - length s') s) # c0)"
  by (force simp: image_iff)

lemma in_Eos:
  "st' \<in> set (rx_match Eos (s, c)) \<longleftrightarrow> st' = (s, c) \<and> (s = [] \<or> s = [newline])"
  by auto

lemma not_isdigit_sep [simp]: "\<not> isdigit CHR ''.''" "\<not> isdigit CHR '',''"
  by (simp_all add: isdigit_def)

lemma not_isspace_sep [simp]: "\<not> isspace CHR ''.''" "\<not> isspace CHR '',''"
  by (simp_all add: isspace_def)

lemma isspace_newline [simp]: "isspace newline"
  by (simp add: isspace_def newline_def)

lemma isdigit_not_isspace: "isdigit c \<Longrightarrow> \<not> isspace c"
  by (auto simp: isdigit_def isspace_def)

lemma decimal_numeral_iff:
  "decimal_numeral n \<longleftrightarrow>
     (\<exists>ip. ip \<noteq> [] \<and> (\<forall>x\<in>set ip. isdigit x) \<and>
        (n = ip \<or> (\<exists>sep fp. (sep = CHR ''.'' \<or> sep = CHR '','') \<and> fp \<noteq> [] \<and>
                       (\<forall>x\<in>set fp. isdigit x) \<and> n = ip @ sep # fp)))"
  (is "?L \<longleftrightarrow> ?R")
proof
  assume L: ?L
  let ?ip = "takeWhile isdigit n" and ?r = "dropWhile isdigit n"
  have n: "n = ?ip @ ?r" by simp
  have ip1: "?ip \<noteq> []"
    using L unfolding decimal_numeral_def Let_def by blast
  have ip2: "\<forall>x\<in>set ?ip. isdigit x"
    by (blast dest: set_takeWhileD)
  note ip = ip1 ip2
  show ?R
  proof (cases "?r = []")
    case True
    then have "n = ?ip" using n by (metis append_Nil2)
    then show ?thesis using ip by metis
  next
    case False
    then have r: "(hd ?r = CHR ''.'' \<or> hd ?r = CHR '','')" "tl ?r \<noteq> []" "\<forall>x\<in>set (tl ?r). isdigit x"
      using L unfolding decimal_numeral_def Let_def list_all_iff by blast+
    have "?r = hd ?r # tl ?r" using False by (metis list.collapse)
    then have "n = ?ip @ hd ?r # tl ?r" using n by metis
    then show ?thesis using ip r by blast
  qed
next
  assume ?R
  then obtain ip where ip: "ip \<noteq> []" "\<forall>x\<in>set ip. isdigit x"
    and alt: "n = ip \<or> (\<exists>sep fp. (sep = CHR ''.'' \<or> sep = CHR '','') \<and> fp \<noteq> [] \<and>
                       (\<forall>x\<in>set fp. isdigit x) \<and> n = ip @ sep # fp)"
    by blast
  from alt show ?L
  proof
    assume "n = ip"
    then have tw: "takeWhile isdigit n = ip" and dw: "dropWhile isdigit n = []"
      using ip(2) by simp_all
    show ?L unfolding decimal_numeral_def Let_def tw dw using ip(1) by blast
  next
    assume "\<exists>sep fp. (sep = CHR ''.'' \<or> sep = CHR '','') \<and> fp \<noteq> [] \<and>
                       (\<forall>x\<in>set fp. isdigit x) \<and> n = ip @ sep # fp"
    then obtain sep fp where sep: "sep = CHR ''.'' \<or> sep = CHR '',''" and fp: "fp \<noteq> []" "\<forall>x\<in>set fp. isdigit x"
      and n: "n = ip @ sep # fp" by blast
    have nd: "\<not> isdigit sep" using sep by auto
    have tw: "takeWhile isdigit n = ip" and dw: "dropWhile isdigit n = sep # fp"
      using n ip(2) nd by (simp_all add: takeWhile_append2 dropWhile_append2)
    show ?L unfolding decimal_numeral_def Let_def tw dw list_all_iff
      using ip(1) fp sep by simp
  qed
qed

lemma in_numpat_D:
  assumes "(s', c') \<in> set (rx_match numpat (s, c))"
  shows "(\<exists>num. decimal_numeral num \<and> s = num @ s') \<and> c' = c"
proof -
  from assms obtain s1 c1 where
    1: "(s1, c1) \<in> set (rx_match (Rep1 isdigit) (s, c))" and
    2: "(s', c') \<in> set (rx_match (Opt (Seq (Cls sepcls) (Rep1 isdigit))) (s1, c1))"
    unfolding numpat_def in_Seq by (metis surj_pair)
  from 1 obtain ip where ip: "ip \<noteq> []" "\<forall>x\<in>set ip. isdigit x" "s = ip @ s1" "c1 = c"
    unfolding in_Rep1 by blast
  from 2 have "(s', c') \<in> set (rx_match (Seq (Cls sepcls) (Rep1 isdigit)) (s1, c1))
      \<or> (s', c') = (s1, c1)"
    unfolding in_Opt .
  then show ?thesis
  proof
    assume "(s', c') = (s1, c1)"
    then have "s = ip @ s'" "c' = c" using ip by simp_all
    moreover have "decimal_numeral ip" unfolding decimal_numeral_iff using ip(1,2) by blast
    ultimately show ?thesis by blast
  next
    assume "(s', c') \<in> set (rx_match (Seq (Cls sepcls) (Rep1 isdigit)) (s1, c1))"
    then obtain s2 c2 where
      3: "(s2, c2) \<in> set (rx_match (Cls sepcls) (s1, c1))" and
      4: "(s', c') \<in> set (rx_match (Rep1 isdigit) (s2, c2))"
      unfolding in_Seq by (metis surj_pair)
    from 3 obtain sep where sep: "sepcls sep" "s1 = sep # s2" "c2 = c1"
      unfolding in_Cls by blast
    from 4 obtain fp where fp: "fp \<noteq> []" "\<forall>x\<in>set fp. isdigit x" "s2 = fp @ s'" "c' = c2"
      unfolding in_Rep1 by blast
    have "s = (ip @ sep # fp) @ s'" using ip(3) sep(2) fp(3) by simp
    moreover have "decimal_numeral (ip @ sep # fp)"
      unfolding decimal_numeral_iff using ip(1,2) sep(1) fp(1,2) unfolding sepcls_def by blast
    moreover have "c' = c" using fp(4) sep(3) ip(4) by simp
    ultimately show ?thesis by blast
  qed
qed

lemma in_numpat_I:
  assumes num: "decimal_numeral num" "s = num @ s'"
  shows "(s', c) \<in> set (rx_match numpat (s, c))"
proof -
  from num(1) obtain ip where ip: "ip \<noteq> []" "\<forall>x\<in>set ip. isdigit x"
    and alt: "num = ip \<or> (\<exists>sep fp. (sep = CHR ''.'' \<or> sep = CHR '','') \<and> fp \<noteq> [] \<and>
                       (\<forall>x\<in>set fp. isdigit x) \<and> num = ip @ sep # fp)"
    unfolding decimal_numeral_iff by blast
  from alt show ?thesis
  proof
    assume "num = ip"
    then have "(s', c) \<in> set (rx_match (Rep1 isdigit) (s, c))"
      unfolding in_Rep1 using ip num(2) by blast
    moreover have "(s', c) \<in> set (rx_match (Opt (Seq (Cls sepcls) (Rep1 isdigit))) (s', c))"
      unfolding in_Opt by simp
    ultimately show ?thesis unfolding numpat_def in_Seq by blast
  next
    assume "\<exists>sep fp. (sep = CHR ''.'' \<or> sep = CHR '','') \<and> fp \<noteq> [] \<and>
                       (\<forall>x\<in>set fp. isdigit x) \<and> num = ip @ sep # fp"
    then obtain sep fp where sep: "sepcls sep" and fp: "fp \<noteq> []" "\<forall>x\<in>set fp. isdigit x"
      and n: "num = ip @ sep # fp" unfolding sepcls_def by blast
    have s: "s = ip @ (sep # fp @ s')" using num(2) n by simp
    have 1: "(sep # fp @ s', c) \<in> set (rx_match (Rep1 isdigit) (s, c))"
      unfolding in_Rep1 using ip s by blast
    have 3: "(fp @ s', c) \<in> set (rx_match (Cls sepcls) (sep # fp @ s', c))"
      unfolding in_Cls using sep by blast
    have 4: "(s', c) \<in> set (rx_match (Rep1 isdigit) (fp @ s', c))"
      unfolding in_Rep1 using fp by blast
    have "(s', c) \<in> set (rx_match (Seq (Cls sepcls) (Rep1 isdigit)) (sep # fp @ s', c))"
      unfolding in_Seq using 3 4 by blast
    then have "(s', c) \<in> set (rx_match (Opt (Seq (Cls sepcls) (Rep1 isdigit))) (sep # fp @ s', c))"
      unfolding in_Opt by blast
    then show ?thesis unfolding numpat_def in_Seq using 1 by blast
  qed
qed

lemma in_numpat:
  "(s', c') \<in> set (rx_match numpat (s, c)) \<longleftrightarrow> (\<exists>num. decimal_numeral num \<and> s = num @ s') \<and> c' = c"
  using in_numpat_D [of s' c' s c] in_numpat_I [of _ s s' c] by blast

lemma pattern_numpat:
  "pattern = Seq (Grp 1 numpat) (Seq (Rep1 isspace) (Seq (Grp 2 (Rep1 dotcls)) Eos))"
  by (simp add: pattern_def numpat_def)

lemma in_pattern:
  "(s', caps) \<in> set (rx_match pattern (m, c)) \<longleftrightarrow>
     (\<exists>num ws body. decimal_numeral num \<and> ws \<noteq> [] \<and> (\<forall>x\<in>set ws. isspace x) \<and>
        body \<noteq> [] \<and> newline \<notin> set body \<and> m = num @ ws @ body @ s' \<and>
        caps = (2, body) # (1, num) # c) \<and> (s' = [] \<or> s' = [newline])"
  (is "?L \<longleftrightarrow> ?R")
proof
  assume ?L
  then obtain s1 c1 s2 c2 s3 c3 where
    1: "(s1, c1) \<in> set (rx_match (Grp 1 numpat) (m, c))" and
    2: "(s2, c2) \<in> set (rx_match (Rep1 isspace) (s1, c1))" and
    3: "(s3, c3) \<in> set (rx_match (Grp 2 (Rep1 dotcls)) (s2, c2))" and
    4: "(s', caps) \<in> set (rx_match Eos (s3, c3))"
    unfolding pattern_numpat in_Seq by (metis surj_pair)
  from 1 obtain num where num: "decimal_numeral num" "m = num @ s1" "c1 = (1, num) # c"
    unfolding in_Grp in_numpat by auto
  from 2 obtain ws where ws: "ws \<noteq> []" "\<forall>x\<in>set ws. isspace x" "s1 = ws @ s2" "c2 = c1"
    unfolding in_Rep1 by blast
  from 3 obtain body where body: "body \<noteq> []" "\<forall>x\<in>set body. x \<noteq> newline" "s2 = body @ s3" "c3 = (2, body) # c2"
    unfolding in_Grp in_Rep1 dotcls_def by auto
  from 4 have e: "s' = s3" "caps = c3" "s3 = [] \<or> s3 = [newline]"
    unfolding in_Eos by auto
  show ?R using num ws body e by auto
next
  assume ?R
  then obtain num ws body where
    h: "decimal_numeral num" "ws \<noteq> []" "\<forall>x\<in>set ws. isspace x" "body \<noteq> []" "newline \<notin> set body"
       "m = num @ ws @ body @ s'" "caps = (2, body) # (1, num) # c" and e: "s' = [] \<or> s' = [newline]"
    by blast
  have 1: "(ws @ body @ s', (1, num) # c) \<in> set (rx_match (Grp 1 numpat) (m, c))"
    unfolding in_Grp in_numpat using h(1,6) by auto
  have 2: "(body @ s', (1, num) # c) \<in> set (rx_match (Rep1 isspace) (ws @ body @ s', (1, num) # c))"
    unfolding in_Rep1 using h(2,3) by blast
  have 3: "(s', (2, body) # (1, num) # c) \<in> set (rx_match (Grp 2 (Rep1 dotcls)) (body @ s', (1, num) # c))"
    unfolding in_Grp in_Rep1 dotcls_def using h(4,5) by auto
  have 4: "(s', caps) \<in> set (rx_match Eos (s', (2, body) # (1, num) # c))"
    unfolding in_Eos using h(7) e by simp
  show ?L unfolding pattern_numpat in_Seq using 1 2 3 4 by blast
qed

section \<open>Stripped messages and the groups of a match\<close>

lemma rev_dropWhile_rev_id:
  assumes "xs \<noteq> []" "\<not> P (last xs)"
  shows "rev (dropWhile P (rev xs)) = xs"
proof -
  have "xs = butlast xs @ [last xs]"
    using assms(1) by simp
  then have "rev xs = last xs # rev (butlast xs)"
    by (metis rev_eq_Cons_iff rev_rev_ident)
  then have "dropWhile P (rev xs) = rev xs"
    using assms(2) by (metis dropWhile.simps(2))
  then show ?thesis by (metis rev_rev_ident)
qed

lemma dropWhile_keeps_last:
  assumes "xs \<noteq> []" "\<not> P (last xs)"
  shows "dropWhile P xs \<noteq> [] \<and> last (dropWhile P xs) = last xs"
  using assms by (induction xs) (auto split: if_splits)

lemma strip_ends:
  assumes "strip s \<noteq> []"
  shows "\<not> isspace (hd (strip s))" and "\<not> isspace (last (strip s))"
proof -
  let ?t = "dropWhile isspace s"
  let ?u = "dropWhile isspace (rev ?t)"
  have u: "?u \<noteq> []" using assms by (simp add: strip_def)
  then have "\<not> isspace (hd ?u)" by (rule hd_dropWhile)
  moreover have "last (strip s) = hd ?u"
    using u by (simp add: strip_def last_rev)
  ultimately show "\<not> isspace (last (strip s))" by simp
  have "rev ?t = takeWhile isspace (rev ?t) @ ?u" by simp
  then have "?t = rev ?u @ rev (takeWhile isspace (rev ?t))"
    by (metis rev_append rev_rev_ident)
  then have t: "?t = strip s @ rev (takeWhile isspace (rev ?t))"
    by (simp add: strip_def)
  then have "?t \<noteq> []" using assms by (metis append_is_Nil_conv)
  then have "\<not> isspace (hd ?t)" by (rule hd_dropWhile)
  moreover have "hd ?t = hd (strip s)" using t assms by (metis hd_append2)
  ultimately show "\<not> isspace (hd (strip s))" by simp
qed

lemma strip_body:
  assumes "body \<noteq> []" "\<not> isspace (last body)"
  shows "strip body = dropWhile isspace body"
proof -
  have "dropWhile isspace body \<noteq> [] \<and> last (dropWhile isspace body) = last body"
    using assms by (rule dropWhile_keeps_last)
  then show ?thesis
    unfolding strip_def using assms(2) by (simp add: rev_dropWhile_rev_id)
qed

lemma decimal_numeral_no_space:
  assumes "decimal_numeral num"
  shows "\<forall>x\<in>set num. \<not> isspace x"
proof -
  from assms obtain ip where ip: "\<forall>x\<in>set ip. isdigit x"
    and alt: "num = ip \<or> (\<exists>sep fp. (sep = CHR ''.'' \<or> sep = CHR '','') \<and> fp \<noteq> [] \<and>
                       (\<forall>x\<in>set fp. isdigit x) \<and> num = ip @ sep # fp)"
    unfolding decimal_numeral_iff by blast
  from alt show ?thesis
  proof
    assume "num = ip"
    then show ?thesis using ip isdigit_not_isspace by blast
  next
    assume "\<exists>sep fp. (sep = CHR ''.'' \<or> sep = CHR '','') \<and> fp \<noteq> [] \<and>
                       (\<forall>x\<in>set fp. isdigit x) \<and> num = ip @ sep # fp"
    then obtain sep fp where sep: "sep = CHR ''.'' \<or> sep = CHR '',''"
      and fp: "\<forall>x\<in>set fp. isdigit x" and n: "num = ip @ sep # fp" by blast
    have "\<not> isspace sep" using sep not_isspace_sep by blast
    moreover have "set num = set ip \<union> {sep} \<union> set fp" using n by simp
    ultimately show ?thesis using ip fp isdigit_not_isspace by blast
  qed
qed

lemma decimal_numeral_nonempty: "decimal_numeral num \<Longrightarrow> num \<noteq> []"
  unfolding decimal_numeral_iff by blast

lemma split_parts:
  assumes "\<forall>x\<in>set num. \<not> isspace x" "ws \<noteq> []" "\<forall>x\<in>set ws. isspace x"
  shows "numeric_part (num @ ws @ body) = num"
    and "trailing_text (num @ ws @ body) = dropWhile isspace body"
proof -
  have hd: "isspace (hd ws)" using assms(2,3) by (cases ws) auto
  have ws: "ws = hd ws # tl ws" using assms(2) by simp
  have "takeWhile (\<lambda>c. \<not> isspace c) (num @ hd ws # tl ws @ body) = num"
    using assms(1) hd by (simp add: takeWhile_append2)
  then show "numeric_part (num @ ws @ body) = num"
    unfolding numeric_part_def using ws by (metis append_Cons)
  have "dropWhile (\<lambda>c. \<not> isspace c) (num @ hd ws # tl ws @ body) = hd ws # tl ws @ body"
    using assms(1) hd by (simp add: dropWhile_append2)
  then have "dropWhile (\<lambda>c. \<not> isspace c) (num @ ws @ body) = ws @ body"
    using ws by (metis append_Cons)
  then show "trailing_text (num @ ws @ body) = dropWhile isspace body"
    unfolding trailing_text_def using assms(3) by (simp add: dropWhile_append2)
qed

lemma match_groups:
  assumes m: "m \<noteq> []" "\<not> isspace (last m)"
    and r: "(s', caps) \<in> set (rx_match pattern (m, []))"
  shows "match_group caps 1 = Some (numeric_part m)"
    and "\<exists>body. match_group caps 2 = Some body \<and> strip body = trailing_text m"
    and "matches_format m"
proof -
  from r obtain num ws body where
    h: "decimal_numeral num" "ws \<noteq> []" "\<forall>x\<in>set ws. isspace x" "body \<noteq> []" "newline \<notin> set body"
       "m = num @ ws @ body @ s'" "caps = [(2, body), (1, num)]" and e: "s' = [] \<or> s' = [newline]"
    unfolding in_pattern by blast
  have "s' \<noteq> [newline]"
  proof
    assume "s' = [newline]"
    then have "last m = newline" using h(6) by simp
    then show False using m(2) by simp
  qed
  then have s': "s' = []" using e by blast
  then have mm: "m = num @ ws @ body" using h(6) by simp
  have ns: "\<forall>x\<in>set num. \<not> isspace x" using h(1) by (rule decimal_numeral_no_space)
  have np: "numeric_part m = num" and tt: "trailing_text m = dropWhile isspace body"
    unfolding mm using ns h(2,3) by (rule split_parts)+
  have "last body = last m" using mm h(4) by simp
  then have sb: "strip body = dropWhile isspace body"
    using h(4) m(2) by (simp add: strip_body)
  show "match_group caps 1 = Some (numeric_part m)"
    using h(7) np by (simp add: match_group_def)
  show "\<exists>body. match_group caps 2 = Some body \<and> strip body = trailing_text m"
    using h(7) tt sb by (simp add: match_group_def)
  have "dropWhile isspace body \<noteq> []"
    using dropWhile_keeps_last [of body isspace] h(4) m(2) \<open>last body = last m\<close> by simp
  moreover have "newline \<notin> set (dropWhile isspace body)"
    using h(5) by (meson set_dropWhileD)
  ultimately show "matches_format m"
    unfolding matches_format_def np tt using h(1) by simp
qed

lemma matches_format_match:
  assumes "matches_format m"
  shows "rx_match pattern (m, []) \<noteq> []"
proof -
  let ?num = "numeric_part m"
  let ?rest = "dropWhile (\<lambda>c. \<not> isspace c) m"
  let ?ws = "takeWhile isspace ?rest"
  let ?body = "trailing_text m"
  have h: "decimal_numeral ?num" "?body \<noteq> []" "newline \<notin> set ?body"
    using assms by (simp_all add: matches_format_def)
  have rest: "?rest \<noteq> []" using h(2) unfolding trailing_text_def by (metis dropWhile.simps(1))
  then have "\<not> \<not> isspace (hd ?rest)" by (rule hd_dropWhile)
  then have ws1: "?ws \<noteq> []" using rest by (cases ?rest) simp_all
  have ws2: "\<forall>x\<in>set ?ws. isspace x" by (blast dest: set_takeWhileD)
  have "m = ?num @ ?rest" unfolding numeric_part_def by simp
  moreover have "?rest = ?ws @ ?body" unfolding trailing_text_def by simp
  ultimately have m: "m = ?num @ ?ws @ ?body @ []" by simp
  have c: "[(2, ?body), (1, ?num)] = (2, ?body) # (1, ?num) # []" by simp
  have "\<exists>num ws body. decimal_numeral num \<and> ws \<noteq> [] \<and> (\<forall>x\<in>set ws. isspace x) \<and>
        body \<noteq> [] \<and> newline \<notin> set body \<and> m = num @ ws @ body @ [] \<and>
        [(2, ?body), (1, ?num)] = (2, body) # (1, num) # []"
    apply (rule exI [of _ ?num])
    apply (rule exI [of _ ?ws])
    apply (rule exI [of _ ?body])
    apply (intro conjI)
          apply (rule h(1))
         apply (rule ws1)
        apply (rule ws2)
       apply (rule h(2))
      apply (rule h(3))
     apply (rule m)
    apply (rule c)
    done
  then have "([], [(2, ?body), (1, ?num)]) \<in> set (rx_match pattern (m, []))"
    unfolding in_pattern by blast
  then show ?thesis by (metis empty_iff empty_set)
qed

lemma parse_expense_message_checked:
  "parse_expense_message msg = parse_checked msg"
proof (cases "strip msg = []")
  case True
  then show ?thesis by (simp add: parse_expense_message_def parse_checked_def)
next
  case False
  let ?m = "strip msg"
  have last: "\<not> isspace (last ?m)" using False by (rule strip_ends)
  show ?thesis
  proof (cases "rx_match pattern (?m, [])")
    case Nil
    then have "\<not> matches_format ?m" using matches_format_match by blast
    moreover have "re_match pattern ?m = None" using Nil by (simp add: re_match_def)
    ultimately show ?thesis using False
      by (simp add: parse_expense_message_def parse_checked_def)
  next
    case (Cons r rs)
    obtain s' caps where r: "r = (s', caps)" by (cases r)
    have mem: "(s', caps) \<in> set (rx_match pattern (?m, []))" using Cons r by simp
    have g1: "match_group caps 1 = Some (numeric_part ?m)"
      using False last mem by (rule match_groups)
    obtain body where g2: "match_group caps 2 = Some body" and sb: "strip body = trailing_text ?m"
      using match_groups(2) [OF False last mem] by blast
    have mf: "matches_format ?m" using False last mem by (rule match_groups)
    have re: "re_match pattern ?m = Some caps" using Cons r by (simp add: re_match_def)
    show ?thesis
      using False mf re g1 g2 sb
      by (simp add: parse_expense_message_def parse_checked_def Let_def split: option.splits)
  qed
qed

section \<open>Rounding to binary64\<close>

lemma pow2_powi: "pow2 e = 2 powi e"
  unfolding pow2_def power_int_def by (simp add: power_one_over)

lemma pow2_pos: "0 < pow2 e"
  unfolding pow2_powi by simp

lemma pow2_add: "pow2 (a + b) = pow2 a * pow2 b"
  unfolding pow2_powi by (rule power_int_add) simp

lemma pow2_nat: "0 \<le> e \<Longrightarrow> pow2 e = 2 ^ nat e"
  by (simp add: pow2_def)

lemma pow2_mono: "a \<le> b \<Longrightarrow> pow2 a \<le> pow2 b"
  unfolding pow2_powi by (rule power_int_increasing) simp_all

lemma pow2_less_cancel: "pow2 a < pow2 b \<Longrightarrow> a < b"
  using pow2_mono [of b a] by linarith

lemma round_half_even_ge: "of_int k \<le> x \<Longrightarrow> k \<le> round_half_even x"
proof -
  assume "of_int k \<le> x"
  then have "k \<le> \<lfloor>x\<rfloor>" by (simp add: le_floor_iff)
  then show ?thesis by (simp add: round_half_even_def Let_def)
qed

lemma round_half_even_le: "x \<le> of_int k \<Longrightarrow> round_half_even x \<le> k"
proof -
  assume x: "x \<le> of_int k"
  then have f: "\<lfloor>x\<rfloor> \<le> k" by (simp add: floor_le_iff)
  show ?thesis
  proof (cases "\<lfloor>x\<rfloor> = k")
    case True
    then have "x - of_int \<lfloor>x\<rfloor> \<le> 0" using x by simp
    then show ?thesis using True by (simp add: round_half_even_def Let_def)
  next
    case False
    then have "\<lfloor>x\<rfloor> + 1 \<le> k" using f by simp
    then show ?thesis by (auto simp: round_half_even_def Let_def)
  qed
qed

lemma round_half_even_gt_half: "1 / 2 < x \<Longrightarrow> 1 \<le> round_half_even x"
proof -
  assume x: "1 / 2 < x"
  then have f: "0 \<le> \<lfloor>x\<rfloor>" by simp
  show ?thesis
  proof (cases "\<lfloor>x\<rfloor> = 0")
    case True
    then have "1 / 2 < x - of_int \<lfloor>x\<rfloor>" using x by simp
    then show ?thesis using True by (simp add: round_half_even_def Let_def)
  next
    case False
    then have "1 \<le> \<lfloor>x\<rfloor>" using f by linarith
    then show ?thesis by (auto simp: round_half_even_def Let_def)
  qed
qed

lemma binade_le:
  assumes "0 < n" "0 < d"
  shows "pow2 (binade n d) \<le> of_int n / of_int d"
proof -
  let ?e = "bitlen n - bitlen d"
  have d: "(0::rat) < of_int d" using assms(2) by simp
  show ?thesis
  proof (cases "pow2 ?e * of_int d \<le> (of_int n :: rat)")
    case True
    then have "binade n d = ?e" by (simp add: binade_def)
    then show ?thesis using True d by (simp add: pos_le_divide_eq)
  next
    case False
    then have b: "binade n d = ?e - 1" by (simp add: binade_def)
    have bn: "1 \<le> bitlen n" using assms(1) bitlen_eq_zero_iff [of n] bitlen_nonneg [of n] by linarith
    have bd: "0 \<le> bitlen d" by (rule bitlen_nonneg)
    have "2 ^ nat (bitlen n - 1) \<le> n" using bitlen_bounds [OF assms(1)] by blast
    then have "(of_int (2 ^ nat (bitlen n - 1)) :: rat) \<le> of_int n"
      by (simp only: of_int_le_iff)
    then have 1: "(2 ^ nat (bitlen n - 1) :: rat) \<le> of_int n"
      by simp
    have "d < 2 ^ nat (bitlen d)" using bitlen_bounds [OF assms(2)] by blast
    then have "(of_int d :: rat) \<le> of_int (2 ^ nat (bitlen d))"
      by (simp only: of_int_le_iff)
    then have 2: "(of_int d :: rat) \<le> 2 ^ nat (bitlen d)"
      by simp
    have "pow2 (?e - 1) * of_int d \<le> pow2 (?e - 1) * 2 ^ nat (bitlen d)"
      using 2 pow2_pos [of "?e - 1"] by (simp add: mult_left_mono)
    also have "\<dots> = pow2 (?e - 1) * pow2 (bitlen d)" using bd by (simp add: pow2_nat)
    also have "\<dots> = pow2 ((?e - 1) + bitlen d)" by (rule pow2_add [symmetric])
    also have "\<dots> = pow2 (bitlen n - 1)" by (rule arg_cong [of _ _ pow2]) simp
    also have "\<dots> = 2 ^ nat (bitlen n - 1)" using bn by (simp add: pow2_nat)
    also have "\<dots> \<le> of_int n" by (rule 1)
    finally show ?thesis using b d by (simp add: pos_le_divide_eq)
  qed
qed

lemma round_to_double_positive:
  assumes d: "0 < d" and x: "1 / 2 ^ 1075 < (of_int n :: rat) / of_int d"
  shows "\<not> float_le_int (round_to_double n d) 0"
proof -
  let ?x = "(of_int n :: rat) / of_int d"
  have d': "(0::rat) < of_int d" using d by simp
  have "(0::rat) < 1 / 2 ^ 1075" by simp
  then have xpos: "0 < ?x" using x by (rule less_trans)
  then have n: "0 < n" using d' by (simp add: zero_less_divide_iff)
  show ?thesis
  proof (cases "?x < pow2 (- 1022)")
    case True
    have "(1 / 2 ^ 1075) * 2 ^ 1074 < ?x * 2 ^ 1074"
      using x by (rule mult_strict_right_mono) simp
    moreover have "(1 / 2 ^ 1075) * 2 ^ 1074 = (1 / 2 :: rat)" by simp
    ultimately have "1 / 2 < ?x * 2 ^ 1074" by simp
    then have "1 \<le> round_half_even (?x * 2 ^ 1074)" by (rule round_half_even_gt_half)
    then have "(0::rat) < of_int (round_half_even (?x * 2 ^ 1074)) / 2 ^ 1074"
      by (simp add: zero_less_divide_iff)
    then show ?thesis using True by (simp add: round_to_double_def Let_def)
  next
    case False
    let ?q = "pow2 (binade n d - 52)"
    have q: "0 < ?q" by (rule pow2_pos)
    have "?q \<le> pow2 (binade n d)" by (rule pow2_mono) simp
    also have "\<dots> \<le> ?x" using n d by (rule binade_le)
    finally have "1 * ?q \<le> ?x" by simp
    then have "1 \<le> ?x / ?q" using q by (simp only: pos_le_divide_eq)
    then have "of_int 1 \<le> ?x / ?q" by (simp only: of_int_1)
    then have "1 \<le> round_half_even (?x / ?q)" by (rule round_half_even_ge)
    then have "(0::rat) < of_int (round_half_even (?x / ?q))" by simp
    then have y: "0 < of_int (round_half_even (?x / ?q)) * ?q" using q by (rule mult_pos_pos)
    show ?thesis
    proof (cases "2 ^ 1024 \<le> of_int (round_half_even (?x / ?q)) * ?q")
      case True
      then show ?thesis using False by (simp add: round_to_double_def Let_def)
    next
      case F2: False
      have "round_to_double n d = Flt (of_int (round_half_even (?x / ?q)) * ?q)"
        using False F2 by (simp add: round_to_double_def Let_def)
      then show ?thesis using y by simp
    qed
  qed
qed

lemma round_to_double_ceiling:
  assumes d: "0 < d" and x: "(of_int n :: rat) / of_int d \<le> 1000000"
  shows "\<not> float_gt_int (round_to_double n d) 1000000"
proof -
  let ?x = "(of_int n :: rat) / of_int d"
  show ?thesis
  proof (cases "?x < pow2 (- 1022)")
    case True
    have "?x * 2 ^ 1074 \<le> pow2 (- 1022) * 2 ^ 1074"
      using True by (intro mult_right_mono) simp_all
    also have "pow2 (- 1022) * 2 ^ 1074 = of_int (2 ^ 52)" by (simp add: pow2_def)
    finally have "round_half_even (?x * 2 ^ 1074) \<le> 2 ^ 52" by (rule round_half_even_le)
    then have "(of_int (round_half_even (?x * 2 ^ 1074)) :: rat) \<le> of_int (2 ^ 52)"
      by (simp only: of_int_le_iff)
    then have "(of_int (round_half_even (?x * 2 ^ 1074)) :: rat) / 2 ^ 1074 \<le> of_int (2 ^ 52) / 2 ^ 1074"
      by (rule divide_right_mono) simp
    also have "(of_int (2 ^ 52) :: rat) / 2 ^ 1074 \<le> 1000000" by simp
    finally show ?thesis using True by (simp add: round_to_double_def Let_def)
  next
    case False
    let ?b = "binade n d"
    let ?q = "pow2 (?b - 52)"
    let ?K = "1000000 * 2 ^ nat (52 - ?b) :: int"
    have q: "0 < ?q" by (rule pow2_pos)
    have d': "(0::rat) < of_int d" using d by simp
    have "0 < pow2 (- 1022)" by (rule pow2_pos)
    then have "0 < ?x" using False by linarith
    then have n: "0 < n" using d' by (simp add: zero_less_divide_iff)
    have "pow2 ?b \<le> ?x" using n d by (rule binade_le)
    also have "?x \<le> 1000000" by (rule x)
    also have "(1000000::rat) < pow2 20" by (simp add: pow2_def)
    finally have "?b < 20" by (rule pow2_less_cancel)
    then have b: "0 \<le> 52 - ?b" by simp
    have "(of_int ?K :: rat) * ?q = 1000000 * (pow2 (52 - ?b) * ?q)"
      using b by (simp add: pow2_nat)
    also have "pow2 (52 - ?b) * ?q = pow2 ((52 - ?b) + (?b - 52))" by (rule pow2_add [symmetric])
    also have "\<dots> = 1" by (simp add: pow2_def)
    finally have K: "(of_int ?K :: rat) * ?q = 1000000" by simp
    have "?x \<le> of_int ?K * ?q" using x K by simp
    then have "?x / ?q \<le> of_int ?K" using q by (simp only: pos_divide_le_eq)
    then have "round_half_even (?x / ?q) \<le> ?K" by (rule round_half_even_le)
    then have "(of_int (round_half_even (?x / ?q)) :: rat) \<le> of_int ?K"
      by (simp only: of_int_le_iff)
    then have "of_int (round_half_even (?x / ?q)) * ?q \<le> of_int ?K * ?q"
      using q by (intro mult_right_mono) simp_all
    then have y: "of_int (round_half_even (?x / ?q)) * ?q \<le> 1000000" using K by simp
    have "(1000000::rat) < 2 ^ 1024" by simp
    then have "\<not> 2 ^ 1024 \<le> of_int (round_half_even (?x / ?q)) * ?q" using y by linarith
    then have "round_to_double n d = Flt (of_int (round_half_even (?x / ?q)) * ?q)"
      using False by (simp add: round_to_double_def Let_def)
    then show ?thesis using y by simp
  qed
qed

section \<open>The float read from a numeral\<close>

lemma decimal_denominator_pos: "0 < decimal_denominator n"
  by (simp add: decimal_denominator_def)

lemma replace_comma_digits:
  assumes "\<forall>x\<in>set ds. isdigit x"
  shows "replace_comma ds = ds"
proof -
  have "\<forall>x\<in>set ds. x \<noteq> CHR '',''" using assms not_isdigit_sep(2) by blast
  then show ?thesis unfolding replace_comma_def by (induction ds) simp_all
qed

lemma float_of_decimal:
  assumes "decimal_numeral num"
  shows "float_of_str (replace_comma num) =
           Some (round_to_double (decimal_numerator num) (decimal_denominator num))"
proof -
  from assms obtain ip where ip: "ip \<noteq> []" "\<forall>x\<in>set ip. isdigit x"
    and alt: "num = ip \<or> (\<exists>sep fp. (sep = CHR ''.'' \<or> sep = CHR '','') \<and> fp \<noteq> [] \<and>
                       (\<forall>x\<in>set fp. isdigit x) \<and> num = ip @ sep # fp)"
    unfolding decimal_numeral_iff by blast
  have fip: "filter isdigit ip = ip" using ip(2) by simp
  from alt show ?thesis
  proof
    assume n: "num = ip"
    have rc: "replace_comma num = ip" unfolding n using ip(2) by (rule replace_comma_digits)
    have tw: "takeWhile isdigit ip = ip" and dw: "dropWhile isdigit ip = []"
      using ip(2) by simp_all
    have "float_of_str ip = Some (round_to_double (digits_value ip) 1)"
      unfolding float_of_str_def Let_def tw dw using ip(1) by simp
    moreover have "decimal_numerator num = digits_value ip"
      unfolding decimal_numerator_def n fip ..
    moreover have "decimal_denominator num = 1"
      unfolding decimal_denominator_def n dw by simp
    ultimately show ?thesis using rc by simp
  next
    assume "\<exists>sep fp. (sep = CHR ''.'' \<or> sep = CHR '','') \<and> fp \<noteq> [] \<and>
                       (\<forall>x\<in>set fp. isdigit x) \<and> num = ip @ sep # fp"
    then obtain sep fp where sep: "sep = CHR ''.'' \<or> sep = CHR '',''"
      and fp: "fp \<noteq> []" "\<forall>x\<in>set fp. isdigit x" and n: "num = ip @ sep # fp" by blast
    have nd: "\<not> isdigit sep" using sep not_isdigit_sep by blast
    have ffp: "filter isdigit fp = fp" using fp(2) by simp
    have rs: "(if sep = CHR '','' then CHR ''.'' else sep) = CHR ''.''" using sep by auto
    have "replace_comma num = replace_comma ip @ (if sep = CHR '','' then CHR ''.'' else sep) # replace_comma fp"
      unfolding n replace_comma_def by simp
    then have rc: "replace_comma num = ip @ CHR ''.'' # fp"
      using replace_comma_digits [OF ip(2)] replace_comma_digits [OF fp(2)] rs by simp
    have tw: "takeWhile isdigit (ip @ CHR ''.'' # fp) = ip"
      and dw: "dropWhile isdigit (ip @ CHR ''.'' # fp) = CHR ''.'' # fp"
      using ip(2) by (simp_all add: takeWhile_append2 dropWhile_append2)
    have "float_of_str (ip @ CHR ''.'' # fp) =
            Some (round_to_double (digits_value (ip @ fp)) (10 ^ length fp))"
      unfolding float_of_str_def Let_def tw dw list_all_iff using ip(1) fp by simp
    moreover have "filter isdigit num = ip @ fp"
      unfolding n using fip ffp nd by simp
    moreover have "dropWhile isdigit num = sep # fp"
      unfolding n using ip(2) nd by (simp add: dropWhile_append2)
    ultimately show ?thesis
      using rc nd ffp by (simp add: decimal_numerator_def decimal_denominator_def)
  qed
qed

section \<open>The parser and its checks\<close>

lemma dropWhile_last:
  "dropWhile P xs \<noteq> [] \<Longrightarrow> last (dropWhile P xs) = last xs"
  by (induction xs) (auto split: if_splits)

lemma re_match_None_iff:
  assumes "m \<noteq> []" "\<not> isspace (last m)"
  shows "re_match pattern m = None \<longleftrightarrow> \<not> matches_format m"
proof (cases "rx_match pattern (m, [])")
  case Nil
  then have "\<not> matches_format m" using matches_format_match by blast
  moreover have "re_match pattern m = None" using Nil by (simp add: re_match_def)
  ultimately show ?thesis by simp
next
  case (Cons r rs)
  obtain s' caps where r: "r = (s', caps)" by (cases r)
  have mem: "(s', caps) \<in> set (rx_match pattern (m, []))" using Cons r by simp
  have "matches_format m" using assms mem by (rule match_groups)
  moreover have "re_match pattern m \<noteq> None" using Cons r by (simp add: re_match_def)
  ultimately show ?thesis by simp
qed

lemma strip_trailing_text:
  assumes "\<not> isspace (last m)" "trailing_text m \<noteq> []"
  shows "strip (trailing_text m) = trailing_text m"
proof -
  let ?r = "dropWhile (\<lambda>c. \<not> isspace c) m"
  have r: "?r \<noteq> []" using assms(2) unfolding trailing_text_def by (metis dropWhile.simps(1))
  have "last (trailing_text m) = last ?r"
    using assms(2) unfolding trailing_text_def by (rule dropWhile_last)
  also have "\<dots> = last m" using r by (rule dropWhile_last)
  finally have l: "\<not> isspace (last (trailing_text m))" using assms(1) by simp
  have "\<not> isspace (hd (trailing_text m))"
    using assms(2) unfolding trailing_text_def by (rule hd_dropWhile)
  then have "dropWhile isspace (trailing_text m) = trailing_text m"
    using assms(2) by (cases "trailing_text m") simp_all
  then show ?thesis using strip_body [OF assms(2) l] by simp
qed

lemma float_check_checked:
  "parse_checked msg =
     (case first_failing_float_check msg of
        Some e \<Rightarrow> (None, None, failure_message e)
      | None \<Rightarrow> (float_of_str (replace_comma (numeric_part (strip msg))),
                   Some (trailing_text (strip msg)), ''''))"
proof (cases "strip msg = []")
  case True
  then show ?thesis by (simp add: parse_checked_def first_failing_float_check_def)
next
  case False
  let ?m = "strip msg"
  have last: "\<not> isspace (last ?m)" using False by (rule strip_ends)
  show ?thesis
  proof (cases "matches_format ?m")
    case F: False
    then show ?thesis using False
      by (simp add: parse_checked_def first_failing_float_check_def)
  next
    case True
    then have tt: "trailing_text ?m \<noteq> []" by (simp add: matches_format_def)
    have st: "strip (trailing_text ?m) = trailing_text ?m"
      using last tt by (rule strip_trailing_text)
    show ?thesis using False True st tt
      by (simp add: parse_checked_def first_failing_float_check_def Let_def split: option.splits)
  qed
qed

lemma failure_message_nonempty: "failure_message e \<noteq> []"
  by (cases e)
    (simp_all add: MSG_EMPTY_def MSG_FORMAT_def MSG_AMOUNT_def MSG_NOT_POSITIVE_def
      MSG_TOO_HIGH_def MSG_TOO_LONG_def MSG_NO_DESCRIPTION_def)

lemma float_check_None:
  assumes "first_failing_float_check msg = None"
  shows "\<exists>a. float_of_str (replace_comma (numeric_part (strip msg))) = Some a"
  using assms unfolding first_failing_float_check_def Let_def
  by (auto split: if_splits option.splits)

lemma round_half_even_small:
  assumes "0 \<le> x" "x \<le> 1 / 2"
  shows "round_half_even x = 0"
proof -
  have "\<lfloor>x\<rfloor> = 0" using assms by (simp add: floor_eq_iff)
  then show ?thesis using assms by (simp add: round_half_even_def Let_def)
qed

lemma round_to_double_underflow:
  assumes d: "0 < d" and n: "0 \<le> n" and x: "(of_int n :: rat) / of_int d \<le> 1 / 2 ^ 1075"
  shows "round_to_double n d = Flt 0"
proof -
  let ?x = "(of_int n :: rat) / of_int d"
  have x0: "0 \<le> ?x" using d n by simp
  have "(1 / 2 ^ 1075 :: rat) < pow2 (- 1022)" by (simp add: pow2_def)
  then have sub: "?x < pow2 (- 1022)" using x by linarith
  have "?x * 2 ^ 1074 \<le> (1 / 2 ^ 1075) * 2 ^ 1074"
    using x by (rule mult_right_mono) simp
  also have "(1 / 2 ^ 1075) * 2 ^ 1074 = (1 / 2 :: rat)" by simp
  finally have le: "?x * 2 ^ 1074 \<le> 1 / 2" .
  have "0 \<le> ?x * 2 ^ 1074" using x0 by (rule mult_nonneg_nonneg) simp
  then have "round_half_even (?x * 2 ^ 1074) = 0" using le by (rule round_half_even_small)
  then show ?thesis using sub by (simp add: round_to_double_def Let_def)
qed

lemma strip_id:
  assumes "s \<noteq> []" "\<not> isspace (hd s)" "\<not> isspace (last s)"
  shows "strip s = s"
proof -
  have "dropWhile isspace s = s" using assms(1,2) by (cases s) simp_all
  then show ?thesis unfolding strip_def using assms(1,3) by (simp add: rev_dropWhile_rev_id)
qed

lemma parse_decomposed:
  assumes m: "strip msg = num @ ws @ body"
    and num: "decimal_numeral num"
    and ws: "ws \<noteq> []" "\<forall>c\<in>set ws. isspace c"
    and body: "body \<noteq> []" "newline \<notin> set body"
  shows "parse_expense_message msg =
     (let amount = round_to_double (decimal_numerator num) (decimal_denominator num)
      in if float_le_int amount 0 then (None, None, MSG_NOT_POSITIVE)
         else if float_gt_int amount 1000000 then (None, None, MSG_TOO_HIGH)
         else if length (strip body) > 100 then (None, None, MSG_TOO_LONG)
         else (Some amount, Some (strip body), ''''))"
proof -
  let ?m = "strip msg"
  have ne: "?m \<noteq> []" using m body(1) by simp
  then have last: "\<not> isspace (last ?m)" by (rule strip_ends)
  have lb: "last body = last ?m" using m body(1) by simp
  have ns: "\<forall>x\<in>set num. \<not> isspace x" using num by (rule decimal_numeral_no_space)
  have np: "numeric_part ?m = num" and tt: "trailing_text ?m = dropWhile isspace body"
    unfolding m using ns ws by (rule split_parts)+
  have sb: "strip body = dropWhile isspace body"
    using body(1) last lb by (simp add: strip_body)
  have "dropWhile isspace body \<noteq> []"
    using dropWhile_keeps_last [of body isspace] body(1) last lb by simp
  moreover have "newline \<notin> set (dropWhile isspace body)"
    using body(2) by (meson set_dropWhileD)
  ultimately have mf: "matches_format ?m" and tne: "trailing_text ?m \<noteq> []"
    unfolding matches_format_def np tt using num by simp_all
  have fl: "float_of_str (replace_comma num) =
      Some (round_to_double (decimal_numerator num) (decimal_denominator num))"
    using num by (rule float_of_decimal)
  show ?thesis
    unfolding parse_expense_message_checked parse_checked_def Let_def
    using ne mf tne fl by (simp add: np) (simp add: tt sb)
qed

lemma digits_value_append:
  "digits_value (xs @ ys) = foldl (\<lambda>a c. 10 * a + digit_value c) (digits_value xs) ys"
  by (simp add: digits_value_def)

lemma digits_value_zeros: "digits_value (replicate k (CHR ''0'')) = 0"
  by (induction k) (simp_all add: digits_value_def digit_value_def)

lemma isdigit_0_1: "isdigit CHR ''0''" "isdigit CHR ''1''"
  by (simp_all add: isdigit_def)

lemma zeros_one_digits: "\<forall>x\<in>set (replicate k (CHR ''0'') @ ''1''). isdigit x"
proof
  fix x assume "x \<in> set (replicate k (CHR ''0'') @ ''1'')"
  then have "x = CHR ''0'' \<or> x = CHR ''1''" by (cases "k = 0") auto
  then show "isdigit x" using isdigit_0_1 by blast
qed

lemma small_numeral_decimal:
  "decimal_numeral (''0.'' @ replicate k (CHR ''0'') @ ''1'')"
proof -
  let ?fp = "replicate k (CHR ''0'') @ ''1''"
  have 1: "''0.'' @ replicate k (CHR ''0'') @ ''1'' = ''0'' @ CHR ''.'' # ?fp" by simp
  have 2: "''0'' \<noteq> []" "\<forall>x\<in>set ''0''. isdigit x" using isdigit_0_1 by simp_all
  have 3: "?fp \<noteq> []" by simp
  show ?thesis unfolding decimal_numeral_iff 1
    using 2 3 zeros_one_digits [of k] by blast
qed

lemma small_numeral_parts:
  "decimal_numerator (''0.'' @ replicate k (CHR ''0'') @ ''1'') = 1"
  "decimal_denominator (''0.'' @ replicate k (CHR ''0'') @ ''1'') = 10 ^ Suc k"
proof -
  let ?fp = "replicate k (CHR ''0'') @ ''1''"
  have ffp: "filter isdigit ?fp = ?fp" using zeros_one_digits [of k] by (simp only: filter_True)
  have "filter isdigit (''0.'' @ ?fp) = CHR ''0'' # filter isdigit ?fp"
    using isdigit_0_1 not_isdigit_sep by simp
  then have f: "filter isdigit (''0.'' @ ?fp) = replicate (Suc k) (CHR ''0'') @ ''1''"
    using ffp by simp
  have "digits_value (replicate (Suc k) (CHR ''0'') @ ''1'') = 1"
    unfolding digits_value_append digits_value_zeros by (simp add: digit_value_def)
  then show "decimal_numerator (''0.'' @ ?fp) = 1"
    unfolding decimal_numerator_def f .
  have "dropWhile isdigit (''0.'' @ ?fp) = CHR ''.'' # ?fp"
    using isdigit_0_1 not_isdigit_sep by simp
  then have "filter isdigit (dropWhile isdigit (''0.'' @ ?fp)) = ?fp"
    using ffp not_isdigit_sep by simp
  then show "decimal_denominator (''0.'' @ ?fp) = 10 ^ Suc k"
    unfolding decimal_denominator_def by simp
qed

lemma tiny_message_strip: "strip tiny_message = tiny_numeral @ '' '' @ ''x''"
proof -
  have "hd tiny_message = CHR ''0''" "last tiny_message = CHR ''x''" "tiny_message \<noteq> []"
    by (simp_all add: tiny_message_def tiny_numeral_def)
  then have "strip tiny_message = tiny_message"
    by (intro strip_id) (simp_all add: isspace_def)
  then show ?thesis by (simp add: tiny_message_def)
qed

lemma round_half_even_down:
  assumes "of_int k \<le> x" "x < of_int k + 1 / 2"
  shows "round_half_even x = k"
proof -
  have "\<lfloor>x\<rfloor> = k" using assms by (simp add: floor_eq_iff)
  then show ?thesis using assms by (simp add: round_half_even_def Let_def)
qed

lemma round_half_even_up:
  assumes "of_int k - 1 / 2 < x" "x < of_int k"
  shows "round_half_even x = k"
proof -
  have "\<lfloor>x\<rfloor> = k - 1" using assms by (simp add: floor_eq_iff)
  then show ?thesis using assms by (simp add: round_half_even_def Let_def)
qed

lemma round_660: "round_to_double 660 100 = Flt (7430939385161318 / 2 ^ 50)"
proof -
  have b: "bitlen 660 = 10" "bitlen 100 = 7" by code_simp+
  have bin: "binade 660 100 = 2" by (simp add: binade_def b pow2_def)
  have "(660 / 100 :: rat) / pow2 (2 - 52) = 37154696925806592 / 5" by (simp add: pow2_def)
  moreover have "round_half_even (37154696925806592 / 5) = 7430939385161318"
    by (rule round_half_even_down) simp_all
  ultimately show ?thesis by (simp add: round_to_double_def bin Let_def pow2_def)
qed

lemma round_1000001: "round_to_double 100000100 100 = Flt 1000001"
proof -
  have b: "bitlen 100000100 = 27" "bitlen 100 = 7" by code_simp+
  have bin: "binade 100000100 100 = 19" by (simp add: binade_def b pow2_def)
  have "(100000100 / 100 :: rat) / pow2 (19 - 52) = of_int 8589943181934592" by (simp add: pow2_def)
  moreover have "round_half_even (of_int 8589943181934592) = 8589943181934592"
    by (rule round_half_even_down) simp_all
  ultimately show ?thesis by (simp add: round_to_double_def bin Let_def pow2_def)
qed

lemma digits_value_nonneg:
  assumes "\<forall>c\<in>set s. isdigit c"
  shows "0 \<le> digits_value s"
proof -
  have "\<forall>c\<in>set s. isdigit c \<Longrightarrow> 0 \<le> a \<Longrightarrow> 0 \<le> foldl (\<lambda>a c. 10 * a + digit_value c) a s" for a
  proof (induction s arbitrary: a)
    case Nil
    then show ?case by simp
  next
    case (Cons c cs)
    have "(48::nat) \<le> of_char c" using Cons.prems(1) by (simp add: isdigit_def)
    then have "(48::int) \<le> int (of_char c)" by linarith
    then have "0 \<le> digit_value c" by (simp add: digit_value_def of_nat_of_char)
    then have "0 \<le> 10 * a + digit_value c" using Cons.prems by simp
    then show ?case using Cons.IH Cons.prems(1) by simp
  qed
  then show ?thesis using assms by (simp add: digits_value_def)
qed

lemma checks_agree:
  assumes "decimal_value (numeric_part (strip msg)) \<le> 0
           \<or> (1 / 2 ^ 1075 < decimal_value (numeric_part (strip msg))
              \<and> decimal_value (numeric_part (strip msg)) \<le> 1000000)"
  shows "first_failing_float_check msg = first_failing_check msg"
proof (cases "strip msg \<noteq> [] \<and> matches_format (strip msg)")
  case False
  then show ?thesis
    by (auto simp: first_failing_float_check_def first_failing_check_def Let_def)
next
  case True
  let ?num = "numeric_part (strip msg)"
  let ?n = "decimal_numerator ?num" and ?d = "decimal_denominator ?num"
  have num: "decimal_numeral ?num" using True by (simp add: matches_format_def)
  have fl: "float_of_str (replace_comma ?num) = Some (round_to_double ?n ?d)"
    using num by (rule float_of_decimal)
  have d: "0 < ?d" by (rule decimal_denominator_pos)
  have n: "0 \<le> ?n" unfolding decimal_numerator_def by (rule digits_value_nonneg) simp
  from assms show ?thesis
  proof
    assume le: "decimal_value ?num \<le> 0"
    have "(of_int ?n :: rat) / of_int ?d \<le> 1 / 2 ^ 1075"
      using le unfolding decimal_value_def by (rule order_trans) simp
    with d n have "round_to_double ?n ?d = Flt 0" by (rule round_to_double_underflow)
    then show ?thesis using True num fl le
      by (simp add: first_failing_float_check_def first_failing_check_def Let_def)
  next
    assume r: "1 / 2 ^ 1075 < decimal_value ?num \<and> decimal_value ?num \<le> 1000000"
    have 1: "\<not> float_le_int (round_to_double ?n ?d) 0"
      using d r unfolding decimal_value_def by (intro round_to_double_positive) simp_all
    have 2: "\<not> float_gt_int (round_to_double ?n ?d) 1000000"
      using d r unfolding decimal_value_def by (intro round_to_double_ceiling) simp_all
    have "(0::rat) < 1 / 2 ^ 1075" by simp
    with r have 3: "\<not> decimal_value ?num \<le> 0" by linarith
    show ?thesis using True num fl 1 2 3 r
      by (simp add: first_failing_float_check_def first_failing_check_def Let_def)
  qed
qed

lemma round_ceiling_numeral: "round_to_double 100000000000000001 100000000000 = Flt 1000000"
proof -
  have b: "bitlen 100000000000000001 = 57" "bitlen 100000000000 = 37" by code_simp+
  have bin: "binade 100000000000000001 100000000000 = 19" by (simp add: binade_def b pow2_def)
  have "round_half_even ((100000000000000001 / 100000000000 :: rat) / pow2 (19 - 52)) = 8589934592000000"
    by (rule round_half_even_down) (simp_all add: pow2_def)
  then show ?thesis by (simp add: round_to_double_def bin Let_def pow2_def)
qed

lemma ceiling_message_strip: "strip ceiling_message = ceiling_numeral @ '' '' @ ''rent''"
  unfolding ceiling_message_def ceiling_numeral_def by code_simp

lemma ceiling_numeral_parts:
  "decimal_numeral ceiling_numeral"
  "decimal_numerator ceiling_numeral = 100000000000000001"
  "decimal_denominator ceiling_numeral = 100000000000"
  unfolding ceiling_numeral_def by code_simp+

section \<open>The ledger client against its collaborators\<close>

lemma log_all_mock:
  "log_all (mock_env add) expenses previous =
     (map JReal (running_totals add previous (map fst expenses)),
      foldl add previous (map fst expenses))"
proof (induction expenses arbitrary: previous)
  case Nil
  show ?case by simp
next
  case (Cons x xs)
  obtain amount category where x: "x = (amount, category)" by (cases x)
  have step: "log_expense (mock_env add) amount category previous =
      (Inr [(''success'', JBool True),
            (''message'', JStr ''Expense logged successfully''),
            (''running_total'', JReal (add previous amount))], add previous amount)"
    by (simp add: log_expense_def log_expense_try_def mock_env_def mock_post_def dict_get_def)
  show ?case unfolding x using Cons.IH [of "add previous amount"]
    by (simp add: step dict_get_def)
qed

section \<open>Locating the JSON of a model answer\<close>

lemma str_find_none: "c \<notin> set s \<Longrightarrow> str_find c s = - 1"
  by (simp add: str_find_def)

lemma str_rfind_none: "c \<notin> set s \<Longrightarrow> str_rfind c s + 1 = 0"
  by (simp add: str_rfind_def)

lemma str_find_first: "c \<notin> set pre \<Longrightarrow> str_find c (pre @ c # rest) = int (length pre)"
proof -
  assume a: "c \<notin> set pre"
  have "takeWhile (\<lambda>x. x \<noteq> c) (pre @ c # rest) = pre"
    using a by (induction pre) auto
  then show ?thesis by (simp add: str_find_def)
qed

lemma str_rfind_last: "c \<notin> set suf \<Longrightarrow> str_rfind c (pre @ c # suf) = int (length pre)"
proof -
  assume a: "c \<notin> set suf"
  have "takeWhile (\<lambda>x. x \<noteq> c) (rev suf @ c # rev pre) = rev suf"
    using a by (induction suf rule: rev_induct) auto
  then show ?thesis by (simp add: str_rfind_def)
qed

lemma slice_braces:
  assumes "CHR ''{'' \<notin> set pre" "CHR ''}'' \<notin> set suf"
  shows "slice (pre @ ''{'' @ mid @ ''}'' @ suf)
           (str_find (CHR ''{'') (pre @ ''{'' @ mid @ ''}'' @ suf))
           (str_rfind (CHR ''}'') (pre @ ''{'' @ mid @ ''}'' @ suf) + 1) = ''{'' @ mid @ ''}''"
proof -
  have f: "str_find (CHR ''{'') (pre @ ''{'' @ mid @ ''}'' @ suf) = int (length pre)"
    using str_find_first [OF assms(1), of "mid @ ''}'' @ suf"] by simp
  have r: "str_rfind (CHR ''}'') (pre @ ''{'' @ mid @ ''}'' @ suf) = int (length pre + 1 + length mid)"
    using str_rfind_last [OF assms(2), of "pre @ ''{'' @ mid"] by simp
  have e: "int (length pre + 1 + length mid) + 1 = int (length pre + length mid + 2)"
    by simp
  show ?thesis unfolding f r e slice_def nat_int by simp
qed

lemma slice_reversed:
  assumes "CHR ''{'' \<notin> set pre" "CHR ''}'' \<notin> set suf" "CHR ''{'' \<notin> set mid" "CHR ''}'' \<notin> set mid"
  shows "slice (pre @ ''}'' @ mid @ ''{'' @ suf)
           (str_find (CHR ''{'') (pre @ ''}'' @ mid @ ''{'' @ suf))
           (str_rfind (CHR ''}'') (pre @ ''}'' @ mid @ ''{'' @ suf) + 1) = []"
proof -
  have f: "str_find (CHR ''{'') (pre @ ''}'' @ mid @ ''{'' @ suf) = int (length (pre @ ''}'' @ mid))"
    using str_find_first [of "CHR ''{''" "pre @ ''}'' @ mid" suf] assms by simp
  have r: "str_rfind (CHR ''}'') (pre @ ''}'' @ mid @ ''{'' @ suf) = int (length pre)"
    using str_rfind_last [of "CHR ''}''" "mid @ ''{'' @ suf" pre] assms by simp
  show ?thesis unfolding f r by (simp add: slice_def)
qed

lemma parse_categorization_no_braces:
  "CHR ''{'' \<notin> set text \<or> CHR ''}'' \<notin> set text \<Longrightarrow>
   parse_categorization_response env text = Inl (Exn ValueError ''No JSON found in response'')"
  by (auto simp: parse_categorization_response_def parse_categorization_response_try_def
      str_find_none str_rfind_none Let_def)

lemma parse_categorization_braces:
  assumes "CHR ''{'' \<notin> set pre" "CHR ''}'' \<notin> set suf"
  shows "parse_categorization_response env (pre @ ''{'' @ mid @ ''}'' @ suf) =
           (case loads env (''{'' @ mid @ ''}'') of
              Inl e \<Rightarrow> Inl e
            | Inr (JObj data) \<Rightarrow>
                (case py_iter (dict_get data ''categories'' (JArr [])) of
                   Inl e \<Rightarrow> Inl e
                 | Inr items \<Rightarrow> categories_loop env items)
            | Inr _ \<Rightarrow> Inl (Exn AttributeError ''object has no attribute get''))"
proof -
  have f: "str_find (CHR ''{'') (pre @ ''{'' @ mid @ ''}'' @ suf) \<noteq> - 1"
    using str_find_first [OF assms(1), of "mid @ ''}'' @ suf"] by simp
  have r: "str_rfind (CHR ''}'') (pre @ ''{'' @ mid @ ''}'' @ suf) + 1 \<noteq> 0"
    using str_rfind_last [OF assms(2), of "pre @ ''{'' @ mid"] by simp
  show ?thesis
    unfolding parse_categorization_response_def parse_categorization_response_try_def Let_def
    using f r slice_braces [OF assms, of mid]
    by (simp split: sum.splits json.splits)
qed

section \<open>The categories of a stage-1 answer\<close>

lemma categories_loop_items:
  "categories_loop env items = Inr cs \<Longrightarrow>
   length cs = length items \<and> (\<forall>i<length items. category_of env (items ! i) = Inr (cs ! i))"
proof (induction items arbitrary: cs)
  case Nil
  then show ?case by simp
next
  case (Cons x xs)
  from Cons.prems obtain c cs' where c: "category_of env x = Inr c"
    and l: "categories_loop env xs = Inr cs'" and e: "cs = c # cs'"
    by (auto split: sum.splits)
  from Cons.IH [OF l] c e show ?case
    by (auto simp: nth_Cons split: nat.splits)
qed

lemma category_of_defaults:
  "category_of env (JObj d) = Inr c \<Longrightarrow>
     (map_of d ''name'' = None \<longrightarrow> name c = JStr ''Unknown'')
   \<and> (map_of d ''total_amount'' = None \<longrightarrow> total_amount c = Flt 0)
   \<and> (map_of d ''count'' = None \<longrightarrow> count c = 0)
   \<and> (map_of d ''descriptions'' = None \<longrightarrow> descriptions c = JArr [])
   \<and> (map_of d ''patterns'' = None \<longrightarrow> patterns c = JArr [])"
  by (auto simp: category_of_def dict_get_def py_float_def py_int_def float_of_int_def
      split: sum.splits)

lemma category_of_empty:
  "category_of env (JObj []) =
     Inr \<lparr>name = JStr ''Unknown'', total_amount = Flt 0, count = 0,
          descriptions = JArr [], patterns = JArr []\<rparr>"
  by (simp add: category_of_def dict_get_def py_float_def py_int_def float_of_int_def)

lemma example_parsed:
  assumes "loads env example_json = Inr example_value"
  shows "parse_categorization_response env example_response =
           Inr [\<lparr>name = JStr ''Food'', total_amount = Flt (25 / 2), count = 1,
                 descriptions = JArr [JStr ''coffee''], patterns = JArr []\<rparr>]"
proof -
  have "parse_categorization_response env (''noise'' @ ''{'' @ example_body @ ''}'' @ ''tail'') =
          (case loads env (''{'' @ example_body @ ''}'') of
              Inl e \<Rightarrow> Inl e
            | Inr (JObj data) \<Rightarrow>
                (case py_iter (dict_get data ''categories'' (JArr [])) of
                   Inl e \<Rightarrow> Inl e
                 | Inr items \<Rightarrow> categories_loop env items)
            | Inr _ \<Rightarrow> Inl (Exn AttributeError ''object has no attribute get''))"
    by (rule parse_categorization_braces) simp_all
  moreover have "loads env (''{'' @ example_body @ ''}'') = Inr example_value"
    using assms by (simp add: example_json_def)
  ultimately show ?thesis
    by (simp add: example_response_def example_json_def example_value_def dict_get_def py_iter_def
        category_of_def py_float_def py_int_def)
qed

lemma parse_categorization_reversed:
  assumes "CHR ''{'' \<notin> set pre" "CHR ''}'' \<notin> set suf" "CHR ''{'' \<notin> set mid" "CHR ''}'' \<notin> set mid"
    and "loads env [] = Inl e"
  shows "parse_categorization_response env (pre @ ''}'' @ mid @ ''{'' @ suf) = Inl e"
proof -
  have f: "str_find (CHR ''{'') (pre @ ''}'' @ mid @ ''{'' @ suf) \<noteq> - 1"
    using str_find_first [of "CHR ''{''" "pre @ ''}'' @ mid" suf] assms(1,3) by simp
  have r: "str_rfind (CHR ''}'') (pre @ ''}'' @ mid @ ''{'' @ suf) + 1 \<noteq> 0"
    using str_rfind_last [of "CHR ''}''" "mid @ ''{'' @ suf" pre] assms(2,4) by simp
  show ?thesis
    unfolding parse_categorization_response_def parse_categorization_response_try_def Let_def
    using f r slice_reversed [OF assms(1-4)] assms(5)
    by simp
qed

section \<open>The loop of the pattern stage\<close>

lemma counting_fields [simp]:
  "loads (counting env) = loads env" "repr (counting env) = repr env"
  "format_float (counting env) = format_float env"
  by (simp_all add: counting_def)

lemma counting_py_str [simp]: "py_str (counting env) v = py_str env v"
  by (simp add: py_str_def split: json.splits)

lemma counting_prompt [simp]:
  "create_pattern_analysis_prompt (counting env) c = create_pattern_analysis_prompt env c"
  by (simp add: create_pattern_analysis_prompt_def split: sum.splits)

lemma counting_extract [simp]:
  "extract_patterns_from_response (counting env) r = extract_patterns_from_response env r"
  by (simp add: extract_patterns_from_response_def extract_patterns_from_response_try_def Let_def
      cong: if_cong)

lemma counting_response:
  "get_ai_response (counting env) p (n, st) =
     (case get_ai_response env p st of (r, st') \<Rightarrow> (r, (Suc n, st')))"
  by (simp add: get_ai_response_def counting_def split: prod.splits sum.splits)

lemma loop_counting:
  "analyze_patterns_loop (counting env) cats (n, st) = (Inr cats', (n', st')) \<Longrightarrow>
   n' = n + length (filter (\<lambda>c. 1 < count c) cats) \<and>
   analyze_patterns_loop env cats st = (Inr cats', st')"
proof (induction cats arbitrary: n st cats' n' st')
  case Nil
  then show ?case by simp
next
  case (Cons c cs)
  show ?case
  proof (cases "1 < count c")
    case True
    with Cons.prems obtain p r m s1 cs' where
      p: "create_pattern_analysis_prompt env c = Inr p" and
      g: "get_ai_response (counting env) p (n, st) = (Inr r, (m, s1))" and
      l: "analyze_patterns_loop (counting env) cs (m, s1) = (Inr cs', (n', st'))" and
      e: "cats' = c\<lparr>patterns := extract_patterns_from_response env r\<rparr> # cs'"
      by (auto split: sum.splits prod.splits)
    from g have g': "get_ai_response env p st = (Inr r, s1)" and m: "m = Suc n"
      by (auto simp: counting_response split: prod.splits)
    from Cons.IH [OF l] True p g' m e show ?thesis by simp
  next
    case False
    with Cons.prems obtain cs' where
      l: "analyze_patterns_loop (counting env) cs (n, st) = (Inr cs', (n', st'))" and
      e: "cats' = c # cs'"
      by (auto split: sum.splits prod.splits)
    from Cons.IH [OF l] False e show ?thesis by simp
  qed
qed

lemma loop_result:
  "analyze_patterns_loop env cats st = (Inr cats', st') \<Longrightarrow>
   list_all2 (\<lambda>c c'. if 1 < count c then \<exists>r. c' = c\<lparr>patterns := extract_patterns_from_response env r\<rparr>
                      else c' = c) cats cats'"
proof (induction cats arbitrary: st cats' st')
  case Nil
  then show ?case by simp
next
  case (Cons c cs)
  show ?case
  proof (cases "1 < count c")
    case True
    with Cons.prems obtain r s1 cs' where
      l: "analyze_patterns_loop env cs s1 = (Inr cs', st')" and
      e: "cats' = c\<lparr>patterns := extract_patterns_from_response env r\<rparr> # cs'"
      by (auto split: sum.splits prod.splits)
    from Cons.IH [OF l] True e show ?thesis by auto
  next
    case False
    with Cons.prems obtain cs' where
      l: "analyze_patterns_loop env cs st = (Inr cs', st')" and e: "cats' = c # cs'"
      by (auto split: sum.splits prod.splits)
    from Cons.IH [OF l] False e show ?thesis by simp
  qed
qed

lemma loop_keeps:
  assumes "analyze_patterns_loop env cats st = (Inr cats', st')"
  shows "length cats' = length cats"
    and "\<forall>i<length cats. count (cats ! i) \<le> 1 \<longrightarrow> cats' ! i = cats ! i"
    and "map total_amount cats' = map total_amount cats"
    and "map count cats' = map count cats"
proof -
  note r = loop_result [OF assms]
  show "length cats' = length cats" using r by (simp add: list_all2_lengthD)
  show "\<forall>i<length cats. count (cats ! i) \<le> 1 \<longrightarrow> cats' ! i = cats ! i"
    using r by (auto simp: list_all2_conv_all_nth)
  have "\<forall>i<length cats. total_amount (cats' ! i) = total_amount (cats ! i)
                        \<and> count (cats' ! i) = count (cats ! i)"
    using r by (auto simp: list_all2_conv_all_nth split: if_splits)
  with \<open>length cats' = length cats\<close>
  show "map total_amount cats' = map total_amount cats" "map count cats' = map count cats"
    by (auto intro: nth_equalityI)
qed

lemma flow_loop:
  "analyze_patterns_flow env cats st = analyze_patterns_loop env cats st"
  by (simp add: analyze_patterns_flow_def split: prod.splits sum.splits)

section \<open>Answers that hold no JSON, and a run of the analysis\<close>

lemma braces_found:
  assumes "CHR ''{'' \<notin> set pre" "CHR ''}'' \<notin> set suf"
  shows "str_find (CHR ''{'') (pre @ ''{'' @ mid @ ''}'' @ suf) \<noteq> - 1"
    and "str_rfind (CHR ''}'') (pre @ ''{'' @ mid @ ''}'' @ suf) + 1 \<noteq> 0"
proof -
  show "str_find (CHR ''{'') (pre @ ''{'' @ mid @ ''}'' @ suf) \<noteq> - 1"
    using str_find_first [OF assms(1), of "mid @ ''}'' @ suf"] by simp
  show "str_rfind (CHR ''}'') (pre @ ''{'' @ mid @ ''}'' @ suf) + 1 \<noteq> 0"
    using str_rfind_last [OF assms(2), of "pre @ ''{'' @ mid"] by simp
qed

lemma extract_patterns_braces:
  assumes "CHR ''{'' \<notin> set pre" "CHR ''}'' \<notin> set suf"
  shows "extract_patterns_from_response env (pre @ ''{'' @ mid @ ''}'' @ suf) =
           (case loads env (''{'' @ mid @ ''}'') of
              Inl e \<Rightarrow> JArr []
            | Inr (JObj data) \<Rightarrow> dict_get data ''patterns'' (JArr [])
            | Inr _ \<Rightarrow> JArr [])"
  unfolding extract_patterns_from_response_def extract_patterns_from_response_try_def Let_def
  using braces_found [OF assms, of mid] slice_braces [OF assms, of mid]
  by (simp split: sum.splits json.splits)

lemma parse_insights_braces:
  assumes "CHR ''{'' \<notin> set pre" "CHR ''}'' \<notin> set suf"
  shows "parse_insights_response env (pre @ ''{'' @ mid @ ''}'' @ suf) =
           (case loads env (''{'' @ mid @ ''}'') of
              Inl e \<Rightarrow> (JArr [], JArr [])
            | Inr (JObj data) \<Rightarrow>
                (dict_get data ''insights'' (JArr []), dict_get data ''recommendations'' (JArr []))
            | Inr _ \<Rightarrow> (JArr [], JArr []))"
  unfolding parse_insights_response_def parse_insights_response_try_def Let_def
  using braces_found [OF assms, of mid] slice_braces [OF assms, of mid]
  by (simp split: sum.splits json.splits)

lemma not_json_empty:
  assumes "CHR ''{'' \<notin> set raw \<or> CHR ''}'' \<notin> set raw
           \<or> loads env (slice raw (str_find (CHR ''{'') raw) (str_rfind (CHR ''}'') raw + 1)) = Inl e"
  shows "extract_patterns_from_response env raw = JArr []"
    and "parse_insights_response env raw = (JArr [], JArr [])"
proof -
  show "extract_patterns_from_response env raw = JArr []"
    using assms
    by (auto simp: extract_patterns_from_response_def extract_patterns_from_response_try_def Let_def
        str_find_none str_rfind_none)
  show "parse_insights_response env raw = (JArr [], JArr [])"
    using assms
    by (auto simp: parse_insights_response_def parse_insights_response_try_def Let_def
        str_find_none str_rfind_none)
qed

lemma demo_fields:
  "chat demo_env = (\<lambda>p st. (Inr (demo_answer p), st))"
  "loads demo_env = demo_loads"
  "sum_floats demo_env = demo_sum"
  "now demo_env = ''2024-02-01 09:00:00''"
  "repr demo_env = (\<lambda>v. if v = JInt 500 then ''500'' else ''?'')"
  "format_float demo_env = (\<lambda>f. ''?'')"
  by (simp_all add: demo_env_def app_failure_env_def)

lemma demo_extract:
  "extract_expense_data demo_env ''monthly'' () = (Inr (create_sample_data ''monthly''), ())"
  by (simp add: extract_expense_data_def extract_expense_data_try_def
      get_expense_data_for_analysis_def get_expense_data_for_analysis_try_def
      call_apps_script_function_def call_apps_script_function_try_def
      demo_env_def app_failure_env_def dict_merge_def dict_get_def py_len_def)

lemma demo_jsons_differ: "demo_categories_json \<noteq> demo_patterns_json"
  by (simp add: demo_categories_json_def demo_patterns_json_def demo_categories_body_def
      demo_patterns_body_def quoted_def)

lemma demo_stage1_parse:
  "parse_categorization_response demo_env (''Here are the categories: '' @ demo_categories_json @ '' Done.'')
     = Inr [demo_food, demo_coffee, demo_other]"
proof -
  have "parse_categorization_response demo_env
          (''Here are the categories: '' @ ''{'' @ demo_categories_body @ ''}'' @ '' Done.'') =
          (case loads demo_env (''{'' @ demo_categories_body @ ''}'') of
              Inl e \<Rightarrow> Inl e
            | Inr (JObj data) \<Rightarrow>
                (case py_iter (dict_get data ''categories'' (JArr [])) of
                   Inl e \<Rightarrow> Inl e
                 | Inr items \<Rightarrow> categories_loop demo_env items)
            | Inr _ \<Rightarrow> Inl (Exn AttributeError ''object has no attribute get''))"
    by (rule parse_categorization_braces) simp_all
  moreover have "loads demo_env (''{'' @ demo_categories_body @ ''}'') = Inr demo_categories_value"
    by (simp add: demo_fields demo_loads_def demo_categories_json_def)
  ultimately show ?thesis
    by (simp add: demo_categories_json_def demo_categories_value_def dict_get_def py_iter_def
        category_of_def py_float_def py_int_def demo_food_def demo_coffee_def demo_other_def)
qed

lemma demo_categorize:
  "categorize_expenses_flow demo_env (create_sample_data ''monthly'') ()
     = (Inr [demo_food, demo_coffee, demo_other], ())"
proof -
  have "\<exists>ls. create_categorization_prompt demo_env
          (map JStr [''matcha latte'', ''coffee'', ''matcha latte'', ''lunch'', ''matcha latte''])
          (map JReal [Flt (25 / 2), Flt (35 / 4), Flt 15, Flt (45 / 2), round_to_double 999 100])
        = Inr (CategorizationPrompt ls)"
    by (simp add: create_categorization_prompt_def format_2f_def)
  then obtain ls where p: "create_categorization_prompt demo_env
          (map JStr [''matcha latte'', ''coffee'', ''matcha latte'', ''lunch'', ''matcha latte''])
          (map JReal [Flt (25 / 2), Flt (35 / 4), Flt 15, Flt (45 / 2), round_to_double 999 100])
        = Inr (CategorizationPrompt ls)" ..
  show ?thesis
    unfolding categorize_expenses_flow_def categorize_expenses_flow_try_def
    using p
    by (simp add: create_sample_data_def df_column_def get_ai_response_def demo_fields
        demo_answer_def demo_stage1_parse [simplified])
qed

lemma demo_food_patterns:
  "extract_patterns_from_response demo_env demo_patterns_json = JArr [JStr ''matcha latte 2 times'']"
proof -
  have "extract_patterns_from_response demo_env ([] @ ''{'' @ demo_patterns_body @ ''}'' @ []) =
           (case loads demo_env (''{'' @ demo_patterns_body @ ''}'') of
              Inl e \<Rightarrow> JArr []
            | Inr (JObj data) \<Rightarrow> dict_get data ''patterns'' (JArr [])
            | Inr _ \<Rightarrow> JArr [])"
    by (rule extract_patterns_braces) simp_all
  moreover have "loads demo_env (''{'' @ demo_patterns_body @ ''}'') = Inr demo_patterns_value"
    using demo_jsons_differ by (simp add: demo_fields demo_loads_def demo_patterns_json_def)
  ultimately show ?thesis
    by (simp add: demo_patterns_json_def demo_patterns_value_def dict_get_def)
qed

lemma demo_prompts:
  "create_pattern_analysis_prompt demo_env demo_food = Inr (PatternPrompt ''Food'' ''?'' ''?'' ''matcha latte, lunch'')"
  "create_pattern_analysis_prompt demo_env demo_coffee = Inr (PatternPrompt ''Coffee'' ''?'' ''?'' ''coffee'')"
  by (simp_all add: create_pattern_analysis_prompt_def py_join_def py_iter_def demo_food_def
      demo_coffee_def py_str_def demo_fields)

lemma demo_responses:
  "pattern_responses demo_env [demo_food, demo_coffee, demo_other] ()
     = [Some demo_patterns_json, Some ''I see no pattern here.'', None]"
proof -
  have c: "count demo_food = 3" "count demo_coffee = 2" "count demo_other = 1"
    by (simp_all add: demo_food_def demo_coffee_def demo_other_def)
  show ?thesis
    by (simp add: c demo_prompts get_ai_response_def demo_fields demo_answer_def)
qed

lemma demo_patterns:
  "analyze_patterns_flow demo_env [demo_food, demo_coffee, demo_other] ()
     = (Inr [demo_food\<lparr>patterns := JArr [JStr ''matcha latte 2 times'']\<rparr>, demo_coffee, demo_other], ())"
proof -
  have c: "count demo_food = 3" "count demo_coffee = 2" "count demo_other = 1"
    by (simp_all add: demo_food_def demo_coffee_def demo_other_def)
  have e: "extract_patterns_from_response demo_env ''I see no pattern here.'' = JArr []"
    by (rule not_json_empty) simp
  have k: "demo_coffee\<lparr>patterns := JArr []\<rparr> = demo_coffee" by (simp add: demo_coffee_def)
  show ?thesis
    by (simp add: analyze_patterns_flow_def c demo_prompts get_ai_response_def demo_fields
        demo_answer_def demo_food_patterns e k)
qed

lemma demo_insights:
  "generate_insights_flow demo_env cats t n () = (Inr (JArr [], JArr []), ())"
  if "format_2f demo_env t = Inr a"
proof -
  have "parse_insights_response demo_env ([] @ ''{'' @ ''spend less'' @ ''}'' @ []) =
           (case loads demo_env (''{'' @ ''spend less'' @ ''}'') of
              Inl e \<Rightarrow> (JArr [], JArr [])
            | Inr (JObj data) \<Rightarrow>
                (dict_get data ''insights'' (JArr []), dict_get data ''recommendations'' (JArr []))
            | Inr _ \<Rightarrow> (JArr [], JArr []))"
    by (rule parse_insights_braces) simp_all
  moreover have "loads demo_env (''{'' @ ''spend less'' @ ''}'') = Inl (Exn JSONDecodeError ''Expecting value'')"
    by (simp add: demo_fields demo_loads_def demo_categories_json_def demo_patterns_json_def
        demo_categories_body_def demo_patterns_body_def quoted_def)
  ultimately have "parse_insights_response demo_env ''{spend less}'' = (JArr [], JArr [])" by simp
  then show ?thesis using that
    by (simp add: generate_insights_flow_def generate_insights_flow_try_def create_insights_prompt_def
        get_ai_response_def demo_fields demo_answer_def)
qed

lemma demo_run: "analyze_expenses demo_env ''monthly'' () = (Inr demo_result, ())"
proof -
  have ne: "\<not> df_empty (create_sample_data ''monthly'')"
    by (simp add: df_empty_def create_sample_data_def)
  have s: "sum_floats demo_env (map total_amount
             [demo_food\<lparr>patterns := JArr [JStr ''matcha latte 2 times'']\<rparr>, demo_coffee, demo_other])
           = JReal (Flt (195 / 4))"
    by (simp add: demo_fields demo_sum_def exact_add_def demo_food_def demo_coffee_def demo_other_def)
  have n: "sum_list (map count
             [demo_food\<lparr>patterns := JArr [JStr ''matcha latte 2 times'']\<rparr>, demo_coffee, demo_other]) = 6"
    by (simp add: demo_food_def demo_coffee_def demo_other_def)
  have f: "format_2f demo_env (JReal (Flt (195 / 4))) = Inr ''?''"
    by (simp add: format_2f_def demo_fields)
  show ?thesis
    unfolding analyze_expenses_def analyze_expenses_try_def demo_extract
    using ne
    by (simp add: demo_categorize demo_patterns s n demo_insights [OF f] demo_fields(4) demo_result_def
        Let_def del: list.map sum_list.Cons)
qed

section \<open>Model calls, outcomes and the result of the analysis\<close>

lemma loop_count_le:
  "analyze_patterns_loop (counting env) cats (n, st) = (r, (n', st')) \<Longrightarrow>
   n' \<le> n + length (filter (\<lambda>c. 1 < count c) cats)"
proof (induction cats arbitrary: n st r n' st')
  case Nil
  then show ?case by simp
next
  case (Cons c cs)
  show ?case
  proof (cases "1 < count c")
    case False
    obtain r1 n1 s1 where l: "analyze_patterns_loop (counting env) cs (n, st) = (r1, (n1, s1))"
      by (metis surj_pair)
    with Cons.prems False have "n' = n1" by (auto split: sum.splits)
    with Cons.IH [OF l] False show ?thesis by simp
  next
    case True
    show ?thesis
    proof (cases "create_pattern_analysis_prompt env c")
      case (Inl e)
      with Cons.prems True show ?thesis by simp
    next
      case (Inr p)
      obtain a s1 where g: "get_ai_response env p st = (a, s1)" by (metis surj_pair)
      then have g': "get_ai_response (counting env) p (n, st) = (a, (Suc n, s1))"
        by (simp add: counting_response)
      show ?thesis
      proof (cases a)
        case (Inl e)
        with Cons.prems True Inr g' show ?thesis by simp
      next
        case R: (Inr raw)
        obtain r1 n1 s2 where l: "analyze_patterns_loop (counting env) cs (Suc n, s1) = (r1, (n1, s2))"
          by (metis surj_pair)
        with Cons.prems True Inr g' R have "n' = n1" by (auto split: sum.splits)
        with Cons.IH [OF l] True show ?thesis by simp
      qed
    qed
  qed
qed

lemma loop_no_calls:
  "\<forall>c\<in>set cats. count c \<le> 1 \<Longrightarrow> analyze_patterns_loop env cats st = (Inr cats, st)"
  by (induction cats) simp_all

lemma loop_responses:
  "length (pattern_responses env cats st) = length cats \<Longrightarrow>
   \<exists>st'. analyze_patterns_loop env cats st =
           (Inr (map (\<lambda>(c, a). with_patterns env c a) (zip cats (pattern_responses env cats st))), st')"
proof (induction cats arbitrary: st)
  case Nil
  then show ?case by simp
next
  case (Cons c cs)
  show ?case
  proof (cases "1 < count c")
    case False
    with Cons.prems have "length (pattern_responses env cs st) = length cs" by simp
    from Cons.IH [OF this] False show ?thesis by (auto simp: with_patterns_def)
  next
    case True
    with Cons.prems obtain p raw s1 where p: "create_pattern_analysis_prompt env c = Inr p"
      and g: "get_ai_response env p st = (Inr raw, s1)"
      and l: "length (pattern_responses env cs s1) = length cs"
      by (auto split: sum.splits prod.splits)
    from Cons.IH [OF l] True p g show ?thesis by (auto simp: with_patterns_def)
  qed
qed

lemma responses_none:
  "i < length (pattern_responses env cats st) \<Longrightarrow>
   (pattern_responses env cats st ! i = None) = (count (cats ! i) \<le> 1)"
proof (induction cats arbitrary: st i)
  case Nil
  then show ?case by simp
next
  case (Cons c cs)
  show ?case
  proof (cases "1 < count c")
    case False
    with Cons show ?thesis by (cases i) auto
  next
    case True
    with Cons.prems obtain p raw s1 where p: "create_pattern_analysis_prompt env c = Inr p"
      and g: "get_ai_response env p st = (Inr raw, s1)"
      by (auto split: sum.splits prod.splits)
    with Cons True show ?thesis by (cases i) auto
  qed
qed

lemma demo_counting:
  "analyze_patterns_flow (counting demo_env) [demo_food, demo_coffee, demo_other] (0, ())
     = (Inr [demo_food\<lparr>patterns := JArr [JStr ''matcha latte 2 times'']\<rparr>, demo_coffee, demo_other],
        (2, ()))"
proof -
  have c: "count demo_food = 3" "count demo_coffee = 2" "count demo_other = 1"
    by (simp_all add: demo_food_def demo_coffee_def demo_other_def)
  have e: "extract_patterns_from_response demo_env ''I see no pattern here.'' = JArr []"
    by (rule not_json_empty) simp
  have k: "demo_coffee\<lparr>patterns := JArr []\<rparr> = demo_coffee" by (simp add: demo_coffee_def)
  have g: "get_ai_response demo_env p st = (Inr (demo_answer p), st)" for p st
    by (simp add: get_ai_response_def demo_fields)
  have gc: "get_ai_response (counting demo_env) p (n, st) = (Inr (demo_answer p), (Suc n, st))" for p n st
    by (simp add: counting_response g)
  show ?thesis
    by (simp add: analyze_patterns_flow_def c demo_prompts gc demo_answer_def demo_food_patterns e k
        numeral_2_eq_2)
qed





lemma analyze_result:
  assumes "analyze_expenses env per st = (Inr r, st')"
  shows "\<exists>df st1 cats1 st2 st3 ins recs.
           extract_expense_data env per st = (Inr df, st1) \<and> \<not> df_empty df
         \<and> categorize_expenses_flow env df st1 = (Inr cats1, st2)
         \<and> analyze_patterns_flow env cats1 st2 = (Inr (categories r), st3)
         \<and> generate_insights_flow env (categories r) (sum_floats env (map total_amount (categories r)))
              (sum_list (map count (categories r))) st3 = (Inr (ins, recs), st')
         \<and> r = \<lparr>period = per,
                 total_expenses = sum_floats env (map total_amount (categories r)),
                 total_transactions = sum_list (map count (categories r)),
                 categories = categories r, insights = ins, recommendations = recs,
                 analysis_date = now env\<rparr>"
  using assms
  by (auto simp: analyze_expenses_def analyze_expenses_try_def Let_def
      split: prod.splits sum.splits if_splits)

lemma analyze_completes:
  assumes "extract_expense_data env per st = (Inr df, st1)" "\<not> df_empty df"
    and "categorize_expenses_flow env df st1 = (Inr cats1, st2)"
    and "analyze_patterns_flow env cats1 st2 = (Inr cats, st3)"
    and "create_insights_prompt env cats (sum_floats env (map total_amount cats))
           (sum_list (map count cats)) = Inr p"
    and "chat env p st3 = (Inr raw, st4)"
  shows "analyze_expenses env per st =
           (Inr \<lparr>period = per,
                 total_expenses = sum_floats env (map total_amount cats),
                 total_transactions = sum_list (map count cats),
                 categories = cats,
                 insights = fst (parse_insights_response env raw),
                 recommendations = snd (parse_insights_response env raw),
                 analysis_date = now env\<rparr>, st4)"
  using assms
  by (simp add: analyze_expenses_def analyze_expenses_try_def Let_def generate_insights_flow_def
      generate_insights_flow_try_def get_ai_response_def split: prod.splits)

lemma total_eq_refl: "total_eq x x = comparable_number x"
  by (cases x) (simp_all add: total_eq_def comparable_number_def float_eq_def)

lemma nan_extract:
  "extract_expense_data nan_env ''monthly'' () = (Inr (create_sample_data ''monthly''), ())"
  by (simp add: extract_expense_data_def extract_expense_data_try_def
      get_expense_data_for_analysis_def get_expense_data_for_analysis_try_def
      call_apps_script_function_def call_apps_script_function_try_def
      nan_env_def demo_env_def app_failure_env_def dict_merge_def dict_get_def py_len_def)

lemma nan_fields:
  "chat nan_env = (\<lambda>p st. (Inr nan_json, st))"
  "loads nan_env (''{'' @ nan_body @ ''}'') = Inr nan_value"
  "sum_floats nan_env = demo_sum"
  "now nan_env = ''2024-02-01 09:00:00''"
  "format_float nan_env = (\<lambda>f. ''?'')"
  by (simp_all add: nan_env_def demo_env_def app_failure_env_def nan_json_def)

lemma nan_stage1_parse:
  "parse_categorization_response nan_env nan_json
     = Inr [\<lparr>name = JStr ''Food'', total_amount = NaN, count = 1,
             descriptions = JArr [], patterns = JArr []\<rparr>]"
proof -
  have "parse_categorization_response nan_env ([] @ ''{'' @ nan_body @ ''}'' @ []) =
          (case loads nan_env (''{'' @ nan_body @ ''}'') of
              Inl e \<Rightarrow> Inl e
            | Inr (JObj data) \<Rightarrow>
                (case py_iter (dict_get data ''categories'' (JArr [])) of
                   Inl e \<Rightarrow> Inl e
                 | Inr items \<Rightarrow> categories_loop nan_env items)
            | Inr _ \<Rightarrow> Inl (Exn AttributeError ''object has no attribute get''))"
    by (rule parse_categorization_braces) simp_all
  then show ?thesis
    by (simp add: nan_fields(2) [simplified] nan_json_def nan_value_def dict_get_def py_iter_def
        category_of_def py_float_def py_int_def)
qed

lemma nan_insights:
  "parse_insights_response nan_env nan_json = (JArr [], JArr [])"
proof -
  have "parse_insights_response nan_env ([] @ ''{'' @ nan_body @ ''}'' @ []) =
           (case loads nan_env (''{'' @ nan_body @ ''}'') of
              Inl e \<Rightarrow> (JArr [], JArr [])
            | Inr (JObj data) \<Rightarrow>
                (dict_get data ''insights'' (JArr []), dict_get data ''recommendations'' (JArr []))
            | Inr _ \<Rightarrow> (JArr [], JArr []))"
    by (rule parse_insights_braces) simp_all
  then show ?thesis
    by (simp add: nan_fields(2) [simplified] nan_json_def nan_value_def dict_get_def)
qed

lemma nan_run: "analyze_expenses nan_env ''monthly'' () = (Inr nan_result, ())"
proof -
  let ?cats = "[\<lparr>name = JStr ''Food'', total_amount = NaN, count = 1,
                 descriptions = JArr [], patterns = JArr []\<rparr>]"
  have ne: "\<not> df_empty (create_sample_data ''monthly'')"
    by (simp add: df_empty_def create_sample_data_def)
  have "\<exists>ls. create_categorization_prompt nan_env
          (map JStr [''matcha latte'', ''coffee'', ''matcha latte'', ''lunch'', ''matcha latte''])
          (map JReal [Flt (25 / 2), Flt (35 / 4), Flt 15, Flt (45 / 2), round_to_double 999 100])
        = Inr (CategorizationPrompt ls)"
    by (simp add: create_categorization_prompt_def format_2f_def)
  then obtain ls where p: "create_categorization_prompt nan_env
          (map JStr [''matcha latte'', ''coffee'', ''matcha latte'', ''lunch'', ''matcha latte''])
          (map JReal [Flt (25 / 2), Flt (35 / 4), Flt 15, Flt (45 / 2), round_to_double 999 100])
        = Inr (CategorizationPrompt ls)" ..
  have c: "categorize_expenses_flow nan_env (create_sample_data ''monthly'') () = (Inr ?cats, ())"
    unfolding categorize_expenses_flow_def categorize_expenses_flow_try_def
    using p
    by (simp add: create_sample_data_def df_column_def get_ai_response_def nan_fields(1)
        nan_stage1_parse)
  have a: "analyze_patterns_flow nan_env ?cats () = (Inr ?cats, ())"
    by (simp add: analyze_patterns_flow_def)
  have s: "sum_floats nan_env (map total_amount ?cats) = JReal NaN"
    by (simp add: nan_fields(3) demo_sum_def exact_add_def)
  have n: "sum_list (map count ?cats) = 1" by simp
  have g: "generate_insights_flow nan_env ?cats (JReal NaN) 1 () = (Inr (JArr [], JArr []), ())"
    by (simp add: generate_insights_flow_def generate_insights_flow_try_def create_insights_prompt_def
        format_2f_def get_ai_response_def nan_fields(1) nan_insights)
  show ?thesis
    unfolding analyze_expenses_def analyze_expenses_try_def nan_extract
    using ne
    by (simp add: c a s n g nan_fields(4) nan_result_def Let_def del: list.map sum_list.Cons)
qed





section \<open>Claims about the message parser\<close>

lemma msgs_distinct:
  "MSG_EMPTY \<noteq> MSG_NO_DESCRIPTION" "MSG_FORMAT \<noteq> MSG_NO_DESCRIPTION"
  "MSG_AMOUNT \<noteq> MSG_NO_DESCRIPTION" "MSG_NOT_POSITIVE \<noteq> MSG_NO_DESCRIPTION"
  "MSG_TOO_HIGH \<noteq> MSG_NO_DESCRIPTION" "MSG_TOO_LONG \<noteq> MSG_NO_DESCRIPTION"
  "[] \<noteq> MSG_NO_DESCRIPTION"
  by (simp_all add: MSG_EMPTY_def MSG_FORMAT_def MSG_AMOUNT_def MSG_NOT_POSITIVE_def
      MSG_TOO_HIGH_def MSG_TOO_LONG_def MSG_NO_DESCRIPTION_def)

text \<open>
  C1, as amended. For every message whose stripped form is a numeral \<^verbatim>\<open>\d+([.,]\d+)?\<close>,
  whitespace and a text without newline (the strings the pattern matches), with the value
  of the numeral, comma read as a decimal point, above \<open>2\<^sup>-\<^sup>1\<^sup>0\<^sup>7\<^sup>5\<close> and at most 1,000,000,
  and with at most 100 characters of stripped text: the parser succeeds with the binary64
  value nearest to the numeral's value, the stripped text unchanged, and the empty error
  message.
\<close>

theorem parse_success:
  assumes "strip msg = num @ ws @ body"
    and "decimal_numeral num"
    and "ws \<noteq> []" "\<forall>c\<in>set ws. isspace c"
    and "body \<noteq> []" "newline \<notin> set body"
    and "1 / 2 ^ 1075 < decimal_value num" "decimal_value num \<le> 1000000"
    and "length (strip body) \<le> 100"
  shows "parse_expense_message msg =
           (Some (round_to_double (decimal_numerator num) (decimal_denominator num)),
            Some (strip body), '''')"
proof -
  have d: "0 < decimal_denominator num" by (rule decimal_denominator_pos)
  have 1: "\<not> float_le_int (round_to_double (decimal_numerator num) (decimal_denominator num)) 0"
    using d assms(7) unfolding decimal_value_def by (rule round_to_double_positive)
  have 2: "\<not> float_gt_int (round_to_double (decimal_numerator num) (decimal_denominator num)) 1000000"
    using d assms(8) unfolding decimal_value_def by (rule round_to_double_ceiling)
  show ?thesis
    unfolding parse_decomposed [OF assms(1-6)] Let_def using 1 2 assms(9) by simp
qed

text \<open>
  The two examples of the claim, \<open>6,60 food\<close> and \<open>6.60 food\<close>: both give the double written
  \<open>6.60\<close> and the category \<open>food\<close>.
\<close>

theorem parse_success_witness:
  "parse_expense_message ''6,60 food'' = (Some (Flt (7430939385161318 / 2 ^ 50)), Some ''food'', '''')
   \<and> parse_expense_message ''6.60 food'' = (Some (Flt (7430939385161318 / 2 ^ 50)), Some ''food'', '''')"
proof
  have sf: "strip ''food'' = ''food''" by code_simp
  have ws: "'' '' \<noteq> []" "\<forall>c\<in>set '' ''. isspace c" by (simp_all add: isspace_def)
  have body: "''food'' \<noteq> []" "newline \<notin> set ''food''" by (simp_all add: newline_def)
  have len: "length (strip ''food'') \<le> 100" by (simp add: sf)
  have c1: "strip ''6,60 food'' = ''6,60'' @ '' '' @ ''food''" by code_simp
  have c2: "decimal_numeral ''6,60''" by code_simp
  have c3: "decimal_numerator ''6,60'' = 660" "decimal_denominator ''6,60'' = 100" by code_simp+
  have c4: "1 / 2 ^ 1075 < decimal_value ''6,60''" "decimal_value ''6,60'' \<le> 1000000"
    by (simp_all add: decimal_value_def c3)
  show "parse_expense_message ''6,60 food'' = (Some (Flt (7430939385161318 / 2 ^ 50)), Some ''food'', '''')"
    using parse_success [OF c1 c2 ws body c4 len] by (simp add: c3 round_660 sf)
  have d1: "strip ''6.60 food'' = ''6.60'' @ '' '' @ ''food''" by code_simp
  have d2: "decimal_numeral ''6.60''" by code_simp
  have d3: "decimal_numerator ''6.60'' = 660" "decimal_denominator ''6.60'' = 100" by code_simp+
  have d4: "1 / 2 ^ 1075 < decimal_value ''6.60''" "decimal_value ''6.60'' \<le> 1000000"
    by (simp_all add: decimal_value_def d3)
  show "parse_expense_message ''6.60 food'' = (Some (Flt (7430939385161318 / 2 ^ 50)), Some ''food'', '''')"
    using parse_success [OF d1 d2 ws body d4 len] by (simp add: d3 round_660 sf)
qed

text \<open>
  C1 as stated fails: the numeral of \<^const>\<open>tiny_message\<close> is greater than 0 and below the
  ceiling, the text after it has one character, and the parser answers that the amount
  must be greater than 0, because \<open>float\<close> rounds \<open>10\<^sup>-\<^sup>3\<^sup>2\<^sup>4\<close> to \<open>0.0\<close>.
\<close>

theorem parse_success_counterexample:
  "strip tiny_message = tiny_numeral @ '' '' @ ''x''
   \<and> decimal_numeral tiny_numeral
   \<and> list_all isspace '' '' \<and> newline \<notin> set ''x''
   \<and> 0 < decimal_value tiny_numeral \<and> decimal_value tiny_numeral \<le> 1000000
   \<and> length (strip ''x'') \<le> 100
   \<and> parse_expense_message tiny_message = (None, None, MSG_NOT_POSITIVE)"
proof -
  have m: "strip tiny_message = tiny_numeral @ '' '' @ ''x''" by (rule tiny_message_strip)
  have num: "decimal_numeral tiny_numeral"
    unfolding tiny_numeral_def by (rule small_numeral_decimal)
  have parts: "decimal_numerator tiny_numeral = 1" "decimal_denominator tiny_numeral = 10 ^ 324"
    unfolding tiny_numeral_def using small_numeral_parts [of 323] by simp_all
  have v: "decimal_value tiny_numeral = 1 / 10 ^ 324" by (simp add: decimal_value_def parts)
  have ws: "'' '' \<noteq> []" "\<forall>c\<in>set '' ''. isspace c" "list_all isspace '' ''"
    by (simp_all add: isspace_def)
  have body: "''x'' \<noteq> []" "newline \<notin> set ''x''" by (simp_all add: newline_def)
  have sx: "strip ''x'' = ''x''" by code_simp
  have "(of_int 1 :: rat) / of_int (10 ^ 324) \<le> 1 / 2 ^ 1075" by simp
  then have "round_to_double 1 (10 ^ 324) = Flt 0"
    by (intro round_to_double_underflow) simp_all
  then have "parse_expense_message tiny_message = (None, None, MSG_NOT_POSITIVE)"
    unfolding parse_decomposed [OF m num ws(1,2) body] Let_def parts by simp
  moreover have "0 < decimal_value tiny_numeral" "decimal_value tiny_numeral \<le> 1000000"
    unfolding v by simp_all
  ultimately show ?thesis using m num ws(3) body(2) sx by simp
qed

text \<open>
  C2, as amended. The parser either succeeds or returns no amount, no category and a
  non-empty message, and the message is that of the first check that fails in the order:
  empty message, no match of the pattern, amount not numeric, amount at most 0, amount
  above 1,000,000, description empty, description longer than 100 characters, where the
  amount that is checked is the double that \<open>float\<close> reads from the numeric part. This order
  is the order on the numeric part itself whenever the numeric part is 0 or lies above
  \<open>2\<^sup>-\<^sup>1\<^sup>0\<^sup>7\<^sup>5\<close> and at most at 1,000,000. \<open>food\<close> fails with the invalid-format message and
  \<open>1000001.00 rent\<close> with the amount-too-high message.
\<close>

theorem parse_failure_order:
  "(case first_failing_float_check msg of
      Some e \<Rightarrow> parse_expense_message msg = (None, None, failure_message e)
                  \<and> failure_message e \<noteq> ''''
    | None \<Rightarrow> (\<exists>a. parse_expense_message msg = (Some a, Some (trailing_text (strip msg)), '''')))
   \<and> (decimal_value (numeric_part (strip msg)) \<le> 0
        \<or> (1 / 2 ^ 1075 < decimal_value (numeric_part (strip msg))
           \<and> decimal_value (numeric_part (strip msg)) \<le> 1000000)
      \<longrightarrow> first_failing_float_check msg = first_failing_check msg)
   \<and> parse_expense_message ''food'' = (None, None, failure_message FormatError)
   \<and> parse_expense_message ''1000001.00 rent'' = (None, None, failure_message AmountTooLarge)"
proof (intro conjI impI)
  show "case first_failing_float_check msg of
      Some e \<Rightarrow> parse_expense_message msg = (None, None, failure_message e)
                  \<and> failure_message e \<noteq> ''''
    | None \<Rightarrow> (\<exists>a. parse_expense_message msg = (Some a, Some (trailing_text (strip msg)), ''''))"
  proof (cases "first_failing_float_check msg")
    case None
    then obtain a where "float_of_str (replace_comma (numeric_part (strip msg))) = Some a"
      using float_check_None by blast
    then show ?thesis using None
      by (simp add: parse_expense_message_checked float_check_checked)
  next
    case (Some e)
    then show ?thesis using failure_message_nonempty [of e]
      by (simp add: parse_expense_message_checked float_check_checked)
  qed
  show "first_failing_float_check msg = first_failing_check msg"
    if "decimal_value (numeric_part (strip msg)) \<le> 0
        \<or> (1 / 2 ^ 1075 < decimal_value (numeric_part (strip msg))
           \<and> decimal_value (numeric_part (strip msg)) \<le> 1000000)"
    using that by (rule checks_agree)
  show "parse_expense_message ''food'' = (None, None, failure_message FormatError)"
    unfolding parse_expense_message_checked by code_simp
  have m: "strip ''1000001.00 rent'' = ''1000001.00'' @ '' '' @ ''rent''" by code_simp
  have num: "decimal_numeral ''1000001.00''" by code_simp
  have parts: "decimal_numerator ''1000001.00'' = 100000100" "decimal_denominator ''1000001.00'' = 100"
    by code_simp+
  have ws: "'' '' \<noteq> []" "\<forall>c\<in>set '' ''. isspace c" by (simp_all add: isspace_def)
  have body: "''rent'' \<noteq> []" "newline \<notin> set ''rent''" by (simp_all add: newline_def)
  show "parse_expense_message ''1000001.00 rent'' = (None, None, failure_message AmountTooLarge)"
    unfolding parse_decomposed [OF m num ws body] Let_def parts round_1000001 by simp
qed

text \<open>
  On \<open>6.60 food\<close> the numeric part is in that range: both orders find no failing check, and
  the parser returns the description.
\<close>

theorem parse_failure_order_witness:
  "first_failing_float_check ''6.60 food'' = first_failing_check ''6.60 food''
   \<and> first_failing_check ''6.60 food'' = None
   \<and> snd (parse_expense_message ''6.60 food'') = (Some ''food'', '''')"
proof -
  have np: "numeric_part (strip ''6.60 food'') = ''6.60''"
    and tt: "trailing_text (strip ''6.60 food'') = ''food''" by code_simp+
  have parts: "decimal_numerator ''6.60'' = 660" "decimal_denominator ''6.60'' = 100" by code_simp+
  have v: "1 / 2 ^ 1075 < decimal_value ''6.60'' \<and> decimal_value ''6.60'' \<le> 1000000"
    by (simp add: decimal_value_def parts)
  have f: "first_failing_check ''6.60 food'' = None" by code_simp
  show ?thesis
    using parse_failure_order [of "''6.60 food''"] v f by (auto simp: np tt)
qed

text \<open>
  C2 as stated fails: the numeric part of \<^const>\<open>ceiling_message\<close> is above 1,000,000, so the
  first failing check of the specification's order is the ceiling, and the parser succeeds
  with the amount 1,000,000, because \<open>float\<close> rounds \<open>1000000.00000000001\<close> to \<open>1000000.0\<close>.
\<close>

theorem parse_failure_order_counterexample:
  "first_failing_check ceiling_message = Some AmountTooLarge
   \<and> parse_expense_message ceiling_message = (Some (Flt 1000000), Some ''rent'', '''')"
proof
  show "first_failing_check ceiling_message = Some AmountTooLarge"
    unfolding ceiling_message_def ceiling_numeral_def by code_simp
  have ws: "'' '' \<noteq> []" "\<forall>c\<in>set '' ''. isspace c" by (simp_all add: isspace_def)
  have body: "''rent'' \<noteq> []" "newline \<notin> set ''rent''" by (simp_all add: newline_def)
  have sr: "strip ''rent'' = ''rent''" by code_simp
  show "parse_expense_message ceiling_message = (Some (Flt 1000000), Some ''rent'', '''')"
    unfolding parse_decomposed [OF ceiling_message_strip ceiling_numeral_parts(1) ws body] Let_def
      ceiling_numeral_parts(2,3) round_ceiling_numeral
    by (simp add: sr)
qed

text \<open>
  C10. For every input string, \<open>parse_expense_message\<close> never returns the message of the
  empty-description check: the message is stripped before the anchored match, so the
  second group ends in a character that is not whitespace and its strip is not empty.
\<close>

theorem description_check_unreachable:
  "snd (snd (parse_expense_message msg)) \<noteq> MSG_NO_DESCRIPTION"
  unfolding parse_expense_message_checked parse_checked_def Let_def
  using msgs_distinct
  by (simp add: matches_format_def split: option.splits)

section \<open>Claims about the ledger client\<close>

text \<open>
  C7. When the POST of \<open>log_expense\<close> is answered with status 200 and a JSON body holding
  \<open>success = true\<close> and \<open>runningTotal = t\<close>, the result holds \<open>success = True\<close> and the running
  total \<open>t\<close> itself, whatever the amount and the category. Against the mock backend that
  answers \<open>previous + amount\<close>, the totals returned for a sequence of expenses are the
  backend's successive sums, so each exceeds the one before by exactly the amount logged
  when the backend adds without rounding.
\<close>

theorem log_expense_running_total:
  assumes "post env (JObj [(''amount'', JReal amount), (''category'', JStr category)]) st
             = (Inr response, st')"
    and "status_code response = 200"
    and "json_body response = Inr (JObj body)"
    and "map_of body ''success'' = Some (JBool True)"
    and "map_of body ''runningTotal'' = Some t"
  shows "(\<exists>m. log_expense env amount category st =
             (Inr [(''success'', JBool True), (''message'', m), (''running_total'', t)], st'))
         \<and> log_all (mock_env add) expenses previous =
             (map JReal (running_totals add previous (map fst expenses)),
              foldl add previous (map fst expenses))
         \<and> running_totals exact_add (Flt p) [Flt a, Flt b] = [Flt (p + a), Flt (p + a + b)]"
proof (intro conjI)
  show "\<exists>m. log_expense env amount category st =
             (Inr [(''success'', JBool True), (''message'', m), (''running_total'', t)], st')"
    using assms by (simp add: log_expense_def log_expense_try_def dict_get_def)
  show "log_all (mock_env add) expenses previous =
             (map JReal (running_totals add previous (map fst expenses)),
              foldl add previous (map fst expenses))"
    by (rule log_all_mock)
  show "running_totals exact_add (Flt p) [Flt a, Flt b] = [Flt (p + a), Flt (p + a + b)]"
    by (simp add: exact_add_def)
qed

theorem log_expense_running_total_witness:
  "(\<exists>m. log_expense (mock_env exact_add) (Flt 5) ''food'' (Flt 10) =
      (Inr [(''success'', JBool True), (''message'', m), (''running_total'', JReal (Flt 15))], Flt 15))
   \<and> log_all (mock_env exact_add) [(Flt 5, ''food''), (Flt 2, ''tea'')] (Flt 10) =
        ([JReal (Flt 15), JReal (Flt 17)], Flt 17)"
proof -
  let ?resp = "\<lparr>status_code = 200,
                json_body = Inr (JObj [(''success'', JBool True),
                                       (''runningTotal'', JReal (Flt 15))])\<rparr>"
  have 1: "post (mock_env exact_add) (JObj [(''amount'', JReal (Flt 5)), (''category'', JStr ''food'')]) (Flt 10)
             = (Inr ?resp, Flt 15)"
    by (simp add: mock_env_def mock_post_def exact_add_def)
  have 2: "status_code ?resp = 200" by simp
  have 3: "json_body ?resp = Inr (JObj [(''success'', JBool True), (''runningTotal'', JReal (Flt 15))])"
    by simp
  have 4: "map_of [(''success'', JBool True), (''runningTotal'', JReal (Flt 15))] ''success'' = Some (JBool True)"
    by simp
  have 5: "map_of [(''success'', JBool True), (''runningTotal'', JReal (Flt 15))] ''runningTotal'' = Some (JReal (Flt 15))"
    by simp
  show ?thesis
    using log_expense_running_total [OF 1 2 3 4 5, of exact_add "[(Flt 5, ''food''), (Flt 2, ''tea'')]" "Flt 10" 0 0 0]
    by (simp add: exact_add_def)
qed

text \<open>
  C8. The failure layers of \<open>log_expense\<close> and \<open>call_apps_script_function\<close>. For both, a
  request exception raised by the POST gives \<open>success = False\<close> and the message
  \<open>Request failed: \<close> followed by the exception's text, and a status other than 200 gives
  \<open>success = False\<close> and the message \<open>HTTP error \<close> followed by the status. A 200 answer
  whose body has \<open>success = false\<close> gives, in \<open>log_expense\<close>, \<open>success = False\<close> and the message
  \<open>Apps Script error: \<close> followed by the backend's \<open>error\<close> text, and the three messages of
  \<open>log_expense\<close> are pairwise different; in \<open>call_apps_script_function\<close> it gives the backend's
  body itself, unchanged, while the messages of its other two layers differ from each other.
\<close>

theorem failure_layers:
  "(post env (JObj [(''amount'', JReal amount), (''category'', JStr category)]) st = (Inl e, st')
      \<and> is_request_exception e \<longrightarrow>
    log_expense env amount category st =
      (Inr [(''success'', JBool False), (''message'', JStr (''Request failed: '' @ exn_text e)),
            (''running_total'', JInt 0)], st'))
   \<and> (post env (JObj [(''amount'', JReal amount), (''category'', JStr category)]) st = (Inr response, st')
      \<and> status_code response \<noteq> 200 \<longrightarrow>
    log_expense env amount category st =
      (Inr [(''success'', JBool False),
            (''message'', JStr (''HTTP error '' @ repr env (JInt (status_code response)))),
            (''running_total'', JInt 0)], st'))
   \<and> (post env (JObj [(''amount'', JReal amount), (''category'', JStr category)]) st = (Inr response, st')
      \<and> status_code response = 200 \<and> json_body response = Inr (JObj body)
      \<and> map_of body ''success'' = Some (JBool False) \<and> map_of body ''error'' = Some (JStr err) \<longrightarrow>
    log_expense env amount category st =
      (Inr [(''success'', JBool False), (''message'', JStr (''Apps Script error: '' @ err)),
            (''running_total'', JInt 0)], st'))
   \<and> ''Request failed: '' @ a \<noteq> ''HTTP error '' @ b
   \<and> ''Request failed: '' @ a \<noteq> ''Apps Script error: '' @ c
   \<and> ''HTTP error '' @ b \<noteq> ''Apps Script error: '' @ c
   \<and> (post env (JObj (dict_merge [(''action'', JStr function_name)] params)) st = (Inl e, st')
      \<and> is_request_exception e \<longrightarrow>
    call_apps_script_function env function_name params st =
      (Inr [(''success'', JBool False), (''message'', JStr (''Request failed: '' @ exn_text e))], st'))
   \<and> (post env (JObj (dict_merge [(''action'', JStr function_name)] params)) st = (Inr response, st')
      \<and> status_code response \<noteq> 200 \<longrightarrow>
    call_apps_script_function env function_name params st =
      (Inr [(''success'', JBool False),
            (''message'', JStr (''HTTP error '' @ repr env (JInt (status_code response))))], st'))
   \<and> (post env (JObj (dict_merge [(''action'', JStr function_name)] params)) st = (Inr response, st')
      \<and> status_code response = 200 \<and> json_body response = Inr (JObj body)
      \<and> map_of body ''success'' = Some (JBool False) \<longrightarrow>
    call_apps_script_function env function_name params st = (Inr body, st'))"
  by (simp add: log_expense_def log_expense_try_def call_apps_script_function_def
      call_apps_script_function_try_def dict_get_def py_str_def)

text \<open>
  The three layers at work: a timeout, a status 500 and a backend that reports
  \<open>Sheet not found\<close>.
\<close>

theorem failure_layers_witness:
  "log_expense network_failure_env (Flt 5) ''food'' () =
     (Inr [(''success'', JBool False), (''message'', JStr ''Request failed: timed out''),
           (''running_total'', JInt 0)], ())
   \<and> log_expense http_failure_env (Flt 5) ''food'' () =
     (Inr [(''success'', JBool False), (''message'', JStr ''HTTP error 500''),
           (''running_total'', JInt 0)], ())
   \<and> log_expense script_error_env (Flt 5) ''food'' () =
     (Inr [(''success'', JBool False), (''message'', JStr ''Apps Script error: Sheet not found''),
           (''running_total'', JInt 0)], ())
   \<and> call_apps_script_function network_failure_env ''getMonthlyStats'' [(''month'', JStr ''current'')] () =
     (Inr [(''success'', JBool False), (''message'', JStr ''Request failed: timed out'')], ())
   \<and> call_apps_script_function http_failure_env ''getMonthlyStats'' [(''month'', JStr ''current'')] () =
     (Inr [(''success'', JBool False), (''message'', JStr ''HTTP error 500'')], ())
   \<and> call_apps_script_function script_error_env ''getMonthlyStats'' [(''month'', JStr ''current'')] () =
     (Inr [(''success'', JBool False), (''error'', JStr ''Sheet not found'')], ())"
  using failure_layers [where env = network_failure_env and amount = "Flt 5" and category = "''food''"
      and st = "()" and st' = "()" and e = "Exn RequestException ''timed out''"
      and function_name = "''getMonthlyStats''" and params = "[(''month'', JStr ''current'')]"]
    failure_layers [where env = http_failure_env and amount = "Flt 5" and category = "''food''"
      and st = "()" and st' = "()"
      and response = "\<lparr>status_code = 500, json_body = Inl (Exn RequestException ''no body'')\<rparr>"
      and function_name = "''getMonthlyStats''" and params = "[(''month'', JStr ''current'')]"]
    failure_layers [where env = script_error_env and amount = "Flt 5" and category = "''food''"
      and st = "()" and st' = "()"
      and response = "\<lparr>status_code = 200,
                       json_body = Inr (JObj [(''success'', JBool False),
                                              (''error'', JStr ''Sheet not found'')])\<rparr>"
      and body = "[(''success'', JBool False), (''error'', JStr ''Sheet not found'')]"
      and err = "''Sheet not found''"
      and function_name = "''getMonthlyStats''" and params = "[(''month'', JStr ''current'')]"]
  by (simp add: network_failure_env_def http_failure_env_def script_error_env_def app_failure_env_def)

text \<open>
  In \<open>call_apps_script_function\<close> the result of an application-level failure is the backend's
  own dictionary: when the backend answers 200 with \<open>success = false\<close> and the message
  \<open>HTTP error 500\<close>, the result is the one of an answer with status 500.
\<close>

theorem failure_layers_counterexample:
  "call_apps_script_function app_failure_env ''getMonthlyStats'' [(''month'', JStr ''current'')] () =
     (Inr [(''success'', JBool False), (''message'', JStr ''HTTP error 500'')], ())
   \<and> call_apps_script_function http_failure_env ''getMonthlyStats'' [(''month'', JStr ''current'')] () =
     (Inr [(''success'', JBool False), (''message'', JStr ''HTTP error 500'')], ())
   \<and> map_sum id status_code
        (fst (post app_failure_env (JObj [(''action'', JStr ''getMonthlyStats''), (''month'', JStr ''current'')]) ()))
       = Inr 200
   \<and> map_sum id status_code
        (fst (post http_failure_env (JObj [(''action'', JStr ''getMonthlyStats''), (''month'', JStr ''current'')]) ()))
       = Inr 500"
  by (simp add: call_apps_script_function_def call_apps_script_function_try_def
      http_failure_env_def app_failure_env_def dict_merge_def dict_get_def)

section \<open>Claims about the staged analyzer\<close>

text \<open>
  C4, as amended. Parsing the stage-1 answer. A text without \<open>{\<close> or without \<open>}\<close> fails with
  the error \<open>No JSON found in response\<close>. In a text that has both, the JSON is what stands
  from the first \<open>{\<close> to the last \<open>}\<close>, and nothing when the last \<open>}\<close> stands before the first
  \<open>{\<close>: when the decoder rejects it, the stage fails with the decoder's error, and when it
  decodes to an object, the entries under \<open>categories\<close> are converted one by one, in their
  order. In an entry a missing field is replaced by its default: the name \<open>Unknown\<close>, the
  total 0, the count 0, no descriptions, no patterns. The example answer of the
  specification, the JSON between \<open>noise\<close> and \<open>tail\<close>, gives the single category \<open>Food\<close> with
  total 12.5 and count 1.
\<close>

theorem stage1_response_parsing:
  "(CHR ''{'' \<notin> set raw \<or> CHR ''}'' \<notin> set raw \<longrightarrow>
      parse_categorization_response env raw = Inl (Exn ValueError ''No JSON found in response''))
   \<and> (CHR ''{'' \<notin> set pre \<and> CHR ''}'' \<notin> set suf \<and> loads env (''{'' @ mid @ ''}'') = Inl e \<longrightarrow>
      parse_categorization_response env (pre @ ''{'' @ mid @ ''}'' @ suf) = Inl e)
   \<and> (CHR ''{'' \<notin> set pre \<and> CHR ''}'' \<notin> set suf \<and> CHR ''{'' \<notin> set mid \<and> CHR ''}'' \<notin> set mid
        \<and> loads env [] = Inl e \<longrightarrow>
      parse_categorization_response env (pre @ ''}'' @ mid @ ''{'' @ suf) = Inl e)
   \<and> (CHR ''{'' \<notin> set pre \<and> CHR ''}'' \<notin> set suf
        \<and> loads env (''{'' @ mid @ ''}'') = Inr (JObj data)
        \<and> map_of data ''categories'' = Some (JArr items) \<longrightarrow>
      parse_categorization_response env (pre @ ''{'' @ mid @ ''}'' @ suf) = categories_loop env items)
   \<and> (categories_loop env items = Inr cs \<longrightarrow>
      length cs = length items \<and> (\<forall>i<length items. category_of env (items ! i) = Inr (cs ! i)))
   \<and> (category_of env (JObj d) = Inr c \<longrightarrow>
        (map_of d ''name'' = None \<longrightarrow> name c = JStr ''Unknown'')
      \<and> (map_of d ''total_amount'' = None \<longrightarrow> total_amount c = Flt 0)
      \<and> (map_of d ''count'' = None \<longrightarrow> count c = 0)
      \<and> (map_of d ''descriptions'' = None \<longrightarrow> descriptions c = JArr [])
      \<and> (map_of d ''patterns'' = None \<longrightarrow> patterns c = JArr []))
   \<and> category_of env (JObj []) =
       Inr \<lparr>name = JStr ''Unknown'', total_amount = Flt 0, count = 0,
            descriptions = JArr [], patterns = JArr []\<rparr>
   \<and> (loads env example_json = Inr example_value \<longrightarrow>
      parse_categorization_response env example_response =
        Inr [\<lparr>name = JStr ''Food'', total_amount = Flt (25 / 2), count = 1,
              descriptions = JArr [JStr ''coffee''], patterns = JArr []\<rparr>])"
proof (intro conjI impI)
  show "parse_categorization_response env raw = Inl (Exn ValueError ''No JSON found in response'')"
    if "CHR ''{'' \<notin> set raw \<or> CHR ''}'' \<notin> set raw"
    using that by (rule parse_categorization_no_braces)
  show "parse_categorization_response env (pre @ ''{'' @ mid @ ''}'' @ suf) = Inl e"
    if "CHR ''{'' \<notin> set pre \<and> CHR ''}'' \<notin> set suf \<and> loads env (''{'' @ mid @ ''}'') = Inl e"
    using that parse_categorization_braces [of pre suf env mid] by simp
  show "parse_categorization_response env (pre @ ''}'' @ mid @ ''{'' @ suf) = Inl e"
    if "CHR ''{'' \<notin> set pre \<and> CHR ''}'' \<notin> set suf \<and> CHR ''{'' \<notin> set mid \<and> CHR ''}'' \<notin> set mid
        \<and> loads env [] = Inl e"
    using that parse_categorization_reversed [of pre suf mid env e] by simp
  show "parse_categorization_response env (pre @ ''{'' @ mid @ ''}'' @ suf) = categories_loop env items"
    if "CHR ''{'' \<notin> set pre \<and> CHR ''}'' \<notin> set suf
        \<and> loads env (''{'' @ mid @ ''}'') = Inr (JObj data)
        \<and> map_of data ''categories'' = Some (JArr items)"
    using that parse_categorization_braces [of pre suf env mid] by (simp add: dict_get_def py_iter_def)
  show "length cs = length items" if "categories_loop env items = Inr cs"
    using categories_loop_items [OF that] by simp
  show "\<forall>i<length items. category_of env (items ! i) = Inr (cs ! i)"
    if "categories_loop env items = Inr cs"
    using categories_loop_items [OF that] by simp
  show "name c = JStr ''Unknown''" if "category_of env (JObj d) = Inr c" "map_of d ''name'' = None"
    using category_of_defaults [OF that(1)] that(2) by simp
  show "total_amount c = Flt 0" if "category_of env (JObj d) = Inr c" "map_of d ''total_amount'' = None"
    using category_of_defaults [OF that(1)] that(2) by simp
  show "count c = 0" if "category_of env (JObj d) = Inr c" "map_of d ''count'' = None"
    using category_of_defaults [OF that(1)] that(2) by simp
  show "descriptions c = JArr []" if "category_of env (JObj d) = Inr c" "map_of d ''descriptions'' = None"
    using category_of_defaults [OF that(1)] that(2) by simp
  show "patterns c = JArr []" if "category_of env (JObj d) = Inr c" "map_of d ''patterns'' = None"
    using category_of_defaults [OF that(1)] that(2) by simp
  show "category_of env (JObj []) =
       Inr \<lparr>name = JStr ''Unknown'', total_amount = Flt 0, count = 0,
            descriptions = JArr [], patterns = JArr []\<rparr>"
    by (rule category_of_empty)
  show "parse_categorization_response env example_response =
        Inr [\<lparr>name = JStr ''Food'', total_amount = Flt (25 / 2), count = 1,
              descriptions = JArr [JStr ''coffee''], patterns = JArr []\<rparr>]"
    if "loads env example_json = Inr example_value"
    using that by (rule example_parsed)
qed

text \<open>
  A refusal without braces, an answer whose braces hold no JSON, an answer whose braces
  are the wrong way round, the example, and an entry with two of its five fields.
\<close>

theorem stage1_response_parsing_witness:
  "parse_categorization_response example_env ''I cannot answer that.'' =
     Inl (Exn ValueError ''No JSON found in response'')
   \<and> parse_categorization_response example_env ''Here: {oops} done'' =
     Inl (Exn JSONDecodeError ''Expecting value'')
   \<and> parse_categorization_response example_env ''Here: }oops{ done'' =
     Inl (Exn JSONDecodeError ''Expecting value'')
   \<and> parse_categorization_response example_env example_response =
     Inr [\<lparr>name = JStr ''Food'', total_amount = Flt (25 / 2), count = 1,
           descriptions = JArr [JStr ''coffee''], patterns = JArr []\<rparr>]
   \<and> category_of example_env (JObj [(''name'', JStr ''Rent''), (''count'', JInt 2)]) =
     Inr \<lparr>name = JStr ''Rent'', total_amount = Flt 0, count = 2,
          descriptions = JArr [], patterns = JArr []\<rparr>"
  using stage1_response_parsing [where env = example_env and raw = "''I cannot answer that.''"
      and pre = "''Here: ''" and mid = "''oops''" and suf = "'' done''"
      and e = "Exn JSONDecodeError ''Expecting value''"
      and d = "[(''name'', JStr ''Rent''), (''count'', JInt 2)]"
      and c = "\<lparr>name = JStr ''Rent'', total_amount = Flt 0, count = 2,
                 descriptions = JArr [], patterns = JArr []\<rparr>"
      and items = "[JObj [(''name'', JStr ''Rent''), (''count'', JInt 2)]]"
      and cs = "[\<lparr>name = JStr ''Rent'', total_amount = Flt 0, count = 2,
                 descriptions = JArr [], patterns = JArr []\<rparr>]"]
  by (simp add: example_env_def app_failure_env_def example_json_def example_body_def quoted_def
      category_of_def dict_get_def py_float_def py_int_def float_of_int_def)

text \<open>
  C4 as stated fails: the text \<open>}{\<close> has no substring from a first \<open>{\<close> to a last \<open>}\<close>, and the
  stage fails with the decoder's error on the empty text, not with
  \<open>No JSON found in response\<close>.
\<close>

theorem stage1_response_parsing_counterexample:
  "parse_categorization_response example_env ''}{'' = Inl (Exn JSONDecodeError ''Expecting value'')"
  by (simp add: parse_categorization_response_def parse_categorization_response_try_def
      str_find_def str_rfind_def slice_def example_env_def app_failure_env_def example_json_def)

text \<open>
  C6, as amended. The pattern stage calls the model once for each category whose count is
  above 1 and for no other: when the stage returns, the number of calls made is the number
  of such categories, and when it is left by an exception, at most that number. A category
  whose count is at most 1 passes through unchanged, with the patterns that stage 1 read
  for it, which are empty when the entry of the model has no \<open>patterns\<close> field; a list of
  such categories is returned as it is, with no call at all.
\<close>

theorem pattern_stage_model_calls:
  "(analyze_patterns_flow (counting env) cats (n, st) = (Inr cats', (n', st')) \<longrightarrow>
      n' = n + length (filter (\<lambda>c. 1 < count c) cats)
      \<and> analyze_patterns_flow env cats st = (Inr cats', st')
      \<and> length cats' = length cats
      \<and> (\<forall>i<length cats. count (cats ! i) \<le> 1 \<longrightarrow> cats' ! i = cats ! i))
   \<and> (analyze_patterns_flow (counting env) cats (n, st) = (r, (m, st')) \<longrightarrow>
      m \<le> n + length (filter (\<lambda>c. 1 < count c) cats))
   \<and> ((\<forall>c\<in>set singles. count c \<le> 1) \<longrightarrow> analyze_patterns_flow env singles st = (Inr singles, st))
   \<and> (category_of env (JObj d) = Inr c \<and> map_of d ''patterns'' = None \<longrightarrow> patterns c = JArr [])"
proof (intro conjI impI)
  assume a: "analyze_patterns_flow (counting env) cats (n, st) = (Inr cats', (n', st'))"
  then have l: "analyze_patterns_loop (counting env) cats (n, st) = (Inr cats', (n', st'))"
    by (simp add: flow_loop)
  from loop_counting [OF l]
  have n: "n' = n + length (filter (\<lambda>c. 1 < count c) cats)"
    and p: "analyze_patterns_loop env cats st = (Inr cats', st')" by simp_all
  show "n' = n + length (filter (\<lambda>c. 1 < count c) cats)" by (rule n)
  show "analyze_patterns_flow env cats st = (Inr cats', st')" using p by (simp add: flow_loop)
  show "length cats' = length cats" using p by (rule loop_keeps(1))
  show "\<forall>i<length cats. count (cats ! i) \<le> 1 \<longrightarrow> cats' ! i = cats ! i"
    using p by (rule loop_keeps(2))
next
  assume "analyze_patterns_flow (counting env) cats (n, st) = (r, (m, st'))"
  then have "analyze_patterns_loop (counting env) cats (n, st) = (r, (m, st'))"
    by (simp add: flow_loop)
  then show "m \<le> n + length (filter (\<lambda>c. 1 < count c) cats)" by (rule loop_count_le)
next
  assume "\<forall>c\<in>set singles. count c \<le> 1"
  then show "analyze_patterns_flow env singles st = (Inr singles, st)"
    by (simp add: flow_loop loop_no_calls)
next
  assume "category_of env (JObj d) = Inr c \<and> map_of d ''patterns'' = None"
  then show "patterns c = JArr []" using category_of_defaults [of env d c] by simp
qed

text \<open>
  Three categories with the counts 3, 2 and 1: two calls of the model, and the third
  category is returned as it came.
\<close>

theorem pattern_stage_model_calls_witness:
  "analyze_patterns_flow (counting demo_env) [demo_food, demo_coffee, demo_other] (0, ())
     = (Inr [demo_food\<lparr>patterns := JArr [JStr ''matcha latte 2 times'']\<rparr>, demo_coffee, demo_other],
        (2, ()))
   \<and> length (filter (\<lambda>c. 1 < count c) [demo_food, demo_coffee, demo_other]) = 2
   \<and> analyze_patterns_flow demo_env [demo_food, demo_coffee, demo_other] ()
     = (Inr [demo_food\<lparr>patterns := JArr [JStr ''matcha latte 2 times'']\<rparr>, demo_coffee, demo_other], ())
   \<and> analyze_patterns_flow demo_env [demo_other] () = (Inr [demo_other], ())
   \<and> category_of demo_env (JObj [(''name'', JStr ''Rent''), (''count'', JInt 1)])
     = Inr \<lparr>name = JStr ''Rent'', total_amount = Flt 0, count = 1,
            descriptions = JArr [], patterns = JArr []\<rparr>"
  using pattern_stage_model_calls [where env = demo_env
      and cats = "[demo_food, demo_coffee, demo_other]" and n = 0 and st = "()"
      and cats' = "[demo_food\<lparr>patterns := JArr [JStr ''matcha latte 2 times'']\<rparr>, demo_coffee, demo_other]"
      and n' = 2 and st' = "()"
      and r = "Inr [demo_food\<lparr>patterns := JArr [JStr ''matcha latte 2 times'']\<rparr>, demo_coffee, demo_other]"
      and m = 2 and singles = "[demo_other]"
      and d = "[(''name'', JStr ''Rent''), (''count'', JInt 1)]"
      and c = "\<lparr>name = JStr ''Rent'', total_amount = Flt 0, count = 1,
                 descriptions = JArr [], patterns = JArr []\<rparr>"]
    demo_counting
  by (simp add: demo_food_def demo_coffee_def demo_other_def category_of_def dict_get_def
      py_float_def py_int_def float_of_int_def)

text \<open>
  C6 as stated fails: the model's stage-1 answer gives the category \<open>Other\<close> the count 1 and
  the pattern \<open>one-off\<close>, and the category leaves the pattern stage with that pattern.
\<close>

theorem pattern_stage_model_calls_counterexample:
  "parse_categorization_response demo_env (demo_answer (CategorizationPrompt []))
     = Inr [demo_food, demo_coffee, demo_other]
   \<and> analyze_patterns_flow demo_env [demo_food, demo_coffee, demo_other] ()
     = (Inr [demo_food\<lparr>patterns := JArr [JStr ''matcha latte 2 times'']\<rparr>, demo_coffee, demo_other], ())
   \<and> count demo_other = 1
   \<and> patterns demo_other = JArr [JStr ''one-off'']"
  using demo_stage1_parse demo_patterns
  by (simp add: demo_answer_def demo_other_def)

text \<open>
  C5. In stages 2 and 3 an answer of the model without a brace pair, or whose text from the
  first \<open>{\<close> to the last \<open>}\<close> the decoder rejects, gives the empty list of patterns, and the
  empty lists of insights and of recommendations; an answer whose JSON is an object gives
  what the object holds under \<open>patterns\<close>, \<open>insights\<close> and \<open>recommendations\<close>. Whenever the
  prompts can be built and the model answers, whatever the answers are, the pattern stage
  returns, each category with a count above 1 carrying the patterns read from its own
  answer and every other category unchanged. The insights stage returns what it reads from
  the answer, and with an answer that holds no JSON the analysis completes, its insights
  and recommendations empty.
\<close>

theorem localized_parse_failures:
  "(CHR ''{'' \<notin> set raw \<or> CHR ''}'' \<notin> set raw
      \<or> loads env (slice raw (str_find (CHR ''{'') raw) (str_rfind (CHR ''}'') raw + 1)) = Inl e \<longrightarrow>
      extract_patterns_from_response env raw = JArr []
      \<and> parse_insights_response env raw = (JArr [], JArr []))
   \<and> (CHR ''{'' \<notin> set pre \<and> CHR ''}'' \<notin> set suf \<and> loads env (''{'' @ mid @ ''}'') = Inl e \<longrightarrow>
      extract_patterns_from_response env (pre @ ''{'' @ mid @ ''}'' @ suf) = JArr []
      \<and> parse_insights_response env (pre @ ''{'' @ mid @ ''}'' @ suf) = (JArr [], JArr []))
   \<and> (CHR ''{'' \<notin> set pre \<and> CHR ''}'' \<notin> set suf \<and> loads env (''{'' @ mid @ ''}'') = Inr (JObj data) \<longrightarrow>
      extract_patterns_from_response env (pre @ ''{'' @ mid @ ''}'' @ suf) = dict_get data ''patterns'' (JArr [])
      \<and> parse_insights_response env (pre @ ''{'' @ mid @ ''}'' @ suf) =
          (dict_get data ''insights'' (JArr []), dict_get data ''recommendations'' (JArr [])))
   \<and> (length (pattern_responses env cats st) = length cats \<longrightarrow>
      (\<exists>st'. analyze_patterns_flow env cats st =
         (Inr (map (\<lambda>(c, a). with_patterns env c a) (zip cats (pattern_responses env cats st))), st')))
   \<and> (i < length (pattern_responses env cats st) \<longrightarrow>
      (pattern_responses env cats st ! i = None) = (count (cats ! i) \<le> 1))
   \<and> (create_insights_prompt env cats total_sum k = Inr p \<and> chat env p st = (Inr answer, st') \<longrightarrow>
      generate_insights_flow env cats total_sum k st = (Inr (parse_insights_response env answer), st'))
   \<and> (extract_expense_data env per sa = (Inr df, sb) \<and> \<not> df_empty df
        \<and> categorize_expenses_flow env df sb = (Inr found, sc)
        \<and> analyze_patterns_flow env found sc = (Inr analysed, sd)
        \<and> create_insights_prompt env analysed (sum_floats env (map total_amount analysed))
             (sum_list (map count analysed)) = Inr q
        \<and> chat env q sd = (Inr reply, se)
        \<and> parse_insights_response env reply = (JArr [], JArr []) \<longrightarrow>
      analyze_expenses env per sa =
        (Inr \<lparr>period = per,
              total_expenses = sum_floats env (map total_amount analysed),
              total_transactions = sum_list (map count analysed),
              categories = analysed,
              insights = JArr [],
              recommendations = JArr [],
              analysis_date = now env\<rparr>, se))"
proof (intro conjI impI)
  assume a: "CHR ''{'' \<notin> set raw \<or> CHR ''}'' \<notin> set raw
      \<or> loads env (slice raw (str_find (CHR ''{'') raw) (str_rfind (CHR ''}'') raw + 1)) = Inl e"
  show "extract_patterns_from_response env raw = JArr []" using a by (rule not_json_empty(1))
  show "parse_insights_response env raw = (JArr [], JArr [])" using a by (rule not_json_empty(2))
next
  assume a: "CHR ''{'' \<notin> set pre \<and> CHR ''}'' \<notin> set suf \<and> loads env (''{'' @ mid @ ''}'') = Inl e"
  show "extract_patterns_from_response env (pre @ ''{'' @ mid @ ''}'' @ suf) = JArr []"
    using a extract_patterns_braces [of pre suf env mid] by simp
  show "parse_insights_response env (pre @ ''{'' @ mid @ ''}'' @ suf) = (JArr [], JArr [])"
    using a parse_insights_braces [of pre suf env mid] by simp
next
  assume a: "CHR ''{'' \<notin> set pre \<and> CHR ''}'' \<notin> set suf \<and> loads env (''{'' @ mid @ ''}'') = Inr (JObj data)"
  show "extract_patterns_from_response env (pre @ ''{'' @ mid @ ''}'' @ suf) = dict_get data ''patterns'' (JArr [])"
    using a extract_patterns_braces [of pre suf env mid] by simp
  show "parse_insights_response env (pre @ ''{'' @ mid @ ''}'' @ suf) =
          (dict_get data ''insights'' (JArr []), dict_get data ''recommendations'' (JArr []))"
    using a parse_insights_braces [of pre suf env mid] by simp
next
  assume "length (pattern_responses env cats st) = length cats"
  then show "\<exists>st'. analyze_patterns_flow env cats st =
         (Inr (map (\<lambda>(c, a). with_patterns env c a) (zip cats (pattern_responses env cats st))), st')"
    unfolding flow_loop by (rule loop_responses)
next
  assume "i < length (pattern_responses env cats st)"
  then show "(pattern_responses env cats st ! i = None) = (count (cats ! i) \<le> 1)"
    by (rule responses_none)
next
  assume "create_insights_prompt env cats total_sum k = Inr p \<and> chat env p st = (Inr answer, st')"
  then show "generate_insights_flow env cats total_sum k st = (Inr (parse_insights_response env answer), st')"
    by (simp add: generate_insights_flow_def generate_insights_flow_try_def get_ai_response_def)
next
  assume a: "extract_expense_data env per sa = (Inr df, sb) \<and> \<not> df_empty df
        \<and> categorize_expenses_flow env df sb = (Inr found, sc)
        \<and> analyze_patterns_flow env found sc = (Inr analysed, sd)
        \<and> create_insights_prompt env analysed (sum_floats env (map total_amount analysed))
             (sum_list (map count analysed)) = Inr q
        \<and> chat env q sd = (Inr reply, se)
        \<and> parse_insights_response env reply = (JArr [], JArr [])"
  then show "analyze_expenses env per sa =
        (Inr \<lparr>period = per,
              total_expenses = sum_floats env (map total_amount analysed),
              total_transactions = sum_list (map count analysed),
              categories = analysed,
              insights = JArr [],
              recommendations = JArr [],
              analysis_date = now env\<rparr>, se)"
    using analyze_completes [of env per sa df sb found sc analysed sd q reply se] by simp
qed

text \<open>
  The run of \<^const>\<open>demo_env\<close>: the answer for \<open>Coffee\<close> holds no JSON and only its patterns are
  empty, \<open>Food\<close> has the pattern of the model, and the analysis completes although the
  answer of the insights stage holds no JSON.
\<close>

theorem localized_parse_failures_witness:
  "extract_patterns_from_response demo_env ''I see no pattern here.'' = JArr []
   \<and> parse_insights_response demo_env ''{spend less}'' = (JArr [], JArr [])
   \<and> extract_patterns_from_response demo_env demo_patterns_json = JArr [JStr ''matcha latte 2 times'']
   \<and> pattern_responses demo_env [demo_food, demo_coffee, demo_other] ()
       = [Some demo_patterns_json, Some ''I see no pattern here.'', None]
   \<and> analyze_patterns_flow demo_env [demo_food, demo_coffee, demo_other] ()
       = (Inr [demo_food\<lparr>patterns := JArr [JStr ''matcha latte 2 times'']\<rparr>, demo_coffee, demo_other], ())
   \<and> analyze_expenses demo_env ''monthly'' () = (Inr demo_result, ())"
proof -
  let ?cats1 = "[demo_food, demo_coffee, demo_other]"
  let ?cats2 = "[demo_food\<lparr>patterns := JArr [JStr ''matcha latte 2 times'']\<rparr>, demo_coffee, demo_other]"
  have l1: "loads demo_env (''{'' @ ''spend less'' @ ''}'') = Inl (Exn JSONDecodeError ''Expecting value'')"
    by (simp add: demo_fields demo_loads_def demo_categories_json_def demo_patterns_json_def
        demo_categories_body_def demo_patterns_body_def quoted_def)
  have l2: "loads demo_env (''{'' @ demo_patterns_body @ ''}'')
              = Inr (JObj [(''patterns'', JArr [JStr ''matcha latte 2 times''])])"
    using demo_jsons_differ
    by (simp add: demo_fields demo_loads_def demo_patterns_json_def demo_patterns_value_def)
  have r: "pattern_responses demo_env ?cats1 ()
             = [Some demo_patterns_json, Some ''I see no pattern here.'', None]"
    by (rule demo_responses)
  have ne: "\<not> df_empty (create_sample_data ''monthly'')"
    by (simp add: df_empty_def create_sample_data_def)
  have s: "sum_floats demo_env (map total_amount ?cats2) = JReal (Flt (195 / 4))"
    by (simp add: demo_fields demo_sum_def exact_add_def demo_food_def demo_coffee_def demo_other_def)
  have n: "sum_list (map count ?cats2) = 6"
    by (simp add: demo_food_def demo_coffee_def demo_other_def)
  obtain q where q: "create_insights_prompt demo_env ?cats2 (JReal (Flt (195 / 4))) 6 = Inr q"
    and a: "demo_answer q = ''{spend less}''"
    by (simp add: create_insights_prompt_def format_2f_def demo_answer_def)
  have c: "chat demo_env q () = (Inr ''{spend less}'', ())" by (simp add: demo_fields a)
  have k: "demo_coffee\<lparr>patterns := JArr []\<rparr> = demo_coffee" by (simp add: demo_coffee_def)
  note t1 = localized_parse_failures [where env = demo_env and raw = "''I see no pattern here.''"
      and pre = "[]" and mid = "''spend less''" and suf = "[]"
      and e = "Exn JSONDecodeError ''Expecting value''"
      and cats = ?cats1 and st = "()" and i = 2
      and total_sum = "JReal (Flt (195 / 4))" and k = 6 and p = q and answer = "''{spend less}''"
      and st' = "()" and per = "''monthly''" and sa = "()" and df = "create_sample_data ''monthly''"
      and sb = "()" and found = ?cats1 and sc = "()" and analysed = ?cats2 and sd = "()"
      and q = q and reply = "''{spend less}''" and se = "()"]
  note t2 = localized_parse_failures [where env = demo_env and pre = "[]" and mid = demo_patterns_body
      and suf = "[]" and data = "[(''patterns'', JArr [JStr ''matcha latte 2 times''])]"]
  have 1: "extract_patterns_from_response demo_env ''I see no pattern here.'' = JArr []"
    using t1 by simp
  have 2: "parse_insights_response demo_env ''{spend less}'' = (JArr [], JArr [])"
    using t1 l1 by simp
  have 3: "extract_patterns_from_response demo_env demo_patterns_json = JArr [JStr ''matcha latte 2 times'']"
    using t2 l2 by (simp add: demo_patterns_json_def dict_get_def)
  have 5: "analyze_patterns_flow demo_env ?cats1 () = (Inr ?cats2, ())"
    using t1 r 1 3 k by (simp add: with_patterns_def)
  have 6: "analyze_expenses demo_env ''monthly'' () = (Inr demo_result, ())"
    using t1 demo_extract ne demo_categorize 5 s n q c 2
    by (simp add: demo_result_def demo_fields(4) del: list.map sum_list.Cons)
  from 1 2 3 r 5 6 show ?thesis by simp
qed

text \<open>
  C3, as amended. In every result that \<open>analyze_expenses\<close> returns, the total of the expenses
  is the value of \<open>sum\<close> over the totals of the result's categories, and the number of
  transactions is the sum of their counts; the categories are those of stage 1 with the
  totals and counts that stage 1 gave them, stage 2 changing neither. The comparison \<open>==\<close>
  of the total with that sum holds exactly when the total is a number other than NaN.
\<close>

theorem analysis_totals:
  assumes "analyze_expenses env per st = (Inr r, st')"
  shows "total_expenses r = sum_floats env (map total_amount (categories r))
         \<and> total_transactions r = sum_list (map count (categories r))
         \<and> (\<exists>df sb found sc sd.
               categorize_expenses_flow env df sb = (Inr found, sc)
             \<and> analyze_patterns_flow env found sc = (Inr (categories r), sd)
             \<and> map total_amount (categories r) = map total_amount found
             \<and> map count (categories r) = map count found)
         \<and> total_eq (total_expenses r) (sum_floats env (map total_amount (categories r)))
             = comparable_number (total_expenses r)"
proof -
  from analyze_result [OF assms] obtain df sb found sc sd ins recs where
    c: "categorize_expenses_flow env df sb = (Inr found, sc)" and
    a: "analyze_patterns_flow env found sc = (Inr (categories r), sd)" and
    r: "r = \<lparr>period = per,
             total_expenses = sum_floats env (map total_amount (categories r)),
             total_transactions = sum_list (map count (categories r)),
             categories = categories r, insights = ins, recommendations = recs,
             analysis_date = now env\<rparr>"
    by blast
  have l: "analyze_patterns_loop env found sc = (Inr (categories r), sd)"
    using a by (simp add: flow_loop)
  have te: "total_expenses r = sum_floats env (map total_amount (categories r))"
    by (subst r) simp
  have tt: "total_transactions r = sum_list (map count (categories r))"
    by (subst r) simp
  have "\<exists>df sb found sc sd.
               categorize_expenses_flow env df sb = (Inr found, sc)
             \<and> analyze_patterns_flow env found sc = (Inr (categories r), sd)
             \<and> map total_amount (categories r) = map total_amount found
             \<and> map count (categories r) = map count found"
    using c a loop_keeps(3,4) [OF l] by blast
  moreover have "total_eq (total_expenses r) (sum_floats env (map total_amount (categories r)))
             = comparable_number (total_expenses r)"
    using te total_eq_refl [of "total_expenses r"] by simp
  ultimately show ?thesis using te tt by blast
qed

text \<open>
  In the run of \<^const>\<open>demo_env\<close> the totals are 48.75 and 6.
\<close>

theorem analysis_totals_witness:
  "total_expenses demo_result = JReal (Flt (195 / 4))
   \<and> sum_floats demo_env (map total_amount (categories demo_result)) = JReal (Flt (195 / 4))
   \<and> total_transactions demo_result = 6
   \<and> sum_list (map count (categories demo_result)) = 6
   \<and> total_eq (total_expenses demo_result) (sum_floats demo_env (map total_amount (categories demo_result)))"
  using analysis_totals [OF demo_run]
  by (simp add: demo_result_def comparable_number_def demo_fields(3) demo_sum_def exact_add_def
      demo_food_def demo_coffee_def demo_other_def)

text \<open>
  C3 as stated fails: when the model reports the total \<open>NaN\<close> for a category, the total of
  the result is NaN, the sum over the categories is NaN, and the two are not \<open>==\<close>.
\<close>

theorem analysis_totals_counterexample:
  "analyze_expenses nan_env ''monthly'' () = (Inr nan_result, ())
   \<and> total_expenses nan_result = JReal NaN
   \<and> sum_floats nan_env (map total_amount (categories nan_result)) = JReal NaN
   \<and> \<not> total_eq (total_expenses nan_result) (sum_floats nan_env (map total_amount (categories nan_result)))"
  using nan_run
  by (simp add: nan_result_def nan_fields(3) demo_sum_def exact_add_def total_eq_def float_eq_def)

section \<open>Claims about the outcome of the operations\<close>




end
